theory Spec2Isabelle
  imports Complex_Main "HOL-Library.Word" "HOL-Library.Log_Nat"
begin

section \<open>Buffers and hexadecimal strings\<close>

text \<open>
  A Node \<open>Buffer\<close> is a list of bytes. \<open>Buffer.from([n])\<close> stores \<open>n\<close> modulo 256,
  which is what \<open>of_nat\<close> into \<open>8 word\<close> does.
\<close>

type_synonym byte = "8 word"
type_synonym Buffer = "byte list"

definition hexChar :: "nat \<Rightarrow> char" where
  "hexChar n = ''0123456789abcdef'' ! (n mod 16)"

text \<open>\<open>buf.toString('hex')\<close>: two lower-case digits per byte.\<close>

definition toString_hex :: "Buffer \<Rightarrow> string" where
  "toString_hex buf = concat (map (\<lambda>b. [hexChar (unat b div 16), hexChar (unat b mod 16)]) buf)"

definition unhex :: "char \<Rightarrow> nat option" where
  "unhex c =
     (let n = of_char c :: nat in
      if 48 \<le> n \<and> n \<le> 57 then Some (n - 48)
      else if 97 \<le> n \<and> n \<le> 102 then Some (n - 87)
      else if 65 \<le> n \<and> n \<le> 70 then Some (n - 55)
      else None)"

text \<open>
  \<open>Buffer.from(s, 'hex')\<close>: decodes pairs of hexadecimal digits (either case) and stops
  at the first pair that is not hexadecimal; a trailing single character is dropped.
\<close>

fun Buffer_from_hex :: "string \<Rightarrow> Buffer" where
  "Buffer_from_hex (a # b # rest) =
     (case (unhex a, unhex b) of
        (Some x, Some y) \<Rightarrow> (of_nat (16 * x + y) :: byte) # Buffer_from_hex rest
      | _ \<Rightarrow> [])"
| "Buffer_from_hex _ = []"

section \<open>JavaScript numbers\<close>

text \<open>
  A JavaScript number is an IEEE 754 double. The amounts of the repository are integers
  below \<open>2^53\<close>, on which JavaScript's addition, subtraction and comparison are exact;
  they are \<open>int\<close> here. A fee rate may be any finite double, which is a rational number,
  and the product \<open>estimatedSize * feeRate\<close> is the exact product rounded to the nearest
  double, ties to even: 53 significant bits, the exponent not below \<open>-1022\<close>.
  \<open>double_round\<close> is that rounding. A rational that is not a double stands for the
  number that JavaScript reads from its decimal notation, the double nearest to it: the fee
  rate \<open>11 / 10\<close> is the number \<open>1.1\<close>. \<open>NaN\<close>, the infinities and a
  product of \<open>2^1024\<close> or more (which JavaScript rounds to \<open>Infinity\<close>) are
  outside the model.
\<close>

definition pow2 :: "int \<Rightarrow> rat" where
  "pow2 e = (if 0 \<le> e then 2 ^ nat e else 1 / 2 ^ nat (- e))"

text \<open>The exponent \<open>e\<close> of a positive rational \<open>x\<close>: \<open>2^e \<le> x < 2^(e+1)\<close>.\<close>

definition exponent2 :: "rat \<Rightarrow> int" where
  "exponent2 x =
     (let d = bitlen (fst (quotient_of x)) - bitlen (snd (quotient_of x))
      in if x < pow2 d then d - 1 else d)"

definition roundHalfEven :: "rat \<Rightarrow> int" where
  "roundHalfEven q =
     (let f = \<lfloor>q\<rfloor>; r = q - of_int f
      in if r < 1 / 2 then f
         else if 1 / 2 < r then f + 1
         else if even f then f else f + 1)"

definition double_round :: "rat \<Rightarrow> rat" where
  "double_round x =
     (if x = 0 then 0
      else
        (let e = max (exponent2 \<bar>x\<bar>) (- 1022);
             ulp = pow2 (e - 52)
         in of_int (roundHalfEven (x / ulp)) * ulp))"

text \<open>
  The operator \<open>*\<close> on two numbers, and \<open>Math.ceil\<close>. The operands are
  doubles: rounding them changes nothing when they already are.
\<close>

definition js_times :: "rat \<Rightarrow> rat \<Rightarrow> rat" where
  "js_times a b = double_round (double_round a * double_round b)"

definition Math_ceil :: "rat \<Rightarrow> int" where
  "Math_ceil x = \<lceil>x\<rceil>"

section \<open>Script assembly of bitcoinjs-lib\<close>

text \<open>
  The repository calls \<open>bitcoin.script.compile\<close> and \<open>bitcoin.script.number.encode\<close> of
  bitcoinjs-lib on the chunks it assembles. Both are byte-level functions fixed by
  Bitcoin's script format; they are written out here because the script bytes of the
  repository's builders depend on them.
\<close>

datatype chunk = Op nat | Data Buffer

definition OP_0 :: nat where "OP_0 = 0"
definition OP_PUSHDATA1 :: nat where "OP_PUSHDATA1 = 76"
definition OP_PUSHDATA2 :: nat where "OP_PUSHDATA2 = 77"
definition OP_PUSHDATA4 :: nat where "OP_PUSHDATA4 = 78"
definition OP_1NEGATE :: nat where "OP_1NEGATE = 79"
definition OP_INT_BASE :: nat where "OP_INT_BASE = 80"
definition OP_IF :: nat where "OP_IF = 99"
definition OP_ELSE :: nat where "OP_ELSE = 103"
definition OP_ENDIF :: nat where "OP_ENDIF = 104"
definition OP_DROP :: nat where "OP_DROP = 117"
definition OP_DUP :: nat where "OP_DUP = 118"
definition OP_EQUAL :: nat where "OP_EQUAL = 135"
definition OP_EQUALVERIFY :: nat where "OP_EQUALVERIFY = 136"
definition OP_SHA256 :: nat where "OP_SHA256 = 168"
definition OP_HASH160 :: nat where "OP_HASH160 = 169"
definition OP_CHECKSIG :: nat where "OP_CHECKSIG = 172"
definition OP_CHECKLOCKTIMEVERIFY :: nat where "OP_CHECKLOCKTIMEVERIFY = 177"

text \<open>Little-endian bytes of a number, \<open>k\<close> of them (\<open>writeUInt16LE\<close>, \<open>writeUInt32LE\<close>).\<close>

fun bytesLE :: "nat \<Rightarrow> int \<Rightarrow> Buffer" where
  "bytesLE 0 n = []"
| "bytesLE (Suc k) n = (of_int n :: byte) # bytesLE k (n div 256)"

text \<open>\<open>pushdata.encode\<close>: the prefix that announces a data push of \<open>n\<close> bytes.\<close>

definition pushdata_encode :: "nat \<Rightarrow> Buffer" where
  "pushdata_encode n =
     (if n < OP_PUSHDATA1 then [of_nat n]
      else if n \<le> 255 then [of_nat OP_PUSHDATA1, of_nat n]
      else if n \<le> 65535 then of_nat OP_PUSHDATA2 # bytesLE 2 (int n)
      else of_nat OP_PUSHDATA4 # bytesLE 4 (int n))"

text \<open>\<open>asMinimalOP\<close>: the opcode that replaces a push of an empty or small one-byte buffer.\<close>

definition asMinimalOP :: "Buffer \<Rightarrow> nat option" where
  "asMinimalOP buffer =
     (if length buffer = 0 then Some OP_0
      else if length buffer \<noteq> 1 then None
      else if 1 \<le> unat (buffer ! 0) \<and> unat (buffer ! 0) \<le> 16
        then Some (OP_INT_BASE + unat (buffer ! 0))
      else if unat (buffer ! 0) = 129 then Some OP_1NEGATE
      else None)"

fun compile_chunk :: "chunk \<Rightarrow> Buffer" where
  "compile_chunk (Op opcode) = [of_nat opcode]"
| "compile_chunk (Data d) =
     (case asMinimalOP d of
        Some opcode \<Rightarrow> [of_nat opcode]
      | None \<Rightarrow> pushdata_encode (length d) @ d)"

definition script_compile :: "chunk list \<Rightarrow> Buffer" where
  "script_compile chunks = concat (map compile_chunk chunks)"

text \<open>
  \<open>script.number.encode\<close>. The loop uses \<open>value & 0xff\<close> and \<open>value >>= 8\<close>, which
  JavaScript evaluates on the 32-bit two's complement reading of \<open>value\<close>.
\<close>

definition toInt32 :: "int \<Rightarrow> int" where
  "toInt32 v = (v + 2147483648) mod 4294967296 - 2147483648"

definition scriptNumSize :: "int \<Rightarrow> nat" where
  "scriptNumSize i =
     (if i > 2147483647 then 5
      else if i > 8388607 then 4
      else if i > 32767 then 3
      else if i > 127 then 2
      else if i > 0 then 1
      else 0)"

fun number_encode_loop :: "nat \<Rightarrow> int \<Rightarrow> Buffer" where
  "number_encode_loop 0 v = []"
| "number_encode_loop (Suc k) v =
     (of_int (toInt32 v mod 256) :: byte) # number_encode_loop k (toInt32 v div 256)"

definition script_number_encode :: "int \<Rightarrow> Buffer" where
  "script_number_encode n =
     (let v = \<bar>n\<bar>;
          size = scriptNumSize v;
          buffer = number_encode_loop size v;
          negative = (n < 0)
      in if size = 0 then buffer
         else if unat (buffer ! (size - 1)) \<ge> 128
           then buffer[size - 1 := (if negative then 128 else 0)]
         else if negative
           then buffer[size - 1 := of_nat (unat (buffer ! (size - 1)) + 128)]
         else buffer)"

text \<open>
  \<open>scriptWitnessToWitnessStack\<close>: how bitcoinjs-lib reads the \<open>finalScriptWitness\<close> bytes
  that a finalizer returns. It reads a compact-size count and then that many
  compact-size-prefixed slices. A read past the end of the buffer throws (\<open>None\<close>); a slice
  that runs past the end is cut short, as \<open>Buffer.slice\<close> does.
\<close>

definition leToInt :: "Buffer \<Rightarrow> int" where
  "leToInt bs = foldr (\<lambda>b acc. uint b + 256 * acc) bs 0"

definition leToNat :: "Buffer \<Rightarrow> nat" where
  "leToNat bs = nat (leToInt bs)"

definition readVarInt :: "Buffer \<Rightarrow> (nat \<times> Buffer) option" where
  "readVarInt buffer =
     (case buffer of
        [] \<Rightarrow> None
      | first # rest \<Rightarrow>
          if unat first < 253 then Some (unat first, rest)
          else if unat first = 253 then
            (if length rest < 2 then None else Some (leToNat (take 2 rest), drop 2 rest))
          else if unat first = 254 then
            (if length rest < 4 then None else Some (leToNat (take 4 rest), drop 4 rest))
          else
            (if length rest < 8 \<or> leToInt (take 8 rest) > 9007199254740991 then None
             else Some (leToNat (take 8 rest), drop 8 rest)))"

fun readVector :: "nat \<Rightarrow> Buffer \<Rightarrow> Buffer list option" where
  "readVector 0 buffer = Some []"
| "readVector (Suc count) buffer =
     (case readVarInt buffer of
        None \<Rightarrow> None
      | Some (n, rest) \<Rightarrow>
          (case readVector count (drop n rest) of
             None \<Rightarrow> None
           | Some vector \<Rightarrow> Some (take n rest # vector)))"

definition scriptWitnessToWitnessStack :: "Buffer \<Rightarrow> Buffer list option" where
  "scriptWitnessToWitnessStack buffer =
     (case readVarInt buffer of
        None \<Rightarrow> None
      | Some (count, rest) \<Rightarrow> readVector count rest)"

section \<open>The interface of bitcoinjs-lib and ecpair\<close>

text \<open>
  The records below are the data the repository exchanges with bitcoinjs-lib. The
  operations of the library whose results the repository only passes on (hash functions,
  address encoding, key handling, signing, the transaction codec, the library's own
  argument checks) are not part of the repository: they are the fields of the record
  \<open>bitcoinjs\<close>, and every definition of the repository's code takes that record as its
  first argument. A library call that throws is \<open>None\<close> (or \<open>False\<close> for a check).
\<close>

record Network =
  messagePrefix :: string
  bech32 :: string
  bip32_public :: int
  bip32_private :: int
  pubKeyHash :: int
  net_scriptHash :: int
  wif :: int

record TxInput =
  in_hash :: Buffer
  in_index :: int
  in_script :: Buffer
  in_sequence :: int
  in_witness :: "Buffer list"

record TxOutput =
  out_script :: Buffer
  out_value :: int

record Transaction =
  tx_version :: int
  tx_locktime :: int
  ins :: "TxInput list"
  outs :: "TxOutput list"

record PsbtInput =
  pin_hash :: string
  pin_index :: int
  witnessUtxo :: "(Buffer \<times> int) option"
  nonWitnessUtxo :: "Buffer option"
  pin_witnessScript :: "Buffer option"
  pin_sequence :: "int option"
  partialSig :: "Buffer list"
  finalScriptSig :: "Buffer option"
  finalScriptWitness :: "Buffer option"

record PsbtOutput =
  pout_address :: string
  pout_script :: Buffer
  pout_value :: int

record Psbt =
  psbt_network :: Network
  psbt_locktime :: int
  inputs :: "PsbtInput list"
  outputs :: "PsbtOutput list"

record bitcoinjs =
  crypto_sha256 :: "Buffer \<Rightarrow> Buffer"
  crypto_hash160 :: "Buffer \<Rightarrow> Buffer"
  address_fromOutputScript :: "Buffer \<Rightarrow> Network \<Rightarrow> string option"
  address_toOutputScript :: "string \<Rightarrow> Network \<Rightarrow> Buffer option"
  ECPair_fromPrivateKey :: "Buffer \<Rightarrow> Buffer option"
  addInput_check :: "Psbt \<Rightarrow> PsbtInput \<Rightarrow> bool"
  Satoshi :: "int \<Rightarrow> bool"
  check32Bit :: "int \<Rightarrow> bool"
  signInput_signature :: "Psbt \<Rightarrow> nat \<Rightarrow> Buffer \<Rightarrow> Buffer option"
  signature_decode :: "Buffer \<Rightarrow> bool"
  finalizeInput_check :: "PsbtInput \<Rightarrow> bool"
  getFinalScripts :: "PsbtInput \<Rightarrow> (Buffer option \<times> Buffer option) option"
  checkFees :: "Psbt \<Rightarrow> bool"
  Transaction_getId :: "Transaction \<Rightarrow> string"
  Transaction_toHex :: "Transaction \<Rightarrow> string"
  Transaction_fromHex :: "string \<Rightarrow> Transaction option"
  Transaction_virtualSize :: "Transaction \<Rightarrow> int"
  Transaction_getHash :: "Transaction \<Rightarrow> Buffer"
  script_decompile :: "Buffer \<Rightarrow> chunk list option"
  Transaction_addInput_check :: "Buffer \<Rightarrow> int \<Rightarrow> bool"
  signWitnessV0 :: "Transaction \<Rightarrow> nat \<Rightarrow> Buffer \<Rightarrow> int \<Rightarrow> Buffer \<Rightarrow> Buffer option"
  ECPair_fromWIF :: "string \<Rightarrow> Network \<Rightarrow> Buffer option"
  payments_p2wpkh_output :: "string \<Rightarrow> Network \<Rightarrow> Buffer option option"
  networks_bitcoin :: Network
  networks_testnet :: Network
  networks_regtest :: Network

subsection \<open>The Psbt object\<close>

text \<open>
  What the methods of \<open>bitcoin.Psbt\<close> do to the object's data. The library's argument
  checks are fields of \<open>bitcoinjs\<close>; the bookkeeping is written out.
\<close>

definition new_Psbt :: "Network \<Rightarrow> Psbt" where
  "new_Psbt n = \<lparr>psbt_network = n, psbt_locktime = 0, inputs = [], outputs = []\<rparr>"

definition Psbt_addInput :: "bitcoinjs \<Rightarrow> Psbt \<Rightarrow> PsbtInput \<Rightarrow> Psbt option" where
  "Psbt_addInput lib psbt inp =
     (if addInput_check lib psbt inp then Some (psbt\<lparr>inputs := inputs psbt @ [inp]\<rparr>)
      else None)"

definition Psbt_addOutput :: "bitcoinjs \<Rightarrow> Psbt \<Rightarrow> string \<Rightarrow> int \<Rightarrow> Psbt option" where
  "Psbt_addOutput lib psbt addr v =
     (case address_toOutputScript lib addr (psbt_network psbt) of
        None \<Rightarrow> None
      | Some s \<Rightarrow>
          if Satoshi lib v
          then Some (psbt\<lparr>outputs := outputs psbt @
                  [\<lparr>pout_address = addr, pout_script = s, pout_value = v\<rparr>]\<rparr>)
          else None)"

definition Psbt_setLocktime :: "bitcoinjs \<Rightarrow> Psbt \<Rightarrow> int \<Rightarrow> Psbt option" where
  "Psbt_setLocktime lib psbt l =
     (if check32Bit lib l then Some (psbt\<lparr>psbt_locktime := l\<rparr>) else None)"

definition Psbt_signInput :: "bitcoinjs \<Rightarrow> Psbt \<Rightarrow> nat \<Rightarrow> Buffer \<Rightarrow> Psbt option" where
  "Psbt_signInput lib psbt i privateKey =
     (if i < length (inputs psbt) then
        (case signInput_signature lib psbt i privateKey of
           None \<Rightarrow> None
         | Some sg \<Rightarrow>
             Some (psbt\<lparr>inputs := (inputs psbt)
                     [i := (inputs psbt ! i)\<lparr>partialSig := partialSig (inputs psbt ! i) @ [sg]\<rparr>]\<rparr>))
      else None)"

text \<open>
  Storing what a finalizer returned: the final scripts are recorded and the fields used
  for signing are cleared (\<open>clearFinalizedInput\<close>).
\<close>

definition setFinalScripts :: "PsbtInput \<Rightarrow> Buffer option \<Rightarrow> Buffer option \<Rightarrow> PsbtInput" where
  "setFinalScripts inp fsig fwit =
     inp\<lparr>finalScriptSig := fsig, finalScriptWitness := fwit,
         partialSig := [], pin_witnessScript := None\<rparr>"

definition isFinalized :: "PsbtInput \<Rightarrow> bool" where
  "isFinalized inp = (finalScriptSig inp \<noteq> None \<or> finalScriptWitness inp \<noteq> None)"

definition finalizedTxInput :: "PsbtInput \<Rightarrow> TxInput option" where
  "finalizedTxInput inp =
     (case (case finalScriptWitness inp of
              None \<Rightarrow> Some []
            | Some w \<Rightarrow> scriptWitnessToWitnessStack w) of
        None \<Rightarrow> None
      | Some stack \<Rightarrow>
          Some \<lparr>in_hash = rev (Buffer_from_hex (pin_hash inp)),
                in_index = pin_index inp,
                in_script = (case finalScriptSig inp of None \<Rightarrow> [] | Some s \<Rightarrow> s),
                in_sequence = (case pin_sequence inp of None \<Rightarrow> 4294967295 | Some s \<Rightarrow> s),
                in_witness = stack\<rparr>)"

fun those_list :: "'a option list \<Rightarrow> 'a list option" where
  "those_list [] = Some []"
| "those_list (None # xs) = None"
| "those_list (Some x # xs) = (case those_list xs of None \<Rightarrow> None | Some ys \<Rightarrow> Some (x # ys))"

definition Psbt_extractTransaction :: "bitcoinjs \<Rightarrow> Psbt \<Rightarrow> Transaction option" where
  "Psbt_extractTransaction lib psbt =
     (if \<not> list_all isFinalized (inputs psbt) then None
      else if \<not> checkFees lib psbt then None
      else
        (case those_list (map finalizedTxInput (inputs psbt)) of
           None \<Rightarrow> None
         | Some is \<Rightarrow>
             Some \<lparr>tx_version = 2, tx_locktime = psbt_locktime psbt, ins = is,
                   outs = map (\<lambda>out. \<lparr>out_script = pout_script out, out_value = pout_value out\<rparr>)
                            (outputs psbt)\<rparr>))"

section \<open>The address functions of bitcoinjs-lib\<close>

text \<open>
  \<open>bitcoin.address.fromOutputScript\<close> and \<open>bitcoin.address.toOutputScript\<close>, written
  out over the two address codecs of the library, Base58Check and Bech32. Which codec they
  use for a script, and which field of the network they write into an address and compare
  on reading it, is what decides on which networks an address is valid. The codecs are
  the fields of \<open>address_codec\<close>: \<open>toBase58Check(hash, version)\<close>,
  \<open>fromBase58Check(address)\<close> (the version and the 20-byte hash),
  \<open>toBech32(data, version, prefix)\<close> and \<open>fromBech32(address)\<close> (the version, the
  prefix and the data); \<open>None\<close> is a call that throws. The two remaining fields stand
  for what the library does with witness versions above 0 (taproot and later), which no
  script of the repository has.
\<close>

record address_codec =
  toBase58Check :: "Buffer \<Rightarrow> int \<Rightarrow> string option"
  fromBase58Check :: "string \<Rightarrow> (int \<times> Buffer) option"
  toBech32 :: "Buffer \<Rightarrow> int \<Rightarrow> string \<Rightarrow> string option"
  fromBech32 :: "string \<Rightarrow> (int \<times> string \<times> Buffer) option"
  laterVersion_address :: "Buffer \<Rightarrow> Network \<Rightarrow> string option"
  laterVersion_script :: "int \<Rightarrow> Buffer \<Rightarrow> Buffer option"

text \<open>The output scripts that the payment types of the library recognise.\<close>

definition isP2PKH :: "Buffer \<Rightarrow> bool" where
  "isP2PKH output =
     (length output = 25 \<and> output ! 0 = of_nat OP_DUP \<and> output ! 1 = of_nat OP_HASH160
      \<and> output ! 2 = 20 \<and> output ! 23 = of_nat OP_EQUALVERIFY
      \<and> output ! 24 = of_nat OP_CHECKSIG)"

definition isP2SH :: "Buffer \<Rightarrow> bool" where
  "isP2SH output =
     (length output = 23 \<and> output ! 0 = of_nat OP_HASH160 \<and> output ! 1 = 20
      \<and> output ! 22 = of_nat OP_EQUAL)"

definition isP2WPKH :: "Buffer \<Rightarrow> bool" where
  "isP2WPKH output = (length output = 22 \<and> output ! 0 = of_nat OP_0 \<and> output ! 1 = 20)"

definition isP2WSH :: "Buffer \<Rightarrow> bool" where
  "isP2WSH output = (length output = 34 \<and> output ! 0 = of_nat OP_0 \<and> output ! 1 = 32)"

text \<open>
  \<open>fromOutputScript\<close> tries the payment types in this order and returns the address of
  the first that accepts the script.
\<close>

definition fromOutputScript :: "address_codec \<Rightarrow> Buffer \<Rightarrow> Network \<Rightarrow> string option" where
  "fromOutputScript codec output n =
     (if isP2PKH output then toBase58Check codec (take 20 (drop 3 output)) (pubKeyHash n)
      else if isP2SH output then toBase58Check codec (take 20 (drop 2 output)) (net_scriptHash n)
      else if isP2WPKH output then toBech32 codec (drop 2 output) 0 (bech32 n)
      else if isP2WSH output then toBech32 codec (drop 2 output) 0 (bech32 n)
      else laterVersion_address codec output n)"

text \<open>
  \<open>toOutputScript\<close> reads the address as Base58Check and, only when that fails, as
  Bech32; it throws when the version or the prefix is not that of the network.
\<close>

definition toOutputScript :: "address_codec \<Rightarrow> string \<Rightarrow> Network \<Rightarrow> Buffer option" where
  "toOutputScript codec address' n =
     (case fromBase58Check codec address' of
        Some (version, hash') \<Rightarrow>
          if length hash' \<noteq> 20 then None
          else if version = pubKeyHash n
          then Some (script_compile [Op OP_DUP, Op OP_HASH160, Data hash', Op OP_EQUALVERIFY,
                                     Op OP_CHECKSIG])
          else if version = net_scriptHash n
          then Some (script_compile [Op OP_HASH160, Data hash', Op OP_EQUAL])
          else None
      | None \<Rightarrow>
          (case fromBech32 codec address' of
             None \<Rightarrow> None
           | Some (version, prefix, data) \<Rightarrow>
               if prefix \<noteq> bech32 n then None
               else if version = 0 then
                 (if length data = 20 then Some (script_compile [Op OP_0, Data data])
                  else if length data = 32 then Some (script_compile [Op OP_0, Data data])
                  else None)
               else laterVersion_script codec version data))"

section \<open>Errors\<close>

text \<open>
  The repository throws \<open>Error\<close> objects that differ only in their message. Each
  constructor stands for one \<open>throw\<close> site (or one family of sites with the same
  message); \<open>LibraryError\<close> is any exception raised inside bitcoinjs-lib or ecpair and
  \<open>JsTypeError\<close> a property access on \<open>undefined\<close>.
\<close>

datatype error =
    LibraryError
  | JsTypeError
  | P2SHClaimRequiresFundingHex
  | P2SHRefundRequiresFundingHex
  | SignatureFormatIssue
  | SecretDoesNotMatchHashlock
  | InsufficientFundsToCoverFee
  | UnsupportedNetwork string
  | FundingOutputNotFound
  | WriteUInt32OutOfRange
  | NetworkError
  | UsageExit
  | CredentialsMissing
  | NoUTXOsFound
  | InsufficientFunds
  | UnsupportedAddressFormat
  | InvalidTransactionData

text \<open>
  A builder method that throws leaves behind the \<open>Psbt\<close> object as it was at the
  \<open>throw\<close> (\<open>None\<close> when no \<open>Psbt\<close> had been created yet).
\<close>

type_synonym 'a attempt = "(error \<times> Psbt option) + 'a"

definition Psbt_finalizeInput ::
  "bitcoinjs \<Rightarrow> Psbt \<Rightarrow> nat \<Rightarrow> (PsbtInput \<Rightarrow> error + (Buffer \<times> Buffer)) \<Rightarrow> error + Psbt" where
  "Psbt_finalizeInput lib psbt i finalizer =
     (if i < length (inputs psbt) \<and> finalizeInput_check lib (inputs psbt ! i) then
        (case finalizer (inputs psbt ! i) of
           Inl e \<Rightarrow> Inl e
         | Inr (fsig, fwit) \<Rightarrow>
             Inr (psbt\<lparr>inputs := (inputs psbt)
                    [i := setFinalScripts (inputs psbt ! i) (Some fsig) (Some fwit)]\<rparr>))
      else Inl LibraryError)"

definition Psbt_finalizeInput_default :: "bitcoinjs \<Rightarrow> Psbt \<Rightarrow> nat \<Rightarrow> Psbt option" where
  "Psbt_finalizeInput_default lib psbt i =
     (if i < length (inputs psbt) \<and> finalizeInput_check lib (inputs psbt ! i) then
        (case getFinalScripts lib (inputs psbt ! i) of
           None \<Rightarrow> None
         | Some (fsig, fwit) \<Rightarrow>
             if fsig = None \<and> fwit = None then None
             else Some (psbt\<lparr>inputs := (inputs psbt)
                          [i := setFinalScripts (inputs psbt ! i) fsig fwit]\<rparr>))
      else None)"

fun finalizeEach :: "bitcoinjs \<Rightarrow> nat list \<Rightarrow> Psbt \<Rightarrow> Psbt option" where
  "finalizeEach lib [] psbt = Some psbt"
| "finalizeEach lib (i # rest) psbt =
     (case Psbt_finalizeInput_default lib psbt i of
        None \<Rightarrow> None
      | Some psbt' \<Rightarrow> finalizeEach lib rest psbt')"

text \<open>\<open>finalizeAllInputs\<close> insists on at least one input.\<close>

definition Psbt_finalizeAllInputs :: "bitcoinjs \<Rightarrow> Psbt \<Rightarrow> Psbt option" where
  "Psbt_finalizeAllInputs lib psbt =
     (if inputs psbt = [] then None
      else finalizeEach lib [0 ..< length (inputs psbt)] psbt)"

section \<open>btc/lib/htlc-builder.ts\<close>

record HTLCConfig =
  senderPublicKey :: Buffer
  receiverPublicKey :: Buffer
  hashlock :: Buffer
  locktime :: int
  network :: Network
  useSegwit :: "bool option"

record HTLCOutput =
  address :: string
  redeemScript :: Buffer
  lockingScript :: Buffer
  scriptHash :: Buffer
  witnessScript :: "Buffer option"

record HTLCTransaction =
  txid :: string
  hex :: string
  fee :: int
  vsize :: int
  witnessHash :: "string option"

record UTXO =
  utxo_txid :: string
  utxo_vout :: int
  utxo_value :: int
  utxo_scriptPubKey :: string

record HTLCBuilder =
  config :: HTLCConfig

definition new_HTLCBuilder :: "HTLCConfig \<Rightarrow> HTLCBuilder" where
  "new_HTLCBuilder c = \<lparr>config = c\<rparr>"

text \<open>\<open>useSegwit\<close> is optional; an absent flag is falsy.\<close>

definition truthy :: "bool option \<Rightarrow> bool" where
  "truthy b = (b = Some True)"

text \<open>A parameter with a default value: \<open>feeRate: number = 10\<close>.\<close>

definition feeRate_or_default :: "rat option \<Rightarrow> rat" where
  "feeRate_or_default feeRate = (case feeRate of None \<Rightarrow> 10 | Some r \<Rightarrow> r)"

definition createHTLCScript :: "HTLCBuilder \<Rightarrow> Buffer" where
  "createHTLCScript b =
     script_compile
       [Op OP_IF,
          Op OP_SHA256,
          Data (hashlock (config b)),
          Op OP_EQUALVERIFY,
          Data (receiverPublicKey (config b)),
          Op OP_CHECKSIG,
        Op OP_ELSE,
          Data (script_number_encode (locktime (config b))),
          Op OP_CHECKLOCKTIMEVERIFY,
          Op OP_DROP,
          Data (senderPublicKey (config b)),
          Op OP_CHECKSIG,
        Op OP_ENDIF]"

definition createHTLC :: "bitcoinjs \<Rightarrow> HTLCBuilder \<Rightarrow> error + HTLCOutput" where
  "createHTLC lib b =
     (let redeemScript' = createHTLCScript b;
          network' = network (config b)
      in if truthy (useSegwit (config b)) then
           (let witnessScript' = redeemScript';
                scriptHash' = crypto_sha256 lib witnessScript';
                lockingScript' = script_compile [Op OP_0, Data scriptHash']
            in case address_fromOutputScript lib lockingScript' network' of
                 None \<Rightarrow> Inl LibraryError
               | Some address' \<Rightarrow>
                   Inr \<lparr>address = address', redeemScript = redeemScript',
                        lockingScript = lockingScript', scriptHash = scriptHash',
                        witnessScript = Some witnessScript'\<rparr>)
         else
           (let scriptHash' = crypto_hash160 lib redeemScript';
                lockingScript' = script_compile [Op OP_HASH160, Data scriptHash', Op OP_EQUAL]
            in case address_fromOutputScript lib lockingScript' network' of
                 None \<Rightarrow> Inl LibraryError
               | Some address' \<Rightarrow>
                   Inr \<lparr>address = address', redeemScript = redeemScript',
                        lockingScript = lockingScript', scriptHash = scriptHash',
                        witnessScript = None\<rparr>))"

text \<open>
  The record returned by all three transaction builders, from the extracted transaction
  and the fee.
\<close>

definition toHTLCTransaction :: "bitcoinjs \<Rightarrow> Transaction \<times> int \<Rightarrow> HTLCTransaction" where
  "toHTLCTransaction lib r =
     \<lparr>txid = Transaction_getId lib (fst r),
      hex = Transaction_toHex lib (fst r),
      fee = snd r,
      vsize = Transaction_virtualSize lib (fst r),
      witnessHash = Some (toString_hex (Transaction_getHash lib (fst r)))\<rparr>"

subsection \<open>createFundingTransaction\<close>

fun addUtxoInputs :: "bitcoinjs \<Rightarrow> UTXO list \<Rightarrow> Psbt \<Rightarrow> int \<Rightarrow> Psbt + (Psbt \<times> int)" where
  "addUtxoInputs lib [] psbt totalInput = Inr (psbt, totalInput)"
| "addUtxoInputs lib (utxo # rest) psbt totalInput =
     (case Psbt_addInput lib psbt
             \<lparr>pin_hash = utxo_txid utxo, pin_index = utxo_vout utxo,
              witnessUtxo = Some (Buffer_from_hex (utxo_scriptPubKey utxo), utxo_value utxo),
              nonWitnessUtxo = None, pin_witnessScript = None, pin_sequence = None,
              partialSig = [], finalScriptSig = None, finalScriptWitness = None\<rparr> of
        None \<Rightarrow> Inl psbt
      | Some psbt' \<Rightarrow> addUtxoInputs lib rest psbt' (totalInput + utxo_value utxo))"

fun signEach :: "bitcoinjs \<Rightarrow> nat list \<Rightarrow> Buffer \<Rightarrow> Psbt \<Rightarrow> Psbt + Psbt" where
  "signEach lib [] privateKey psbt = Inr psbt"
| "signEach lib (i # rest) privateKey psbt =
     (case Psbt_signInput lib psbt i privateKey of
        None \<Rightarrow> Inl psbt
      | Some psbt' \<Rightarrow> signEach lib rest privateKey psbt')"

text \<open>
  The body of \<open>createFundingTransaction\<close> up to \<open>psbt.extractTransaction()\<close>: the
  extracted transaction and the fee.
\<close>

definition fundingTransaction ::
  "bitcoinjs \<Rightarrow> HTLCBuilder \<Rightarrow> UTXO list \<Rightarrow> int \<Rightarrow> string \<Rightarrow> rat option \<Rightarrow> Buffer
     \<Rightarrow> (Transaction \<times> int) attempt" where
  "fundingTransaction lib b utxos amount changeAddress feeRate privateKey =
     (case createHTLC lib b of
        Inl e \<Rightarrow> Inl (e, None)
      | Inr htlc \<Rightarrow>
     (case ECPair_fromPrivateKey lib privateKey of
        None \<Rightarrow> Inl (LibraryError, None)
      | Some keyPair \<Rightarrow>
     (case addUtxoInputs lib utxos (new_Psbt (network (config b))) 0 of
        Inl psbt \<Rightarrow> Inl (LibraryError, Some psbt)
      | Inr (psbt1, totalInput) \<Rightarrow>
     (case Psbt_addOutput lib psbt1 (address htlc) amount of
        None \<Rightarrow> Inl (LibraryError, Some psbt1)
      | Some psbt2 \<Rightarrow>
     (let estimatedSize = int (length (inputs psbt2)) * 148 + 2 * 34 + 10;
          fee' = Math_ceil (js_times (of_int estimatedSize) (feeRate_or_default feeRate));
          change = totalInput - amount - fee'
      in
     (case (if change > 546 then Psbt_addOutput lib psbt2 changeAddress change
            else Some psbt2) of
        None \<Rightarrow> Inl (LibraryError, Some psbt2)
      | Some psbt3 \<Rightarrow>
     (case signEach lib [0 ..< length (inputs psbt3)] privateKey psbt3 of
        Inl psbt \<Rightarrow> Inl (LibraryError, Some psbt)
      | Inr psbt4 \<Rightarrow>
     (case Psbt_finalizeAllInputs lib psbt4 of
        None \<Rightarrow> Inl (LibraryError, Some psbt4)
      | Some psbt5 \<Rightarrow>
     (case Psbt_extractTransaction lib psbt5 of
        None \<Rightarrow> Inl (LibraryError, Some psbt5)
      | Some tx \<Rightarrow> Inr (tx, fee'))))))))))"

definition createFundingTransaction ::
  "bitcoinjs \<Rightarrow> HTLCBuilder \<Rightarrow> UTXO list \<Rightarrow> int \<Rightarrow> string \<Rightarrow> rat option \<Rightarrow> Buffer
     \<Rightarrow> HTLCTransaction attempt" where
  "createFundingTransaction lib b utxos amount changeAddress feeRate privateKey =
     map_sum id (toHTLCTransaction lib)
       (fundingTransaction lib b utxos amount changeAddress feeRate privateKey)"

subsection \<open>createClaimTransaction and createRefundTransaction\<close>

text \<open>
  Both custom finalizers end with the same expression, which writes the witness stack as
  one byte for the number of elements and, for each element, one byte for its length
  followed by the element.
\<close>

definition witnessStackBytes :: "Buffer list \<Rightarrow> Buffer" where
  "witnessStackBytes witnessStack =
     concat ([of_nat (length witnessStack)] #
             map (\<lambda>item. concat [[of_nat (length item)], item]) witnessStack)"

definition claimWitnessStack :: "Buffer \<Rightarrow> Buffer \<Rightarrow> Buffer \<Rightarrow> Buffer list" where
  "claimWitnessStack signature secret script = [signature, secret, [1], script]"

definition refundWitnessStack :: "Buffer \<Rightarrow> Buffer \<Rightarrow> Buffer list" where
  "refundWitnessStack signature script = [signature, [0], script]"

text \<open>The callback passed to \<open>psbt.finalizeInput\<close> by \<open>createClaimTransaction\<close>.\<close>

definition claimFinalizer ::
  "bitcoinjs \<Rightarrow> HTLCOutput \<Rightarrow> Buffer \<Rightarrow> PsbtInput \<Rightarrow> error + (Buffer \<times> Buffer)" where
  "claimFinalizer lib htlc secret inp =
     (case partialSig inp of
        [] \<Rightarrow> Inl JsTypeError
      | rawSignature # _ \<Rightarrow>
          if \<not> signature_decode lib rawSignature then Inl SignatureFormatIssue
          else
            (case witnessScript htlc of
               None \<Rightarrow> Inl JsTypeError
             | Some ws \<Rightarrow> Inr ([], witnessStackBytes (claimWitnessStack rawSignature secret ws))))"

text \<open>The callback passed to \<open>psbt.finalizeInput\<close> by \<open>createRefundTransaction\<close>.\<close>

definition refundFinalizer ::
  "bitcoinjs \<Rightarrow> HTLCOutput \<Rightarrow> PsbtInput \<Rightarrow> error + (Buffer \<times> Buffer)" where
  "refundFinalizer lib htlc inp =
     (case partialSig inp of
        [] \<Rightarrow> Inl JsTypeError
      | rawSignature # _ \<Rightarrow>
          if \<not> signature_decode lib rawSignature then Inl SignatureFormatIssue
          else
            (case witnessScript htlc of
               None \<Rightarrow> Inl JsTypeError
             | Some ws \<Rightarrow> Inr ([], witnessStackBytes (refundWitnessStack rawSignature ws))))"

text \<open>
  The body of \<open>createClaimTransaction\<close> up to \<open>psbt.extractTransaction()\<close>: the
  extracted transaction and the fee.
\<close>

definition claimTransaction ::
  "bitcoinjs \<Rightarrow> HTLCBuilder \<Rightarrow> string \<Rightarrow> int \<Rightarrow> int \<Rightarrow> Buffer \<Rightarrow> string \<Rightarrow> rat option \<Rightarrow> Buffer
     \<Rightarrow> (Transaction \<times> int) attempt" where
  "claimTransaction lib b htlcTxid htlcVout htlcAmount secret destinationAddress feeRate privateKey =
     (case createHTLC lib b of
        Inl e \<Rightarrow> Inl (e, None)
      | Inr htlc \<Rightarrow>
     (case ECPair_fromPrivateKey lib privateKey of
        None \<Rightarrow> Inl (LibraryError, None)
      | Some keyPair \<Rightarrow>
     (let psbt0 = new_Psbt (network (config b)) in
      if \<not> truthy (useSegwit (config b)) then Inl (P2SHClaimRequiresFundingHex, Some psbt0)
      else
     (case Psbt_addInput lib psbt0
             \<lparr>pin_hash = htlcTxid, pin_index = htlcVout,
              witnessUtxo = Some (lockingScript htlc, htlcAmount),
              nonWitnessUtxo = None, pin_witnessScript = witnessScript htlc,
              pin_sequence = None,
              partialSig = [], finalScriptSig = None, finalScriptWitness = None\<rparr> of
        None \<Rightarrow> Inl (LibraryError, Some psbt0)
      | Some psbt1 \<Rightarrow>
     (let estimatedSize = (if truthy (useSegwit (config b)) then 150 else 200) :: int;
          fee' = Math_ceil (js_times (of_int estimatedSize) (feeRate_or_default feeRate));
          outputAmount = htlcAmount - fee'
      in
     (case Psbt_addOutput lib psbt1 destinationAddress outputAmount of
        None \<Rightarrow> Inl (LibraryError, Some psbt1)
      | Some psbt2 \<Rightarrow>
     (case Psbt_signInput lib psbt2 0 privateKey of
        None \<Rightarrow> Inl (LibraryError, Some psbt2)
      | Some psbt3 \<Rightarrow>
     (case Psbt_finalizeInput lib psbt3 0 (claimFinalizer lib htlc secret) of
        Inl e \<Rightarrow> Inl (e, Some psbt3)
      | Inr psbt4 \<Rightarrow>
     (case Psbt_extractTransaction lib psbt4 of
        None \<Rightarrow> Inl (LibraryError, Some psbt4)
      | Some tx \<Rightarrow> Inr (tx, fee'))))))))))"

definition createClaimTransaction ::
  "bitcoinjs \<Rightarrow> HTLCBuilder \<Rightarrow> string \<Rightarrow> int \<Rightarrow> int \<Rightarrow> Buffer \<Rightarrow> string \<Rightarrow> rat option \<Rightarrow> Buffer
     \<Rightarrow> HTLCTransaction attempt" where
  "createClaimTransaction lib b htlcTxid htlcVout htlcAmount secret destinationAddress feeRate privateKey =
     map_sum id (toHTLCTransaction lib)
       (claimTransaction lib b htlcTxid htlcVout htlcAmount secret destinationAddress feeRate
          privateKey)"

text \<open>
  The body of \<open>createRefundTransaction\<close> up to \<open>psbt.extractTransaction()\<close>: the
  extracted transaction and the fee.
\<close>

definition refundTransaction ::
  "bitcoinjs \<Rightarrow> HTLCBuilder \<Rightarrow> string \<Rightarrow> int \<Rightarrow> int \<Rightarrow> string \<Rightarrow> rat option \<Rightarrow> Buffer
     \<Rightarrow> (Transaction \<times> int) attempt" where
  "refundTransaction lib b htlcTxid htlcVout htlcAmount destinationAddress feeRate privateKey =
     (case createHTLC lib b of
        Inl e \<Rightarrow> Inl (e, None)
      | Inr htlc \<Rightarrow>
     (case ECPair_fromPrivateKey lib privateKey of
        None \<Rightarrow> Inl (LibraryError, None)
      | Some keyPair \<Rightarrow>
     (let psbt0 = new_Psbt (network (config b)) in
      if \<not> truthy (useSegwit (config b)) then Inl (P2SHRefundRequiresFundingHex, Some psbt0)
      else
     (case Psbt_addInput lib psbt0
             \<lparr>pin_hash = htlcTxid, pin_index = htlcVout,
              witnessUtxo = Some (lockingScript htlc, htlcAmount),
              nonWitnessUtxo = None, pin_witnessScript = witnessScript htlc,
              pin_sequence = Some 4294967294,
              partialSig = [], finalScriptSig = None, finalScriptWitness = None\<rparr> of
        None \<Rightarrow> Inl (LibraryError, Some psbt0)
      | Some psbt1 \<Rightarrow>
     (case Psbt_setLocktime lib psbt1 (locktime (config b)) of
        None \<Rightarrow> Inl (LibraryError, Some psbt1)
      | Some psbt1' \<Rightarrow>
     (let estimatedSize = (if truthy (useSegwit (config b)) then 150 else 200) :: int;
          fee' = Math_ceil (js_times (of_int estimatedSize) (feeRate_or_default feeRate));
          outputAmount = htlcAmount - fee'
      in
     (case Psbt_addOutput lib psbt1' destinationAddress outputAmount of
        None \<Rightarrow> Inl (LibraryError, Some psbt1')
      | Some psbt2 \<Rightarrow>
     (case Psbt_signInput lib psbt2 0 privateKey of
        None \<Rightarrow> Inl (LibraryError, Some psbt2)
      | Some psbt3 \<Rightarrow>
     (case Psbt_finalizeInput lib psbt3 0 (refundFinalizer lib htlc) of
        Inl e \<Rightarrow> Inl (e, Some psbt3)
      | Inr psbt4 \<Rightarrow>
     (case Psbt_extractTransaction lib psbt4 of
        None \<Rightarrow> Inl (LibraryError, Some psbt4)
      | Some tx \<Rightarrow> Inr (tx, fee')))))))))))"

definition createRefundTransaction ::
  "bitcoinjs \<Rightarrow> HTLCBuilder \<Rightarrow> string \<Rightarrow> int \<Rightarrow> int \<Rightarrow> string \<Rightarrow> rat option \<Rightarrow> Buffer
     \<Rightarrow> HTLCTransaction attempt" where
  "createRefundTransaction lib b htlcTxid htlcVout htlcAmount destinationAddress feeRate privateKey =
     map_sum id (toHTLCTransaction lib)
       (refundTransaction lib b htlcTxid htlcVout htlcAmount destinationAddress feeRate privateKey)"

subsection \<open>The static methods\<close>

text \<open>
  What \<open>extractSecretFromTransaction\<close> returns: \<open>null\<close>, \<open>undefined\<close> (an index past the
  end of an array), or the element found. For a legacy input the element is a chunk of
  the decompiled script-sig, which is a number when the chunk is an opcode.
\<close>

datatype extracted = Null | Undefined | Element chunk

definition extractSecretFromTransaction :: "bitcoinjs \<Rightarrow> string \<Rightarrow> Buffer \<Rightarrow> extracted" where
  "extractSecretFromTransaction lib txHex witnessScript' =
     (case Transaction_fromHex lib txHex of
        None \<Rightarrow> Null
      | Some tx \<Rightarrow>
          (case ins tx of
             [] \<Rightarrow> Null
           | in0 # _ \<Rightarrow>
               if length (in_witness in0) > 0 then
                 (if 1 < length (in_witness in0) then Element (Data (in_witness in0 ! 1))
                  else Undefined)
               else if length (in_script in0) > 0 then
                 (case script_decompile lib (in_script in0) of
                    None \<Rightarrow> Null
                  | Some scriptSig \<Rightarrow>
                      if length scriptSig > 1 then Element (scriptSig ! 1) else Null)
               else Null))"

definition validateHTLCAddress :: "bitcoinjs \<Rightarrow> string \<Rightarrow> Network \<Rightarrow> bool" where
  "validateHTLCAddress lib address' network' =
     (case address_toOutputScript lib address' network' of
        Some _ \<Rightarrow> True
      | None \<Rightarrow> False)"

text \<open>
  \<open>hashSecret\<close> calls \<open>crypto.createHash('sha256')\<close> of Node, which computes the same
  function, SHA-256, as \<open>bitcoin.crypto.sha256\<close>.
\<close>

definition hashSecret :: "bitcoinjs \<Rightarrow> Buffer \<Rightarrow> Buffer" where
  "hashSecret lib secret = crypto_sha256 lib secret"

section \<open>btc/scripts/create-htlc.ts\<close>

record HTLCParams =
  p_senderPublicKey :: string
  p_receiverPublicKey :: string
  p_hashlock :: string
  p_locktime :: int
  p_network :: string
  p_useSegwit :: "bool option"

definition getNetwork :: "bitcoinjs \<Rightarrow> string \<Rightarrow> error + Network" where
  "getNetwork lib networkName =
     (if networkName = ''mainnet'' then Inr (networks_bitcoin lib)
      else if networkName = ''testnet'' \<or> networkName = ''testnet4'' then Inr (networks_testnet lib)
      else if networkName = ''regtest'' then Inr (networks_regtest lib)
      else Inl (UnsupportedNetwork networkName))"

text \<open>
  The \<open>HTLCConfig\<close> that \<open>createHTLC\<close>, \<open>createFundingTx\<close> and \<open>createClaimTx\<close> build
  from the stored parameters.
\<close>

definition configOfParams :: "HTLCParams \<Rightarrow> Network \<Rightarrow> HTLCConfig" where
  "configOfParams params network' =
     \<lparr>senderPublicKey = Buffer_from_hex (p_senderPublicKey params),
      receiverPublicKey = Buffer_from_hex (p_receiverPublicKey params),
      hashlock = Buffer_from_hex (p_hashlock params),
      locktime = p_locktime params,
      network = network',
      useSegwit = p_useSegwit params\<rparr>"

text \<open>
  The guard of \<open>createClaimTx\<close>: the hexadecimal digest of the secret is compared, as a
  string, with the stored hashlock.
\<close>

definition secretMatchesHashlock :: "bitcoinjs \<Rightarrow> Buffer \<Rightarrow> string \<Rightarrow> bool" where
  "secretMatchesHashlock lib secretBuffer hashlock' =
     (toString_hex (hashSecret lib secretBuffer) = hashlock')"

text \<open>
  \<open>createClaimTx\<close>, from the parameters stored in the HTLC file. \<open>broadcast\<close> is the
  network: the transaction id it answers with, or \<open>None\<close> when broadcasting fails.
  The result is the transaction id that the method returns.
\<close>

definition createClaimTx ::
  "bitcoinjs \<Rightarrow> (string \<Rightarrow> string \<Rightarrow> string option) \<Rightarrow> HTLCParams \<Rightarrow> string \<Rightarrow> int \<Rightarrow> string
     \<Rightarrow> string \<Rightarrow> string \<Rightarrow> rat option \<Rightarrow> string attempt" where
  "createClaimTx lib broadcast params fundingTxid fundingVout secret destinationAddress
     privateKeyHex feeRate =
     (case getNetwork lib (p_network params) of
        Inl e \<Rightarrow> Inl (e, None)
      | Inr network' \<Rightarrow>
     (let builder = new_HTLCBuilder (configOfParams params network');
          privateKey = Buffer_from_hex privateKeyHex;
          secretBuffer = Buffer_from_hex secret
      in
      if \<not> secretMatchesHashlock lib secretBuffer (p_hashlock params)
      then Inl (SecretDoesNotMatchHashlock, None)
      else
     (let amount = 100000 in
      case createClaimTransaction lib builder fundingTxid fundingVout amount secretBuffer
             destinationAddress (Some (feeRate_or_default feeRate)) privateKey of
        Inl e \<Rightarrow> Inl e
      | Inr claimTx \<Rightarrow>
          (case broadcast (hex claimTx) (p_network params) of
             Some blockchainTxid \<Rightarrow> Inr blockchainTxid
           | None \<Rightarrow> Inr (txid claimTx)))))"

section \<open>btc/scripts/claim-htlc-reverse.ts\<close>

definition NETWORKS_testnet4 :: Network where
  "NETWORKS_testnet4 =
     \<lparr>messagePrefix = CHR 0x18 # ''Bitcoin Signed Message:'' @ [CHR 0x0A],
      bech32 = ''tb'',
      bip32_public = 0x043587cf,
      bip32_private = 0x04358394,
      pubKeyHash = 0x6f,
      net_scriptHash = 0xc4,
      wif = 0xef\<rparr>"

text \<open>
  \<open>NETWORKS[name]\<close> indexes an object literal, so a name that is not one of its three keys
  still finds the members that every object inherits from \<open>Object.prototype\<close>. Such a
  member is truthy and is not a network.
\<close>

datatype networks_member = NetworkMember Network | PrototypeMember

definition Object_prototype_members :: "string list" where
  "Object_prototype_members =
     [''constructor'', ''__proto__'', ''hasOwnProperty'', ''isPrototypeOf'',
      ''propertyIsEnumerable'', ''toLocaleString'', ''toString'', ''valueOf'',
      ''__defineGetter__'', ''__defineSetter__'', ''__lookupGetter__'', ''__lookupSetter__'']"

definition NETWORKS :: "bitcoinjs \<Rightarrow> string \<Rightarrow> networks_member option" where
  "NETWORKS lib name =
     (if name = ''testnet4'' then Some (NetworkMember NETWORKS_testnet4)
      else if name = ''testnet'' then Some (NetworkMember (networks_testnet lib))
      else if name = ''mainnet'' then Some (NetworkMember (networks_bitcoin lib))
      else if name \<in> set Object_prototype_members then Some PrototypeMember
      else None)"

record ReverseHTLCConfig =
  r_address :: string
  r_scriptHash :: string
  r_amount :: string
  r_network :: string
  r_locktime :: int
  r_senderPublicKey :: string
  r_receiverPublicKey :: string
  r_hashlock :: string
  r_witnessScript :: "string option"

text \<open>
  The stand-alone \<open>createHTLCScript\<close> of this file. \<open>writeUInt32LE\<close> throws outside the
  unsigned 32-bit range.
\<close>

definition reverse_createHTLCScript :: "string \<Rightarrow> string \<Rightarrow> string \<Rightarrow> int \<Rightarrow> error + Buffer" where
  "reverse_createHTLCScript senderPubKey receiverPubKey hashlock' locktime' =
     (let senderPubKeyBuffer = Buffer_from_hex senderPubKey;
          receiverPubKeyBuffer = Buffer_from_hex receiverPubKey;
          hashlockBuffer = Buffer_from_hex hashlock'
      in if locktime' < 0 \<or> locktime' > 4294967295 then Inl WriteUInt32OutOfRange
         else
           (let locktimeBuffer = bytesLE 4 locktime' in
            Inr (script_compile
                   [Op OP_IF,
                    Op OP_SHA256,
                    Data hashlockBuffer,
                    Op OP_EQUALVERIFY,
                    Data receiverPubKeyBuffer,
                    Op OP_ELSE,
                    Data locktimeBuffer,
                    Op OP_CHECKLOCKTIMEVERIFY,
                    Op OP_DROP,
                    Data senderPubKeyBuffer,
                    Op OP_ENDIF,
                    Op OP_CHECKSIG])))"

text \<open>Indexing a JavaScript array: \<open>undefined\<close> outside the array.\<close>

definition js_index :: "'a list \<Rightarrow> int \<Rightarrow> 'a option" where
  "js_index xs i = (if 0 \<le> i \<and> nat i < length xs then Some (xs ! nat i) else None)"

text \<open>
  \<open>claimHTLC\<close>. \<open>getFundingTx\<close> is the explorer: the output values of the funding
  transaction, or \<open>None\<close> when the request fails. \<open>broadcast\<close> is the network. The result
  is the claim transaction and the transaction id that the function returns. When
  \<open>network\<close> is an inherited member, \<open>bitcoin.address.toOutputScript\<close> finds none of the
  prefixes it compares with and throws.
\<close>

definition claimHTLC ::
  "bitcoinjs \<Rightarrow> (string \<Rightarrow> int list option) \<Rightarrow> (string \<Rightarrow> string \<Rightarrow> string option)
     \<Rightarrow> ReverseHTLCConfig \<Rightarrow> string \<Rightarrow> int \<Rightarrow> string \<Rightarrow> string \<Rightarrow> string \<Rightarrow> rat option
     \<Rightarrow> error + (Transaction \<times> string)" where
  "claimHTLC lib getFundingTx broadcast htlcConfig fundingTxId fundingVout secret
     destinationAddress privateKey feeRate =
     (case NETWORKS lib (r_network htlcConfig) of
        None \<Rightarrow> Inl (UnsupportedNetwork (r_network htlcConfig))
      | Some network' \<Rightarrow>
     (let secretBuffer = Buffer_from_hex secret;
          calculatedHashlock = toString_hex (crypto_sha256 lib secretBuffer)
      in
      if calculatedHashlock \<noteq> r_hashlock htlcConfig then Inl SecretDoesNotMatchHashlock
      else
     (case (case r_witnessScript htlcConfig of
              Some ws \<Rightarrow>
                if ws \<noteq> [] then Inr (Buffer_from_hex ws)
                else reverse_createHTLCScript (r_senderPublicKey htlcConfig)
                       (r_receiverPublicKey htlcConfig) (r_hashlock htlcConfig)
                       (r_locktime htlcConfig)
            | None \<Rightarrow>
                reverse_createHTLCScript (r_senderPublicKey htlcConfig)
                  (r_receiverPublicKey htlcConfig) (r_hashlock htlcConfig)
                  (r_locktime htlcConfig)) of
        Inl e \<Rightarrow> Inl e
      | Inr htlcScript \<Rightarrow>
     (case getFundingTx fundingTxId of
        None \<Rightarrow> Inl NetworkError
      | Some vout \<Rightarrow>
     (case js_index vout fundingVout of
        None \<Rightarrow> Inl FundingOutputNotFound
      | Some fundingAmount \<Rightarrow>
     (let estimatedSize = 300 :: int;
          fee' = Math_ceil (js_times (of_int estimatedSize) (feeRate_or_default feeRate));
          outputAmount = fundingAmount - fee'
      in
      if outputAmount \<le> 0 then Inl InsufficientFundsToCoverFee
      else
     (let hash' = rev (Buffer_from_hex fundingTxId) in
      if \<not> Transaction_addInput_check lib hash' fundingVout then Inl LibraryError
      else
     (case (case network' of
              NetworkMember n \<Rightarrow> address_toOutputScript lib destinationAddress n
            | PrototypeMember \<Rightarrow> None) of
        None \<Rightarrow> Inl LibraryError
      | Some outputScript \<Rightarrow>
      if \<not> Satoshi lib outputAmount then Inl LibraryError
      else
     (let tx = \<lparr>tx_version = 2, tx_locktime = 0,
                 ins = [\<lparr>in_hash = hash', in_index = fundingVout, in_script = [],
                         in_sequence = 4294967295, in_witness = []\<rparr>],
                 outs = [\<lparr>out_script = outputScript, out_value = outputAmount\<rparr>]\<rparr>
      in
     (case ECPair_fromPrivateKey lib (Buffer_from_hex privateKey) of
        None \<Rightarrow> Inl LibraryError
      | Some keyPair \<Rightarrow>
     (case signWitnessV0 lib tx 0 htlcScript fundingAmount (Buffer_from_hex privateKey) of
        None \<Rightarrow> Inl LibraryError
      | Some derSignature \<Rightarrow>
      if \<not> signature_decode lib derSignature then Inl LibraryError
      else
     (let witness = [derSignature, secretBuffer, [1], htlcScript];
          tx' = tx\<lparr>ins := [(hd (ins tx))\<lparr>in_witness := witness\<rparr>]\<rparr>;
          txHex = Transaction_toHex lib tx'
      in
      case broadcast txHex (r_network htlcConfig) of
        None \<Rightarrow> Inl NetworkError
      | Some broadcastedTxId \<Rightarrow> Inr (tx', broadcastedTxId)))))))))))))"

section \<open>btc/scripts/fund-htlc.ts\<close>

record BitcoinUTXO =
  bu_txid :: string
  bu_vout :: int
  bu_value :: int
  bu_scriptPubKey :: string
  bu_address :: string

text \<open>
  What \<open>main\<close> reads from outside: the command-line arguments (\<open>arg_amount\<close> is the
  result of \<open>parseInt\<close>, 0 when the argument is absent or is not a number; \<open>arg_network\<close> is
  \<open>'testnet4'\<close> when absent), the two environment variables, and the explorer
  (\<open>getUTXOs\<close> answers the empty list when the request fails; \<open>getTransaction\<close> and
  \<open>broadcastTransaction\<close> are \<open>None\<close> when they throw).
\<close>

record FundHtlcEnv =
  arg_address :: "string option"
  arg_amount :: int
  arg_network :: string
  env_BITCOIN_PRIVATE_KEY :: "string option"
  env_BITCOIN_ADDRESS :: "string option"
  getUTXOs :: "string \<Rightarrow> string \<Rightarrow> BitcoinUTXO list"
  getTransaction :: "string \<Rightarrow> string \<Rightarrow> string option"
  broadcastTransaction :: "string \<Rightarrow> string \<Rightarrow> string option"

text \<open>JavaScript's \<open>!v\<close> on an environment variable: unset or empty.\<close>

definition envUnset :: "string option \<Rightarrow> bool" where
  "envUnset v = (case v of None \<Rightarrow> True | Some x \<Rightarrow> x = [])"

definition startsWith :: "string \<Rightarrow> string \<Rightarrow> bool" where
  "startsWith s p = (take (length p) s = p)"

text \<open>
  The input loop of \<open>main\<close>: it stops (\<open>break\<close>) once the inputs added so far cover the
  amount and the fee, and returns the \<open>Psbt\<close> and the running total \<open>inputValue\<close>.
\<close>

fun selectInputs ::
  "bitcoinjs \<Rightarrow> FundHtlcEnv \<Rightarrow> string \<Rightarrow> Network \<Rightarrow> int \<Rightarrow> BitcoinUTXO list \<Rightarrow> Psbt \<Rightarrow> int
     \<Rightarrow> error + (Psbt \<times> int)" where
  "selectInputs lib env fromAddress bitcoinNetwork need [] psbt inputValue = Inr (psbt, inputValue)"
| "selectInputs lib env fromAddress bitcoinNetwork need (utxo # rest) psbt inputValue =
     (if inputValue \<ge> need then Inr (psbt, inputValue)
      else
        (let isLegacy = (startsWith fromAddress ''m'' \<or> startsWith fromAddress ''n''
                         \<or> startsWith fromAddress ''1'' \<or> startsWith fromAddress ''2'');
             isSegWit = (startsWith fromAddress ''tb1'' \<or> startsWith fromAddress ''bc1''
                         \<or> startsWith fromAddress ''bcrt1'')
         in
         if isSegWit then
           (case payments_p2wpkh_output lib fromAddress bitcoinNetwork of
              None \<Rightarrow> Inl LibraryError
            | Some None \<Rightarrow>
                selectInputs lib env fromAddress bitcoinNetwork need rest psbt inputValue
            | Some (Some p2wpkhScript) \<Rightarrow>
                (case Psbt_addInput lib psbt
                        \<lparr>pin_hash = bu_txid utxo, pin_index = bu_vout utxo,
                         witnessUtxo = Some (p2wpkhScript, bu_value utxo),
                         nonWitnessUtxo = None, pin_witnessScript = None, pin_sequence = None,
                         partialSig = [], finalScriptSig = None, finalScriptWitness = None\<rparr> of
                   None \<Rightarrow> Inl LibraryError
                 | Some psbt' \<Rightarrow>
                     selectInputs lib env fromAddress bitcoinNetwork need rest psbt'
                       (inputValue + bu_value utxo)))
         else if isLegacy then
           (case getTransaction env (bu_txid utxo) (arg_network env) of
              None \<Rightarrow> Inl NetworkError
            | Some txHex \<Rightarrow>
                if txHex = [] then Inl InvalidTransactionData
                else
                  (case Psbt_addInput lib psbt
                          \<lparr>pin_hash = bu_txid utxo, pin_index = bu_vout utxo,
                           witnessUtxo = None,
                           nonWitnessUtxo = Some (Buffer_from_hex txHex),
                           pin_witnessScript = None, pin_sequence = None,
                           partialSig = [], finalScriptSig = None, finalScriptWitness = None\<rparr> of
                     None \<Rightarrow> Inl LibraryError
                   | Some psbt' \<Rightarrow>
                       selectInputs lib env fromAddress bitcoinNetwork need rest psbt'
                         (inputValue + bu_value utxo)))
         else Inl UnsupportedAddressFormat))"

text \<open>
  \<open>main\<close>. Every error inside its \<open>try\<close> block ends the process with exit code 1; the
  result names the error that was caught. On success the result is the extracted
  transaction, the total \<open>inputValue\<close> of the inputs added, and the broadcast
  transaction id.
\<close>

definition fund_htlc_main :: "bitcoinjs \<Rightarrow> FundHtlcEnv \<Rightarrow> error + (Transaction \<times> int \<times> string)" where
  "fund_htlc_main lib env =
     (case arg_address env of
        None \<Rightarrow> Inl UsageExit
      | Some htlcAddress \<Rightarrow>
     (let amount = arg_amount env; network' = arg_network env in
      if htlcAddress = [] \<or> amount = 0 then Inl UsageExit
      else if envUnset (env_BITCOIN_PRIVATE_KEY env) \<or> envUnset (env_BITCOIN_ADDRESS env)
      then Inl CredentialsMissing
      else
     (let privateKeyHex = (case env_BITCOIN_PRIVATE_KEY env of None \<Rightarrow> [] | Some k \<Rightarrow> k);
          fromAddress = (case env_BITCOIN_ADDRESS env of None \<Rightarrow> [] | Some a \<Rightarrow> a);
          bitcoinNetwork = (if network' = ''testnet4'' then networks_testnet lib
                            else networks_bitcoin lib);
          utxos = getUTXOs env fromAddress network'
      in
      if length utxos = 0 then Inl NoUTXOsFound
      else
     (let totalAvailable = sum_list (map bu_value utxos);
          fee' = 1000
      in
      if totalAvailable < amount + fee' then Inl InsufficientFunds
      else
     (case (if length privateKeyHex = 64
            then (case ECPair_fromPrivateKey lib (Buffer_from_hex privateKeyHex) of
                    None \<Rightarrow> None
                  | Some publicKey \<Rightarrow> Some (Buffer_from_hex privateKeyHex))
            else ECPair_fromWIF lib privateKeyHex bitcoinNetwork) of
        None \<Rightarrow> Inl LibraryError
      | Some key \<Rightarrow>
     (case selectInputs lib env fromAddress bitcoinNetwork (amount + fee') utxos
             (new_Psbt bitcoinNetwork) 0 of
        Inl e \<Rightarrow> Inl e
      | Inr (psbt1, inputValue) \<Rightarrow>
     (case Psbt_addOutput lib psbt1 htlcAddress amount of
        None \<Rightarrow> Inl LibraryError
      | Some psbt2 \<Rightarrow>
     (let change = inputValue - amount - fee' in
     (case (if change > 546 then Psbt_addOutput lib psbt2 fromAddress change
            else Some psbt2) of
        None \<Rightarrow> Inl LibraryError
      | Some psbt3 \<Rightarrow>
     (case signEach lib [0 ..< length (inputs psbt3)] key psbt3 of
        Inl psbt \<Rightarrow> Inl LibraryError
      | Inr psbt4 \<Rightarrow>
     (case Psbt_finalizeAllInputs lib psbt4 of
        None \<Rightarrow> Inl LibraryError
      | Some psbt5 \<Rightarrow>
     (case Psbt_extractTransaction lib psbt5 of
        None \<Rightarrow> Inl LibraryError
      | Some tx \<Rightarrow>
     (case broadcastTransaction env (Transaction_toHex lib tx) network' of
        None \<Rightarrow> Inl NetworkError
      | Some broadcastTxId \<Rightarrow> Inr (tx, inputValue, broadcastTxId))))))))))))))"

section \<open>monadvm/scripts: the order record and two of its transitions\<close>

text \<open>
  The scripts share the interface \<open>AtomicSwapOrder\<close>. Optional members are \<open>option\<close>
  values. The orders directory is a map from order ids to orders; a script that throws
  before \<open>fs.writeFileSync\<close> leaves it as it was.
\<close>

datatype OrderStatus = CREATED | FILLED | FUNDED | COMPLETED | CANCELLED

record OrderMaker =
  maker_address :: string
  provides_asset :: string
  provides_amount :: string
  provides_token :: "string option"
  wants_asset :: string
  wants_amount :: string
  wants_address :: string
  wants_publicKey :: string

record OrderTaker =
  taker_address :: string
  taker_bitcoinAddress :: string

record OrderBitcoinHTLC =
  htlc_address :: string
  htlc_scriptHash :: string
  htlc_amount :: string
  htlc_network :: string
  htlc_locktime :: int

record OrderEscrow =
  escrow_address :: string
  escrow_txHash :: string
  escrow_amount :: string
  escrow_safetyDeposit :: string
  escrow_creationFee :: string

record OrderTransactions =
  bitcoinHTLCFunding :: "string option"
  monadvmEscrowCreation :: "string option"
  bitcoinHTLCClaim :: "string option"
  monadvmEscrowClaim :: "string option"

record AtomicSwapOrder =
  o_orderId :: string
  o_timestamp :: int
  o_network :: string
  o_chainId :: int
  o_maker :: OrderMaker
  o_taker :: "OrderTaker option"
  o_secret :: string
  o_hashlock :: string
  o_withdrawalPeriod :: int
  o_cancellationPeriod :: int
  o_status :: OrderStatus
  o_btcEscrowFactory :: string
  o_accessToken :: string
  o_bitcoinHTLC :: "OrderBitcoinHTLC option"
  o_monadvmEscrow :: "OrderEscrow option"
  o_transactions :: "OrderTransactions option"

datatype script_error =
    ProcessExit nat
  | OrderNotFound
  | OrderStatusIs OrderStatus OrderStatus
  | OrderMissingRequiredComponents
  | SecretDoesntMatchHashlock
  | BitcoinConfigNotFound
  | BitcoinEnvironmentVariablesRequired
  | HTLCBuilderNotFound
  | HTLCResultFileNotFound
  | BitcoinClaimingFailed nat

type_synonym orders = "string \<rightharpoonup> AtomicSwapOrder"

text \<open>\<open>s.includes(sub)\<close> and \<open>s.replace(sub, '')\<close> (first occurrence only).\<close>

fun str_includes :: "string \<Rightarrow> string \<Rightarrow> bool" where
  "str_includes [] sub = (sub = [])"
| "str_includes (c # cs) sub = (take (length sub) (c # cs) = sub \<or> str_includes cs sub)"

fun removeFirst :: "string \<Rightarrow> string \<Rightarrow> string" where
  "removeFirst [] sub = []"
| "removeFirst (c # cs) sub =
     (if take (length sub) (c # cs) = sub then drop (length sub) (c # cs)
      else c # removeFirst cs sub)"

definition emptyTransactions :: OrderTransactions where
  "emptyTransactions =
     \<lparr>bitcoinHTLCFunding = None, monadvmEscrowCreation = None,
      bitcoinHTLCClaim = None, monadvmEscrowClaim = None\<rparr>"

subsection \<open>taker-fund-htlc-real.ts\<close>

text \<open>
  What \<open>main\<close> reads from outside the order file: the order id, the Bitcoin
  credentials, whether the builder's source file exists, the funding subprocess
  (\<open>execSync\<close> of fund-htlc.ts on the command line built from the order: its output, or
  \<open>None\<close> when it throws), the transaction id read from that output (or the
  \<open>real_..._funding\<close> fallback) and the simulated transaction id of the \<open>catch\<close> branch.
\<close>

record FundEnv =
  fund_orderId :: string
  fund_BITCOIN_PRIVATE_KEY :: "string option"
  fund_BITCOIN_ADDRESS :: "string option"
  fund_htlcBuilderExists :: bool
  fund_execSync :: "AtomicSwapOrder \<Rightarrow> string option"
  fund_actualTxId :: "string \<Rightarrow> string"
  fund_mockFundingTxId :: "AtomicSwapOrder \<Rightarrow> string"

definition setFunded :: "AtomicSwapOrder \<Rightarrow> string \<Rightarrow> AtomicSwapOrder" where
  "setFunded order' txId =
     order'\<lparr>o_status := FUNDED,
            o_transactions := Some ((case o_transactions order' of
                                       None \<Rightarrow> emptyTransactions
                                     | Some t \<Rightarrow> t)\<lparr>bitcoinHTLCFunding := Some txId\<rparr>)\<rparr>"

definition taker_fund_main :: "FundEnv \<Rightarrow> orders \<Rightarrow> (script_error + AtomicSwapOrder) \<times> orders" where
  "taker_fund_main env files =
     (let orderId = fund_orderId env in
      if orderId = [] \<or> str_includes orderId ''.ts'' then (Inl (ProcessExit 1), files)
      else
        (case files orderId of
           None \<Rightarrow> (Inl OrderNotFound, files)
         | Some order' \<Rightarrow>
             if o_taker order' = None \<or> o_bitcoinHTLC order' = None \<or> o_monadvmEscrow order' = None
             then (Inl OrderMissingRequiredComponents, files)
             else if envUnset (fund_BITCOIN_PRIVATE_KEY env) \<or> envUnset (fund_BITCOIN_ADDRESS env)
             then (Inl (ProcessExit 1), files)
             else if \<not> fund_htlcBuilderExists env then (Inl HTLCBuilderNotFound, files)
             else
               (case fund_execSync env order' of
                  Some result \<Rightarrow>
                    (let updated = setFunded order' (fund_actualTxId env result)
                     in (Inr updated, files(orderId \<mapsto> updated)))
                | None \<Rightarrow>
                    (let updated = setFunded order' (fund_mockFundingTxId env order')
                     in (Inr updated, files(orderId \<mapsto> updated))))))"

subsection \<open>maker-claim-btc.ts\<close>

text \<open>
  What \<open>main\<close> reads from outside the order file: the order id, whether the Bitcoin
  configuration file exists, the Bitcoin credentials, the HTLC result file found in the
  output directory, the claim subprocess (\<open>spawn\<close> of create-htlc.ts with the argument
  list: its exit code and output) and the transaction id read from that output.
\<close>

record ClaimEnv =
  claim_orderId :: string
  claim_btcConfigExists :: bool
  claim_BITCOIN_PRIVATE_KEY :: "string option"
  claim_BITCOIN_ADDRESS :: "string option"
  claim_htlcResultFile :: "string option"
  claim_spawn :: "string list \<Rightarrow> nat \<times> string"
  claim_txId :: "string \<Rightarrow> string"

definition setCompleted :: "AtomicSwapOrder \<Rightarrow> string \<Rightarrow> AtomicSwapOrder" where
  "setCompleted order' txId =
     order'\<lparr>o_status := COMPLETED,
            o_transactions := Some ((case o_transactions order' of
                                       None \<Rightarrow> emptyTransactions
                                     | Some t \<Rightarrow> t)\<lparr>bitcoinHTLCClaim := Some txId\<rparr>)\<rparr>"

definition claimArguments :: "AtomicSwapOrder \<Rightarrow> string \<Rightarrow> string \<Rightarrow> string list" where
  "claimArguments order' htlcResultFile bitcoinPrivateKey =
     (let htlcFile = ''btc/output/'' @ htlcResultFile;
          fundingTxId = (case o_transactions order' of
                           None \<Rightarrow> []
                         | Some t \<Rightarrow> (case bitcoinHTLCFunding t of None \<Rightarrow> [] | Some x \<Rightarrow> x));
          secret = removeFirst (o_secret order') ''0x''
      in [''btc/scripts/create-htlc.ts'', ''claim'', htlcFile, fundingTxId, ''0'', secret,
          wants_address (o_maker order'), bitcoinPrivateKey, ''10''])"

definition maker_claim_main ::
  "bitcoinjs \<Rightarrow> ClaimEnv \<Rightarrow> orders \<Rightarrow> (script_error + AtomicSwapOrder) \<times> orders" where
  "maker_claim_main lib env files =
     (let orderId = claim_orderId env in
      if orderId = [] \<or> str_includes orderId ''.ts'' then (Inl (ProcessExit 1), files)
      else
        (case files orderId of
           None \<Rightarrow> (Inl OrderNotFound, files)
         | Some order' \<Rightarrow>
             if o_status order' \<noteq> FUNDED then (Inl (OrderStatusIs (o_status order') FUNDED), files)
             else if o_taker order' = None \<or> o_bitcoinHTLC order' = None
                     \<or> o_monadvmEscrow order' = None
             then (Inl OrderMissingRequiredComponents, files)
             else
               (let secretBuffer = Buffer_from_hex (drop 2 (o_secret order'));
                    calculatedHashlock = ''0x'' @ toString_hex (crypto_sha256 lib secretBuffer)
                in
                if calculatedHashlock \<noteq> o_hashlock order' then (Inl SecretDoesntMatchHashlock, files)
                else if \<not> claim_btcConfigExists env then (Inl BitcoinConfigNotFound, files)
                else if envUnset (claim_BITCOIN_PRIVATE_KEY env)
                        \<or> envUnset (claim_BITCOIN_ADDRESS env)
                then (Inl BitcoinEnvironmentVariablesRequired, files)
                else
                  (case claim_htlcResultFile env of
                     None \<Rightarrow> (Inl HTLCResultFileNotFound, files)
                   | Some htlcResultFile \<Rightarrow>
                       (case claim_spawn env
                               (claimArguments order' htlcResultFile
                                  (case claim_BITCOIN_PRIVATE_KEY env of
                                     None \<Rightarrow> [] | Some k \<Rightarrow> k)) of
                          (code, claimOutput) \<Rightarrow>
                            if code \<noteq> 0 then (Inl (BitcoinClaimingFailed code), files)
                            else
                              (let updated = setCompleted order' (claim_txId env claimOutput)
                               in (Inr updated, files(orderId \<mapsto> updated))))))))"

section \<open>The stack of input 0, as the specification describes it\<close>

text \<open>
  The specification describes the secret extractor in terms of ``the stack of input 0'': the
  witness stack of a segwit input, or the decompiled script-sig of a legacy one. This
  definition follows that description, not the code; the extractor of the code is
  \<open>extractSecretFromTransaction\<close> above, and the two are compared below.
\<close>

definition input0_stack :: "bitcoinjs \<Rightarrow> Transaction \<Rightarrow> chunk list" where
  "input0_stack lib tx =
     (case ins tx of
        [] \<Rightarrow> []
      | in0 # _ \<Rightarrow>
          if in_witness in0 \<noteq> [] then map Data (in_witness in0)
          else if in_script in0 = [] then []
          else (case script_decompile lib (in_script in0) of None \<Rightarrow> [] | Some cs \<Rightarrow> cs))"

section \<open>A stand-in for the library, for running the code on concrete inputs\<close>

text \<open>
  The theorems below hold for every value of the record \<open>bitcoinjs\<close>. To run the
  repository's code on a concrete input, the record has to be filled in. \<open>stubLib\<close> does
  so with the library's argument checks and Bitcoin's transaction wire format written
  out, and with simple stand-ins for the hash functions, the address encoding and the
  signatures.
\<close>

definition varint :: "nat \<Rightarrow> Buffer" where
  "varint n =
     (if n < 253 then [of_nat n]
      else if n \<le> 65535 then 253 # bytesLE 2 (int n)
      else if int n \<le> 4294967295 then 254 # bytesLE 4 (int n)
      else 255 # bytesLE 8 (int n))"

definition varslice :: "Buffer \<Rightarrow> Buffer" where
  "varslice b = varint (length b) @ b"

definition hasWitnesses :: "Transaction \<Rightarrow> bool" where
  "hasWitnesses tx = list_ex (\<lambda>i. in_witness i \<noteq> []) (ins tx)"

definition serializeTx :: "Transaction \<Rightarrow> Buffer" where
  "serializeTx tx =
     bytesLE 4 (tx_version tx) @
     (if hasWitnesses tx then [0, 1] else []) @
     varint (length (ins tx)) @
     concat (map (\<lambda>i. in_hash i @ bytesLE 4 (in_index i) @ varslice (in_script i) @
                        bytesLE 4 (in_sequence i)) (ins tx)) @
     varint (length (outs tx)) @
     concat (map (\<lambda>out. bytesLE 8 (out_value out) @ varslice (out_script out)) (outs tx)) @
     (if hasWitnesses tx
      then concat (map (\<lambda>i. varint (length (in_witness i)) @ concat (map varslice (in_witness i)))
                     (ins tx))
      else []) @
     bytesLE 4 (tx_locktime tx)"

definition readBytes :: "nat \<Rightarrow> Buffer \<Rightarrow> (Buffer \<times> Buffer) option" where
  "readBytes n buffer = (if length buffer < n then None else Some (take n buffer, drop n buffer))"

definition readVarSlice :: "Buffer \<Rightarrow> (Buffer \<times> Buffer) option" where
  "readVarSlice buffer =
     (case readVarInt buffer of None \<Rightarrow> None | Some (n, rest) \<Rightarrow> readBytes n rest)"

fun parseIns :: "nat \<Rightarrow> Buffer \<Rightarrow> (TxInput list \<times> Buffer) option" where
  "parseIns 0 buffer = Some ([], buffer)"
| "parseIns (Suc k) buffer =
     Option.bind (readBytes 32 buffer) (\<lambda>(h, r1).
     Option.bind (readBytes 4 r1) (\<lambda>(ix, r2).
     Option.bind (readVarSlice r2) (\<lambda>(sc, r3).
     Option.bind (readBytes 4 r3) (\<lambda>(sq, r4).
     Option.bind (parseIns k r4) (\<lambda>(others, r5).
       Some (\<lparr>in_hash = h, in_index = leToInt ix, in_script = sc,
               in_sequence = leToInt sq, in_witness = []\<rparr> # others, r5))))))"

fun parseOuts :: "nat \<Rightarrow> Buffer \<Rightarrow> (TxOutput list \<times> Buffer) option" where
  "parseOuts 0 buffer = Some ([], buffer)"
| "parseOuts (Suc k) buffer =
     Option.bind (readBytes 8 buffer) (\<lambda>(v, r1).
     Option.bind (readVarSlice r1) (\<lambda>(sc, r2).
     Option.bind (parseOuts k r2) (\<lambda>(others, r3).
       Some (\<lparr>out_script = sc, out_value = leToInt v\<rparr> # others, r3))))"

fun readSlices :: "nat \<Rightarrow> Buffer \<Rightarrow> (Buffer list \<times> Buffer) option" where
  "readSlices 0 buffer = Some ([], buffer)"
| "readSlices (Suc k) buffer =
     Option.bind (readVarSlice buffer) (\<lambda>(x, r1).
     Option.bind (readSlices k r1) (\<lambda>(others, r2). Some (x # others, r2)))"

fun parseWitnesses :: "TxInput list \<Rightarrow> Buffer \<Rightarrow> (TxInput list \<times> Buffer) option" where
  "parseWitnesses [] buffer = Some ([], buffer)"
| "parseWitnesses (i # rest) buffer =
     Option.bind (readVarInt buffer) (\<lambda>(n, r1).
     Option.bind (readSlices n r1) (\<lambda>(w, r2).
     Option.bind (parseWitnesses rest r2) (\<lambda>(others, r3).
       Some (i\<lparr>in_witness := w\<rparr> # others, r3))))"

definition parseTx :: "Buffer \<Rightarrow> Transaction option" where
  "parseTx buffer =
     Option.bind (readBytes 4 buffer) (\<lambda>(v, r0).
     (let segwit = (take 2 r0 = [0, 1]);
          r1 = (if segwit then drop 2 r0 else r0)
      in
     Option.bind (readVarInt r1) (\<lambda>(nIn, r2).
     Option.bind (parseIns nIn r2) (\<lambda>(is, r3).
     Option.bind (readVarInt r3) (\<lambda>(nOut, r4).
     Option.bind (parseOuts nOut r4) (\<lambda>(os, r5).
     Option.bind (if segwit then parseWitnesses is r5 else Some (is, r5)) (\<lambda>(is', r6).
     Option.bind (readBytes 4 r6) (\<lambda>(lt, r7).
       if r7 \<noteq> [] then None
       else Some \<lparr>tx_version = toInt32 (leToInt v), tx_locktime = leToInt lt,
                  ins = is', outs = os\<rparr>))))))))"

definition stubSignature :: Buffer where
  "stubSignature = 48 # 69 # replicate 69 7 @ [1]"

definition stubAddress :: "Buffer \<Rightarrow> Network \<Rightarrow> string" where
  "stubAddress script n = bech32 n @ ''1'' @ toString_hex script"

definition stubToOutputScript :: "string \<Rightarrow> Network \<Rightarrow> Buffer option" where
  "stubToOutputScript a n =
     (let prefix = bech32 n @ ''1'' in
      if take (length prefix) a = prefix
      then Some (Buffer_from_hex (drop (length prefix) a))
      else None)"

definition stubLib :: bitcoinjs where
  "stubLib =
     \<lparr>crypto_sha256 = (\<lambda>b. take 32 (b @ replicate 32 0)),
      crypto_hash160 = (\<lambda>b. take 20 (b @ replicate 20 0)),
      address_fromOutputScript = (\<lambda>script n. Some (stubAddress script n)),
      address_toOutputScript = stubToOutputScript,
      ECPair_fromPrivateKey = (\<lambda>k. if length k = 32 then Some (2 # k) else None),
      addInput_check = (\<lambda>psbt inp. length (Buffer_from_hex (pin_hash inp)) = 32
                                    \<and> 0 \<le> pin_index inp \<and> pin_index inp \<le> 4294967295),
      Satoshi = (\<lambda>v. 0 \<le> v \<and> v \<le> 2100000000000000),
      check32Bit = (\<lambda>l. 0 \<le> l \<and> l \<le> 4294967295),
      signInput_signature = (\<lambda>psbt i k. if length k = 32 then Some stubSignature else None),
      signature_decode = (\<lambda>sg. 9 \<le> length sg \<and> length sg \<le> 73),
      finalizeInput_check = (\<lambda>inp. partialSig inp \<noteq> []),
      getFinalScripts = (\<lambda>inp. case partialSig inp of
                                  [] \<Rightarrow> None
                                | sg # _ \<Rightarrow> Some (None, Some (2 # varslice sg @ varslice [2]))),
      checkFees = (\<lambda>psbt. sum_list (map pout_value (outputs psbt))
                            \<le> sum_list (map (\<lambda>inp. case witnessUtxo inp of
                                                      None \<Rightarrow> 0 | Some (sc, v) \<Rightarrow> v)
                                           (inputs psbt))),
      Transaction_getId = (\<lambda>tx. toString_hex (replicate 32 0)),
      Transaction_toHex = (\<lambda>tx. toString_hex (serializeTx tx)),
      Transaction_fromHex = (\<lambda>h. parseTx (Buffer_from_hex h)),
      Transaction_virtualSize = (\<lambda>tx. int (length (ins tx)) * 68 + int (length (outs tx)) * 31 + 11),
      Transaction_getHash = (\<lambda>tx. replicate 32 0),
      script_decompile = (\<lambda>b. Some (map (\<lambda>x. Op (unat x)) b)),
      Transaction_addInput_check = (\<lambda>h ix. length h = 32 \<and> 0 \<le> ix \<and> ix \<le> 4294967295),
      signWitnessV0 = (\<lambda>tx i script v k. if length k = 32 then Some stubSignature else None),
      ECPair_fromWIF = (\<lambda>w n. if length (Buffer_from_hex w) = 32 then Some (Buffer_from_hex w)
                               else None),
      payments_p2wpkh_output = (\<lambda>a n. case stubToOutputScript a n of
                                          None \<Rightarrow> None | Some sc \<Rightarrow> Some (Some sc)),
      networks_bitcoin =
        \<lparr>messagePrefix = CHR 0x18 # ''Bitcoin Signed Message:'' @ [CHR 0x0A], bech32 = ''bc'',
         bip32_public = 0x0488b21e, bip32_private = 0x0488ade4, pubKeyHash = 0,
         net_scriptHash = 5, wif = 0x80\<rparr>,
      networks_testnet = NETWORKS_testnet4,
      networks_regtest =
        \<lparr>messagePrefix = CHR 0x18 # ''Bitcoin Signed Message:'' @ [CHR 0x0A], bech32 = ''bcrt'',
         bip32_public = 0x043587cf, bip32_private = 0x04358394, pubKeyHash = 0x6f,
         net_scriptHash = 0xc4, wif = 0xef\<rparr>\<rparr>"

text \<open>
  A stand-in for the two address codecs, and the stand-in library with the address
  functions written out above over them. A Bech32 address is the prefix, the separator
  \<open>1\<close>, the letter \<open>q\<close> of version 0 and the data in hexadecimal; a Base58Check address is
  the digit \<open>2\<close> and the version byte and hash in hexadecimal.
\<close>

definition stubCodec :: address_codec where
  "stubCodec =
     \<lparr>toBase58Check = (\<lambda>hash' version.
        if length hash' = 20 \<and> 0 \<le> version \<and> version \<le> 255
        then Some (''2'' @ toString_hex (of_int version # hash')) else None),
      fromBase58Check = (\<lambda>a.
        case a of
          [] \<Rightarrow> None
        | c # rest \<Rightarrow>
            if c = CHR ''2'' \<and> length rest = 42 \<and> length (Buffer_from_hex rest) = 21
            then Some (uint (hd (Buffer_from_hex rest)), tl (Buffer_from_hex rest))
            else None),
      toBech32 = (\<lambda>data version prefix.
        if version = 0 then Some (prefix @ ''1q'' @ toString_hex data) else None),
      fromBech32 = (\<lambda>a.
        case drop (length (takeWhile (\<lambda>c. c \<noteq> CHR ''1'') a)) a of
          one # q # digits \<Rightarrow>
            if q = CHR ''q'' \<and> length digits = 2 * length (Buffer_from_hex digits)
            then Some (0, takeWhile (\<lambda>c. c \<noteq> CHR ''1'') a, Buffer_from_hex digits)
            else None
        | _ \<Rightarrow> None),
      laterVersion_address = (\<lambda>output n. None),
      laterVersion_script = (\<lambda>version data. None)\<rparr>"

definition stubCodecLib :: bitcoinjs where
  "stubCodecLib =
     stubLib\<lparr>address_fromOutputScript := fromOutputScript stubCodec,
             address_toOutputScript := toOutputScript stubCodec\<rparr>"

text \<open>Concrete inputs: the scenario of the specification, with test keys.\<close>

definition demoSecret :: Buffer where
  "demoSecret = replicate 31 0 @ [1]"

definition demoConfig :: HTLCConfig where
  "demoConfig =
     \<lparr>senderPublicKey = 2 # replicate 32 17,
      receiverPublicKey = 3 # replicate 32 34,
      hashlock = crypto_sha256 stubLib demoSecret,
      locktime = 1700000000,
      network = NETWORKS_testnet4,
      useSegwit = Some True\<rparr>"

definition demoTxid :: string where
  "demoTxid = toString_hex (replicate 32 171)"

definition demoKey :: Buffer where
  "demoKey = replicate 32 9"

definition demoDestination :: string where
  "demoDestination = stubAddress (0 # 20 # replicate 20 68) NETWORKS_testnet4"

text \<open>
  The builder of the scenario, the transactions it produces with the stand-in library, and
  the inputs of the two funding paths.
\<close>

definition demoBuilder :: HTLCBuilder where
  "demoBuilder = new_HTLCBuilder demoConfig"

definition demoClaimTx :: "int \<Rightarrow> Transaction" where
  "demoClaimTx v =
     \<lparr>tx_version = 2, tx_locktime = 0,
      ins = [\<lparr>in_hash = rev (Buffer_from_hex demoTxid), in_index = 0,
              in_script = [], in_sequence = 4294967295,
              in_witness = [stubSignature, demoSecret, [1],
                            createHTLCScript demoBuilder]\<rparr>],
      outs = [\<lparr>out_script = 0 # 20 # replicate 20 68, out_value = v\<rparr>]\<rparr>"


definition demoLegacyBuilder :: HTLCBuilder where
  "demoLegacyBuilder = new_HTLCBuilder (demoConfig\<lparr>useSegwit := None\<rparr>)"

definition demoUtxo :: UTXO where
  "demoUtxo = \<lparr>utxo_txid = demoTxid, utxo_vout = 1, utxo_value = 100000,
               utxo_scriptPubKey = ''0014aa''\<rparr>"

definition demoFundingTx :: Transaction where
  "demoFundingTx =
     \<lparr>tx_version = 2, tx_locktime = 0,
      ins = [\<lparr>in_hash = rev (Buffer_from_hex demoTxid), in_index = 1,
              in_script = [], in_sequence = 4294967295,
              in_witness = [stubSignature, [2]]\<rparr>],
      outs = [\<lparr>out_script = script_compile
                              [Op OP_0, Data (crypto_sha256 stubLib (createHTLCScript demoBuilder))],
               out_value = 99500\<rparr>]\<rparr>"

definition demoParams :: HTLCParams where
  "demoParams =
     \<lparr>p_senderPublicKey = toString_hex (2 # replicate 32 17),
      p_receiverPublicKey = toString_hex (3 # replicate 32 34),
      p_hashlock = toString_hex (crypto_sha256 stubLib demoSecret),
      p_locktime = 1700000000,
      p_network = ''testnet'',
      p_useSegwit = Some True\<rparr>"

definition demoLegacyParams :: HTLCParams where
  "demoLegacyParams = demoParams\<lparr>p_useSegwit := Some False\<rparr>"

text \<open>
  The addresses of the scenario's HTLC under the stand-in codecs: the P2WSH address and
  the P2SH address, both for testnet.
\<close>

definition demoSegwitAddress :: string where
  "demoSegwitAddress =
     ''tb1q'' @ toString_hex (crypto_sha256 stubLib (createHTLCScript demoBuilder))"

definition demoLegacyAddress :: string where
  "demoLegacyAddress =
     ''2c4'' @ toString_hex (crypto_hash160 stubLib (createHTLCScript demoBuilder))"

definition demoHTLC :: HTLCOutput where
  "demoHTLC =
     \<lparr>address = stubAddress (script_compile [Op OP_0, Data (crypto_sha256 stubLib (createHTLCScript demoBuilder))])
                  NETWORKS_testnet4,
      redeemScript = createHTLCScript demoBuilder,
      lockingScript = script_compile [Op OP_0, Data (crypto_sha256 stubLib (createHTLCScript demoBuilder))],
      scriptHash = crypto_sha256 stubLib (createHTLCScript demoBuilder),
      witnessScript = Some (createHTLCScript demoBuilder)\<rparr>"

definition demoOneElementTx :: Transaction where
  "demoOneElementTx =
     \<lparr>tx_version = 2, tx_locktime = 0,
      ins = [\<lparr>in_hash = replicate 32 171, in_index = 0,
              in_script = [], in_sequence = 4294967295,
              in_witness = [[48, 1]]\<rparr>],
      outs = []\<rparr>"

definition demoFundHtlcEnv :: FundHtlcEnv where
  "demoFundHtlcEnv =
     \<lparr>arg_address = Some (address demoHTLC),
      arg_amount = 50000,
      arg_network = ''testnet4'',
      env_BITCOIN_PRIVATE_KEY = Some (toString_hex demoKey),
      env_BITCOIN_ADDRESS = Some demoDestination,
      getUTXOs = (\<lambda>a n. [\<lparr>bu_txid = demoTxid, bu_vout = 0, bu_value = 60000,
                            bu_scriptPubKey = [], bu_address = a\<rparr>]),
      getTransaction = (\<lambda>t n. None),
      broadcastTransaction = (\<lambda>h n. Some demoTxid)\<rparr>"

definition demoFundMainTx :: Transaction where
  "demoFundMainTx =
     \<lparr>tx_version = 2, tx_locktime = 0,
      ins = [\<lparr>in_hash = rev (Buffer_from_hex demoTxid), in_index = 0,
              in_script = [], in_sequence = 4294967295,
              in_witness = [stubSignature, [2]]\<rparr>],
      outs = [\<lparr>out_script = lockingScript demoHTLC, out_value = 50000\<rparr>,
              \<lparr>out_script = 0 # 20 # replicate 20 68, out_value = 9000\<rparr>]\<rparr>"

definition demoFundingChangeTx :: Transaction where
  "demoFundingChangeTx =
     \<lparr>tx_version = 2, tx_locktime = 0,
      ins = [\<lparr>in_hash = rev (Buffer_from_hex demoTxid), in_index = 1,
              in_script = [], in_sequence = 4294967295,
              in_witness = [stubSignature, [2]]\<rparr>],
      outs = [\<lparr>out_script = script_compile
                              [Op OP_0, Data (crypto_sha256 stubLib (createHTLCScript demoBuilder))],
               out_value = 50000\<rparr>,
              \<lparr>out_script = 0 # 20 # replicate 20 68, out_value = 49774\<rparr>]\<rparr>"

definition demoFundHtlcDustEnv :: FundHtlcEnv where
  "demoFundHtlcDustEnv = demoFundHtlcEnv\<lparr>arg_amount := 59000\<rparr>"

definition demoFundMainDustTx :: Transaction where
  "demoFundMainDustTx =
     \<lparr>tx_version = 2, tx_locktime = 0,
      ins = [\<lparr>in_hash = rev (Buffer_from_hex demoTxid), in_index = 0,
              in_script = [], in_sequence = 4294967295,
              in_witness = [stubSignature, [2]]\<rparr>],
      outs = [\<lparr>out_script = lockingScript demoHTLC, out_value = 59000\<rparr>]\<rparr>"

text \<open>
  An order file that has a taker, a Bitcoin HTLC and an escrow, in a given status, and an
  environment of \<open>taker-fund-htlc-real.ts\<close> in which the funding subprocess fails.
\<close>

definition demoOrder :: "OrderStatus \<Rightarrow> AtomicSwapOrder" where
  "demoOrder st =
     \<lparr>o_orderId = ''order_1'', o_timestamp = 1700000000000, o_network = ''monad'',
      o_chainId = 10143,
      o_maker = \<lparr>maker_address = ''0xmaker'', provides_asset = ''ETH'',
                  provides_amount = ''1000000000000000'', provides_token = None,
                  wants_asset = ''BTC'', wants_amount = ''0.001'',
                  wants_address = demoDestination, wants_publicKey = toString_hex (3 # replicate 32 34)\<rparr>,
      o_taker = Some \<lparr>taker_address = ''0xtaker'', taker_bitcoinAddress = demoDestination\<rparr>,
      o_secret = ''0x'' @ toString_hex demoSecret,
      o_hashlock = ''0x'' @ toString_hex (crypto_sha256 stubLib demoSecret),
      o_withdrawalPeriod = 0, o_cancellationPeriod = 3600,
      o_status = st,
      o_btcEscrowFactory = ''0xfactory'', o_accessToken = ''0xtoken'',
      o_bitcoinHTLC = Some \<lparr>htlc_address = address demoHTLC, htlc_scriptHash = [],
                             htlc_amount = ''0.001'', htlc_network = ''testnet4'',
                             htlc_locktime = 1700000000\<rparr>,
      o_monadvmEscrow = Some \<lparr>escrow_address = ''0xescrow'', escrow_txHash = ''0xtx'',
                               escrow_amount = ''1000000000000000'', escrow_safetyDeposit = ''0'',
                               escrow_creationFee = ''0''\<rparr>,
      o_transactions = None\<rparr>"

definition demoFundEnv :: FundEnv where
  "demoFundEnv =
     \<lparr>fund_orderId = ''order_1'',
      fund_BITCOIN_PRIVATE_KEY = Some (toString_hex demoKey),
      fund_BITCOIN_ADDRESS = Some demoDestination,
      fund_htlcBuilderExists = True,
      fund_execSync = (\<lambda>order'. None),
      fund_actualTxId = (\<lambda>result. result),
      fund_mockFundingTxId = (\<lambda>order'. ''sim_0001_funding'')\<rparr>"

subsection \<open>Further scenarios\<close>

text \<open>
  The HTLC of the scenario in legacy mode, under the stand-in codec.
\<close>

definition demoLegacyHTLC :: HTLCOutput where
  "demoLegacyHTLC =
     \<lparr>address = demoLegacyAddress,
      redeemScript = createHTLCScript demoBuilder,
      lockingScript = script_compile [Op OP_HASH160,
                                      Data (crypto_hash160 stubLib (createHTLCScript demoBuilder)),
                                      Op OP_EQUAL],
      scriptHash = crypto_hash160 stubLib (createHTLCScript demoBuilder),
      witnessScript = None\<rparr>"

text \<open>
  A run of \<open>fund-htlc.ts\<close> that needs two of the fetched outputs.
\<close>

definition demoFundHtlcTwoEnv :: FundHtlcEnv where
  "demoFundHtlcTwoEnv =
     demoFundHtlcEnv\<lparr>getUTXOs :=
       (\<lambda>a n. [\<lparr>bu_txid = demoTxid, bu_vout = 0, bu_value = 30000,
                   bu_scriptPubKey = [], bu_address = a\<rparr>,
                 \<lparr>bu_txid = demoTxid, bu_vout = 1, bu_value = 40000,
                   bu_scriptPubKey = [], bu_address = a\<rparr>])\<rparr>"

definition demoFundMainTwoTx :: Transaction where
  "demoFundMainTwoTx =
     \<lparr>tx_version = 2, tx_locktime = 0,
      ins = [\<lparr>in_hash = rev (Buffer_from_hex demoTxid), in_index = 0,
              in_script = [], in_sequence = 4294967295,
              in_witness = [stubSignature, [2]]\<rparr>,
             \<lparr>in_hash = rev (Buffer_from_hex demoTxid), in_index = 1,
              in_script = [], in_sequence = 4294967295,
              in_witness = [stubSignature, [2]]\<rparr>],
      outs = [\<lparr>out_script = lockingScript demoHTLC, out_value = 50000\<rparr>,
              \<lparr>out_script = 0 # 20 # replicate 20 68, out_value = 19000\<rparr>]\<rparr>"

text \<open>
  An HTLC file whose hashlock is spelled with upper-case hexadecimal digits, the secret of
  that hashlock, and the claim transaction that the secret is entitled to.
\<close>

definition demoLetterSecret :: string where
  "demoLetterSecret = toString_hex (replicate 32 171)"

definition demoUpperCaseParams :: HTLCParams where
  "demoUpperCaseParams = demoParams\<lparr>p_hashlock := concat (replicate 32 ''AB'')\<rparr>"

definition demoUpperCaseClaimTx :: Transaction where
  "demoUpperCaseClaimTx =
     \<lparr>tx_version = 2, tx_locktime = 0,
      ins = [\<lparr>in_hash = rev (Buffer_from_hex demoTxid), in_index = 0,
              in_script = [], in_sequence = 4294967295,
              in_witness = [stubSignature, replicate 32 171, [1],
                            createHTLCScript (new_HTLCBuilder
                              (configOfParams demoUpperCaseParams NETWORKS_testnet4))]\<rparr>],
      outs = [\<lparr>out_script = 0 # 20 # replicate 20 68, out_value = 98500\<rparr>]\<rparr>"

section \<open>Properties of the arithmetic\<close>

text \<open>On integers below \<open>2^53\<close> the rounding is the identity, so an integer fee rate gives the exact product.\<close>

lemma pow2_pos: "0 < pow2 e"
  by (simp add: pow2_def)

lemma roundHalfEven_of_int: "roundHalfEven (of_int m) = m"
  by (simp add: roundHalfEven_def)

lemma exponent2_of_int:
  assumes "0 < n"
  shows "exponent2 (of_int n) = bitlen n - 1"
proof -
  have b: "2 ^ nat (bitlen n - 1) \<le> n" using bitlen_bounds[OF assms] by simp
  have p: "0 \<le> bitlen n - 1" using assms by (simp add: bitlen_alt_def)
  have "(of_int (2 ^ nat (bitlen n - 1)) :: rat) \<le> of_int n"
    using b by (simp only: of_int_le_iff)
  then have "\<not> (of_int n :: rat) < pow2 (bitlen n - 1)"
    using p by (simp add: pow2_def)
  moreover have "bitlen 1 = 1" by (simp add: bitlen_alt_def)
  ultimately show ?thesis
    by (simp add: exponent2_def Let_def)
qed

lemma double_round_of_int:
  assumes "0 \<le> n" "n < 2 ^ 53"
  shows "double_round (of_int n) = of_int n"
proof (cases "n = 0")
  case True
  then show ?thesis by (simp add: double_round_def)
next
  case False
  with assms have pos: "0 < n" by simp
  define k where "k = nat (53 - bitlen n)"
  have le: "bitlen n \<le> 53"
    using assms(2) pos by (simp add: bitlen_le_iff_power)
  have ge: "1 \<le> bitlen n" using pos by (simp add: bitlen_alt_def)
  have e: "exponent2 \<bar>of_int n\<bar> = bitlen n - 1"
    using exponent2_of_int[OF pos] pos by simp
  have m: "max (bitlen n - 1) (- 1022) = bitlen n - 1" using ge by simp
  have u: "pow2 (bitlen n - 1 - 52) = 1 / 2 ^ k"
    using le by (auto simp: pow2_def k_def nat_diff_distrib intro: arg_cong[where f="\<lambda>x. 1 / 2 ^ x"])
  have q: "(of_int n :: rat) / (1 / 2 ^ k) = of_int (n * 2 ^ k)" by simp
  show ?thesis
    using False
    by (simp only: double_round_def e m u Let_def q roundHalfEven_of_int) simp
qed

lemma js_times_of_int:
  assumes "0 \<le> a" "a < 2 ^ 53" "0 \<le> b" "b < 2 ^ 53" "a * b < 2 ^ 53"
  shows "js_times (of_int a) (of_int b) = of_int (a * b)"
proof -
  have "0 \<le> a * b" using assms(1,3) by simp
  from double_round_of_int[OF this assms(5)] double_round_of_int[OF assms(1,2)]
    double_round_of_int[OF assms(3,4)]
  show ?thesis by (simp add: js_times_def)
qed

lemma Math_ceil_js_times_of_int:
  assumes "0 \<le> a" "a < 2 ^ 53" "0 \<le> b" "b < 2 ^ 53" "a * b < 2 ^ 53"
  shows "Math_ceil (js_times (of_int a) (of_int b)) = a * b"
proof -
  have "Math_ceil (js_times (of_int a) (of_int b)) = \<lceil>(of_int (a * b) :: rat)\<rceil>"
    using js_times_of_int[OF assms] by (simp only: Math_ceil_def)
  moreover have "\<lceil>(of_int a :: rat) * of_int b\<rceil> = a * b"
    by (metis of_int_mult ceiling_of_int)
  ultimately show ?thesis by simp
qed

text \<open>
  Two fee rates that are not integers, at the size 670 of four inputs. The number 1.1 is
  above 11/10 and gives the fee 738, where the exact product is 737; the number 0.1 is
  above 1/10 and gives the fee 67, the product being rounded down to 67, where the ceiling
  of the exact product of 670 and the number 0.1 is 68.
\<close>

lemma Math_ceil_js_times_examples:
  "Math_ceil (js_times 670 (11 / 10)) = 738"
  "double_round (11 / 10) = 2476979795053773 / 2251799813685248"
  "\<lceil>670 * (11 / 10 :: rat)\<rceil> = 737"
  "Math_ceil (js_times 670 (1 / 10)) = 67"
  "double_round (1 / 10) = 3602879701896397 / 36028797018963968"
  "\<lceil>670 * (3602879701896397 / 36028797018963968 :: rat)\<rceil> = 68"
  by code_simp+

section \<open>Properties of the byte-level functions\<close>

lemma unat_of_nat_byte: "n < 256 \<Longrightarrow> unat (of_nat n :: byte) = n"
  by (simp add: unat_of_nat)

lemma unhex_hexChar: "n < 16 \<Longrightarrow> unhex (hexChar n) = Some n"
proof -
  assume "n < 16"
  then have "n \<in> {0,1,2,3,4,5,6,7,8,9,10,11,12,13,14,15}" by simp arith
  then show ?thesis by (auto simp: hexChar_def unhex_def)
qed

lemma byte_nibbles: "(of_nat (16 * (unat b div 16) + unat b mod 16) :: byte) = b"
  by simp

lemma Buffer_from_hex_toString_hex: "Buffer_from_hex (toString_hex buf) = buf"
proof (induction buf)
  case Nil
  then show ?case by (simp add: toString_hex_def)
next
  case (Cons b buf)
  have "unat b < 256" using unsigned_less[of b, where 'a=nat] by simp
  then have d: "unat b div 16 < 16" by simp
  have m: "unat b mod 16 < 16" by simp
  show ?case using Cons
    by (simp add: toString_hex_def unhex_hexChar[OF d] unhex_hexChar[OF m])
qed

lemma length_toString_hex: "length (toString_hex buf) = 2 * length buf"
  by (induction buf) (simp_all add: toString_hex_def)

lemma toString_hex_nonempty: "b \<noteq> [] \<Longrightarrow> toString_hex b \<noteq> []"
  by (cases b) (simp_all add: toString_hex_def)

text \<open>
A witness stack of fewer than 253 items, each shorter than 253 bytes, is read back from its serialisation.
\<close>

lemma readVarInt_small:
  "n < 253 \<Longrightarrow> readVarInt ((of_nat n :: byte) # rest) = Some (n, rest)"
  by (simp add: readVarInt_def unat_of_nat_byte)

lemma readVector_items:
  "\<forall>x \<in> set xs. length x < 253 \<Longrightarrow>
   readVector (length xs) (concat (map (\<lambda>item. of_nat (length item) # item) xs)) = Some xs"
  by (induction xs) (simp_all add: readVarInt_small)

lemma witness_stack_roundtrip:
  "length xs < 253 \<Longrightarrow> \<forall>x \<in> set xs. length x < 253 \<Longrightarrow>
   scriptWitnessToWitnessStack (witnessStackBytes xs) = Some xs"
  by (simp add: scriptWitnessToWitnessStack_def witnessStackBytes_def readVarInt_small readVector_items)

text \<open>
The HTLC script of well-formed keys and hashlock is short enough for a one-byte length.
\<close>

lemma length_number_encode_loop: "length (number_encode_loop k v) = k"
  by (induction k arbitrary: v) simp_all

lemma length_script_number_encode: "length (script_number_encode n) \<le> 5"
  by (simp add: script_number_encode_def Let_def length_number_encode_loop scriptNumSize_def)

lemma length_compile_Data: "length d < 76 \<Longrightarrow> length (compile_chunk (Data d)) \<le> Suc (length d)"
  by (simp add: pushdata_encode_def OP_PUSHDATA1_def split: option.splits)

lemma length_createHTLCScript:
  assumes "length (senderPublicKey (config b)) = 33" "length (receiverPublicKey (config b)) = 33"
    "length (hashlock (config b)) = 32"
  shows "length (createHTLCScript b) \<le> 116"
proof -
  have a: "length (compile_chunk (Data (hashlock (config b)))) \<le> 33"
    using length_compile_Data[of "hashlock (config b)"] assms by simp
  have b: "length (compile_chunk (Data (receiverPublicKey (config b)))) \<le> 34"
    using length_compile_Data[of "receiverPublicKey (config b)"] assms by simp
  have c: "length (compile_chunk (Data (senderPublicKey (config b)))) \<le> 34"
    using length_compile_Data[of "senderPublicKey (config b)"] assms by simp
  have d: "length (compile_chunk (Data (script_number_encode (locktime (config b))))) \<le> 6"
    using length_compile_Data[of "script_number_encode (locktime (config b))"]
      length_script_number_encode[of "locktime (config b)"] by simp
  show ?thesis
    unfolding createHTLCScript_def script_compile_def
    using a b c d by simp
qed

text \<open>
The last opcode of the two scripts.
\<close>

lemma last_script_compile_Op:
  "last (script_compile (chunks @ [Op n])) = of_nat n"
  by (simp add: script_compile_def)

lemma last_createHTLCScript: "last (createHTLCScript b) = 104"
proof -
  have "createHTLCScript b = script_compile
       ([Op OP_IF, Op OP_SHA256, Data (hashlock (config b)), Op OP_EQUALVERIFY,
         Data (receiverPublicKey (config b)), Op OP_CHECKSIG, Op OP_ELSE,
         Data (script_number_encode (locktime (config b))), Op OP_CHECKLOCKTIMEVERIFY,
         Op OP_DROP, Data (senderPublicKey (config b)), Op OP_CHECKSIG] @ [Op OP_ENDIF])"
    by (simp add: createHTLCScript_def)
  then show ?thesis by (simp only: last_script_compile_Op OP_ENDIF_def) simp
qed

lemma last_reverse_createHTLCScript:
  assumes "reverse_createHTLCScript sp rp hl lt = Inr s"
  shows "last s = 172"
proof -
  from assms have "s = script_compile
       ([Op OP_IF, Op OP_SHA256, Data (Buffer_from_hex hl), Op OP_EQUALVERIFY,
         Data (Buffer_from_hex rp), Op OP_ELSE, Data (bytesLE 4 lt),
         Op OP_CHECKLOCKTIMEVERIFY, Op OP_DROP, Data (Buffer_from_hex sp), Op OP_ENDIF]
        @ [Op OP_CHECKSIG])"
    by (simp add: reverse_createHTLCScript_def Let_def split: if_splits)
  then show ?thesis by (simp only: last_script_compile_Op OP_CHECKSIG_def) simp
qed

section \<open>Properties of the Psbt operations\<close>

lemma Psbt_addInput_SomeD:
  "Psbt_addInput lib psbt inp = Some psbt' \<Longrightarrow> psbt' = psbt\<lparr>inputs := inputs psbt @ [inp]\<rparr>"
  by (simp add: Psbt_addInput_def split: if_splits)

lemma Psbt_addOutput_SomeD:
  "Psbt_addOutput lib psbt a v = Some psbt' \<Longrightarrow>
   \<exists>s. address_toOutputScript lib a (psbt_network psbt) = Some s \<and> Satoshi lib v \<and>
       psbt' = psbt\<lparr>outputs := outputs psbt @ [\<lparr>pout_address = a, pout_script = s, pout_value = v\<rparr>]\<rparr>"
  by (auto simp: Psbt_addOutput_def split: option.splits if_splits)


lemma Psbt_signInput_SomeD:
  "Psbt_signInput lib psbt i key = Some psbt' \<Longrightarrow>
   \<exists>sg. i < length (inputs psbt) \<and> signInput_signature lib psbt i key = Some sg \<and>
      psbt' = psbt\<lparr>inputs := (inputs psbt)
                 [i := (inputs psbt ! i)\<lparr>partialSig := partialSig (inputs psbt ! i) @ [sg]\<rparr>]\<rparr>"
  by (auto simp: Psbt_signInput_def split: option.splits if_splits)




lemma those_list_SomeD: "those_list xs = Some ys \<Longrightarrow> xs = map Some ys"
  by (induction xs arbitrary: ys rule: those_list.induct) (auto split: option.splits)

lemma Psbt_extractTransaction_SomeD:
  assumes "Psbt_extractTransaction lib psbt = Some tx"
  shows "map finalizedTxInput (inputs psbt) = map Some (ins tx)"
    and "tx_locktime tx = psbt_locktime psbt"
    and "outs tx = map (\<lambda>out. \<lparr>out_script = pout_script out, out_value = pout_value out\<rparr>) (outputs psbt)"
    and "checkFees lib psbt"
  using assms by (auto simp: Psbt_extractTransaction_def dest: those_list_SomeD split: option.splits if_splits)



lemma addUtxoInputs_InrD:
  "addUtxoInputs lib utxos psbt t = Inr (psbt', t') \<Longrightarrow>
   t' = t + sum_list (map utxo_value utxos) \<and> outputs psbt' = outputs psbt \<and>
   length (inputs psbt') = length (inputs psbt) + length utxos \<and>
   psbt_network psbt' = psbt_network psbt"
proof (induction utxos arbitrary: psbt t)
  case Nil
  then show ?case by simp
next
  case (Cons u us)
  from Cons.prems obtain psbt1 where
    a: "Psbt_addInput lib psbt
          \<lparr>pin_hash = utxo_txid u, pin_index = utxo_vout u,
           witnessUtxo = Some (Buffer_from_hex (utxo_scriptPubKey u), utxo_value u),
           nonWitnessUtxo = None, pin_witnessScript = None, pin_sequence = None,
           partialSig = [], finalScriptSig = None, finalScriptWitness = None\<rparr> = Some psbt1"
    and r: "addUtxoInputs lib us psbt1 (t + utxo_value u) = Inr (psbt', t')"
    by (auto split: option.splits)
  from Psbt_addInput_SomeD[OF a] Cons.IH[OF r] show ?case by simp
qed

lemma signEach_InrD:
  "signEach lib idxs key psbt = Inr psbt' \<Longrightarrow>
   outputs psbt' = outputs psbt \<and> length (inputs psbt') = length (inputs psbt)"
proof (induction idxs arbitrary: psbt)
  case Nil
  then show ?case by simp
next
  case (Cons i idxs)
  from Cons.prems obtain psbt1 where
    a: "Psbt_signInput lib psbt i key = Some psbt1"
    and r: "signEach lib idxs key psbt1 = Inr psbt'"
    by (auto split: option.splits)
  from Psbt_signInput_SomeD[OF a] Cons.IH[OF r] show ?case by auto
qed

lemma finalizeEach_SomeD:
  "finalizeEach lib idxs psbt = Some psbt' \<Longrightarrow>
   outputs psbt' = outputs psbt \<and> length (inputs psbt') = length (inputs psbt)"
proof (induction idxs arbitrary: psbt)
  case Nil
  then show ?case by simp
next
  case (Cons i idxs)
  from Cons.prems obtain psbt1 where
    a: "Psbt_finalizeInput_default lib psbt i = Some psbt1"
    and r: "finalizeEach lib idxs psbt1 = Some psbt'"
    by (auto split: option.splits)
  from a have "outputs psbt1 = outputs psbt \<and> length (inputs psbt1) = length (inputs psbt)"
    by (auto simp: Psbt_finalizeInput_default_def split: option.splits if_splits prod.splits)
  with Cons.IH[OF r] show ?case by simp
qed

lemma Psbt_finalizeAllInputs_SomeD:
  "Psbt_finalizeAllInputs lib psbt = Some psbt' \<Longrightarrow>
   outputs psbt' = outputs psbt \<and> length (inputs psbt') = length (inputs psbt)"
  by (auto simp: Psbt_finalizeAllInputs_def dest: finalizeEach_SomeD split: if_splits)

section \<open>Properties of the builder\<close>

lemma createHTLC_segwit:
  assumes "createHTLC lib b = Inr htlc" "truthy (useSegwit (config b))"
  shows "witnessScript htlc = Some (createHTLCScript b)"
    and "redeemScript htlc = createHTLCScript b"
    and "scriptHash htlc = crypto_sha256 lib (createHTLCScript b)"
    and "lockingScript htlc = script_compile [Op OP_0, Data (scriptHash htlc)]"
    and "address_fromOutputScript lib (lockingScript htlc) (network (config b)) = Some (address htlc)"
  using assms by (auto simp: createHTLC_def Let_def split: option.splits)

lemma createHTLC_address:
  "createHTLC lib b = Inr htlc \<Longrightarrow>
   address_fromOutputScript lib (lockingScript htlc) (network (config b)) = Some (address htlc)"
  by (auto simp: createHTLC_def Let_def split: if_splits option.splits)

lemma createHTLC_depends_on_config:
  "config b1 = config b2 \<Longrightarrow> createHTLC lib b1 = createHTLC lib b2"
  by (simp add: createHTLC_def createHTLCScript_def)

lemma getNetwork_testnet4: "getNetwork lib ''testnet4'' = getNetwork lib ''testnet''"
  by (simp add: getNetwork_def)



lemma fundingTransaction_InrD:
  assumes "fundingTransaction lib b utxos amount changeAddress feeRate key = Inr (tx, f)"
  shows "\<exists>htlc psbt1 totalInput psbt2 psbt3 psbt4 psbt5.
    createHTLC lib b = Inr htlc \<and>
    addUtxoInputs lib utxos (new_Psbt (network (config b))) 0 = Inr (psbt1, totalInput) \<and>
    Psbt_addOutput lib psbt1 (address htlc) amount = Some psbt2 \<and>
    f = Math_ceil (js_times (of_int (int (length (inputs psbt2)) * 148 + 2 * 34 + 10))
                       (feeRate_or_default feeRate)) \<and>
    (546 < totalInput - amount - f \<longrightarrow>
       Psbt_addOutput lib psbt2 changeAddress (totalInput - amount - f) = Some psbt3) \<and>
    (\<not> 546 < totalInput - amount - f \<longrightarrow> psbt3 = psbt2) \<and>
    signEach lib [0 ..< length (inputs psbt3)] key psbt3 = Inr psbt4 \<and>
    Psbt_finalizeAllInputs lib psbt4 = Some psbt5 \<and>
    Psbt_extractTransaction lib psbt5 = Some tx"
  using assms unfolding fundingTransaction_def
  by (simp add: Let_def split: sum.splits option.splits if_splits prod.splits)

text \<open>
  The fee and the outputs of a funding transaction of the builder: the fee is the ceiling of
  the estimated size times the fee rate; with change above 546 satoshis there is a change
  output and inputs equal outputs plus fee; otherwise the change is left to the miner.
\<close>

lemma createFundingTransaction_fee_and_change:
  assumes built: "fundingTransaction lib b utxos amount changeAddress feeRate key = Inr (tx, f)"
  shows "f = Math_ceil (js_times (of_int (int (length utxos) * 148 + 2 * 34 + 10))
                       (feeRate_or_default feeRate))
       \<and> length (ins tx) = length utxos
       \<and> (546 < sum_list (map utxo_value utxos) - amount - f \<longrightarrow>
            map out_value (outs tx) = [amount, sum_list (map utxo_value utxos) - amount - f]
            \<and> address_toOutputScript lib changeAddress (network (config b))
                = Some (out_script (outs tx ! 1))
            \<and> sum_list (map utxo_value utxos) = sum_list (map out_value (outs tx)) + f)
       \<and> (sum_list (map utxo_value utxos) - amount - f \<le> 546 \<longrightarrow>
            map out_value (outs tx) = [amount]
            \<and> sum_list (map utxo_value utxos)
                = sum_list (map out_value (outs tx)) + f
                  + (sum_list (map utxo_value utxos) - amount - f))"
proof -
  from fundingTransaction_InrD[OF built] obtain htlc psbt1 totalInput psbt2 psbt3 psbt4 psbt5 where
    htlc: "createHTLC lib b = Inr htlc" and
    add: "addUtxoInputs lib utxos (new_Psbt (network (config b))) 0 = Inr (psbt1, totalInput)"
    and p2: "Psbt_addOutput lib psbt1 (address htlc) amount = Some psbt2"
    and f: "f = Math_ceil (js_times (of_int (int (length (inputs psbt2)) * 148 + 2 * 34 + 10))
                       (feeRate_or_default feeRate))"
    and p3a: "546 < totalInput - amount - f \<longrightarrow>
       Psbt_addOutput lib psbt2 changeAddress (totalInput - amount - f) = Some psbt3"
    and p3b: "\<not> 546 < totalInput - amount - f \<longrightarrow> psbt3 = psbt2"
    and p4: "signEach lib [0 ..< length (inputs psbt3)] key psbt3 = Inr psbt4"
    and p5: "Psbt_finalizeAllInputs lib psbt4 = Some psbt5"
    and ex: "Psbt_extractTransaction lib psbt5 = Some tx"
    by blast
  from addUtxoInputs_InrD[OF add]
  have total: "totalInput = sum_list (map utxo_value utxos)"
    and o1: "outputs psbt1 = []" and l1: "length (inputs psbt1) = length utxos"
    and n1: "psbt_network psbt1 = network (config b)"
    by (simp_all add: new_Psbt_def)
  from Psbt_addOutput_SomeD[OF p2] obtain s where
    o2: "outputs psbt2 = [\<lparr>pout_address = address htlc, pout_script = s, pout_value = amount\<rparr>]"
    and l2: "length (inputs psbt2) = length utxos"
    and n2: "psbt_network psbt2 = network (config b)"
    using o1 l1 n1 by auto
  have fee: "f = Math_ceil (js_times (of_int (int (length utxos) * 148 + 2 * 34 + 10))
                       (feeRate_or_default feeRate))"
    using f l2 by simp
  have o5: "outputs psbt5 = outputs psbt3" and l5: "length (inputs psbt5) = length (inputs psbt3)"
    using signEach_InrD[OF p4] Psbt_finalizeAllInputs_SomeD[OF p5] by simp_all
  have outs: "outs tx = map (\<lambda>out. \<lparr>out_script = pout_script out, out_value = pout_value out\<rparr>) (outputs psbt3)"
    using Psbt_extractTransaction_SomeD(3)[OF ex] o5 by simp
  have "length (map finalizedTxInput (inputs psbt5)) = length (map Some (ins tx))"
    using Psbt_extractTransaction_SomeD(1)[OF ex] by simp
  then have lins: "length (ins tx) = length (inputs psbt3)" using l5 by simp
  show ?thesis
  proof (cases "546 < totalInput - amount - f")
    case True
    with p3a have "Psbt_addOutput lib psbt2 changeAddress (totalInput - amount - f) = Some psbt3"
      by simp
    from Psbt_addOutput_SomeD[OF this] obtain s' where
      s': "address_toOutputScript lib changeAddress (psbt_network psbt2) = Some s'"
      and p3eq: "psbt3 = psbt2\<lparr>outputs := outputs psbt2 @
          [\<lparr>pout_address = changeAddress, pout_script = s', pout_value = totalInput - amount - f\<rparr>]\<rparr>"
      by blast
    show ?thesis using True fee lins outs p3eq o2 l2 s' n2 total by simp
  next
    case False
    with p3b have "psbt3 = psbt2" by simp
    then show ?thesis using False fee lins outs o2 l2 total by simp
  qed
qed

text \<open>
The claim builder has no error of its own for an output that the fee exhausts.
\<close>

lemma claimTransaction_never_insufficient_funds:
  "claimTransaction lib b htlcTxid htlcVout htlcAmount sec dest feeRate key
     \<noteq> Inl (InsufficientFundsToCoverFee, p)"
  by (auto simp: claimTransaction_def createHTLC_def Let_def Psbt_finalizeInput_def claimFinalizer_def
        split: sum.splits option.splits if_splits list.splits)

section \<open>Properties of fund-htlc.ts\<close>

lemma selectInputs_InrD:
  "selectInputs lib env a n need utxos psbt v = Inr (psbt', v') \<Longrightarrow>
   outputs psbt' = outputs psbt \<and> psbt_network psbt' = psbt_network psbt \<and>
   (\<exists>chosen. set chosen \<subseteq> set utxos \<and> v' = v + sum_list (map bu_value chosen) \<and>
      length (inputs psbt') = length (inputs psbt) + length chosen)"
proof (induction utxos arbitrary: psbt v)
  case Nil
  then show ?case by auto
next
  case (Cons u us)
  show ?case
  proof (cases "need \<le> v")
    case True
    with Cons.prems have "psbt' = psbt" "v' = v" by simp_all
    then show ?thesis by (auto intro: exI[of _ "[]"])
  next
    case False
    from Cons.prems False consider
      (skip) "selectInputs lib env a n need us psbt v = Inr (psbt', v')"
    | (add) inp psbt1 where "Psbt_addInput lib psbt inp = Some psbt1"
        "selectInputs lib env a n need us psbt1 (v + bu_value u) = Inr (psbt', v')"
      by (auto simp: Let_def split: if_splits option.splits)
    then show ?thesis
    proof cases
      case skip
      from Cons.IH[OF skip] obtain chosen where
        "outputs psbt' = outputs psbt" "psbt_network psbt' = psbt_network psbt"
        "set chosen \<subseteq> set us" "v' = v + sum_list (map bu_value chosen)"
        "length (inputs psbt') = length (inputs psbt) + length chosen"
        by blast
      then show ?thesis by (auto intro!: exI[of _ chosen])
    next
      case add
      from Cons.IH[OF add(2)] obtain chosen where
        c: "outputs psbt' = outputs psbt1" "psbt_network psbt' = psbt_network psbt1"
        "set chosen \<subseteq> set us" "v' = v + bu_value u + sum_list (map bu_value chosen)"
        "length (inputs psbt') = length (inputs psbt1) + length chosen"
        by blast
      from Psbt_addInput_SomeD[OF add(1)] c show ?thesis
        by (auto intro!: exI[of _ "u # chosen"])
    qed
  qed
qed

lemma fund_htlc_main_InrD:
  assumes "fund_htlc_main lib env = Inr (tx, inputValue, t)"
  shows "\<exists>htlcAddress fromAddress bitcoinNetwork key psbt1 psbt2 psbt3 psbt4 psbt5.
    arg_address env = Some htlcAddress \<and>
    env_BITCOIN_ADDRESS env = Some fromAddress \<and>
    selectInputs lib env fromAddress bitcoinNetwork (arg_amount env + 1000)
      (getUTXOs env fromAddress (arg_network env)) (new_Psbt bitcoinNetwork) 0
      = Inr (psbt1, inputValue) \<and>
    Psbt_addOutput lib psbt1 htlcAddress (arg_amount env) = Some psbt2 \<and>
    (546 < inputValue - arg_amount env - 1000 \<longrightarrow>
       Psbt_addOutput lib psbt2 fromAddress (inputValue - arg_amount env - 1000) = Some psbt3) \<and>
    (\<not> 546 < inputValue - arg_amount env - 1000 \<longrightarrow> psbt3 = psbt2) \<and>
    signEach lib [0 ..< length (inputs psbt3)] key psbt3 = Inr psbt4 \<and>
    Psbt_finalizeAllInputs lib psbt4 = Some psbt5 \<and>
    Psbt_extractTransaction lib psbt5 = Some tx"
  using assms unfolding fund_htlc_main_def
  by (simp add: Let_def envUnset_def split: sum.splits option.splits if_splits prod.splits) blast+

lemma fund_htlc_main_fee_and_change:
  assumes built: "fund_htlc_main lib env = Inr (tx, inputValue, t)"
  shows "(\<exists>chosen fromAddress. env_BITCOIN_ADDRESS env = Some fromAddress
            \<and> set chosen \<subseteq> set (getUTXOs env fromAddress (arg_network env))
            \<and> inputValue = sum_list (map bu_value chosen) \<and> length (ins tx) = length chosen)
       \<and> (546 < inputValue - arg_amount env - 1000 \<longrightarrow>
            map out_value (outs tx) = [arg_amount env, inputValue - arg_amount env - 1000]
            \<and> inputValue = sum_list (map out_value (outs tx)) + 1000)
       \<and> (inputValue - arg_amount env - 1000 \<le> 546 \<longrightarrow>
            map out_value (outs tx) = [arg_amount env]
            \<and> inputValue = sum_list (map out_value (outs tx)) + 1000
                  + (inputValue - arg_amount env - 1000))"
proof -
  from fund_htlc_main_InrD[OF built] obtain htlcAddress fromAddress bitcoinNetwork key
      psbt1 psbt2 psbt3 psbt4 psbt5 where
    sel: "selectInputs lib env fromAddress bitcoinNetwork (arg_amount env + 1000)
            (getUTXOs env fromAddress (arg_network env)) (new_Psbt bitcoinNetwork) 0
          = Inr (psbt1, inputValue)"
    and p2: "Psbt_addOutput lib psbt1 htlcAddress (arg_amount env) = Some psbt2"
    and p3a: "546 < inputValue - arg_amount env - 1000 \<longrightarrow>
       Psbt_addOutput lib psbt2 fromAddress (inputValue - arg_amount env - 1000) = Some psbt3"
    and p3b: "\<not> 546 < inputValue - arg_amount env - 1000 \<longrightarrow> psbt3 = psbt2"
    and p4: "signEach lib [0 ..< length (inputs psbt3)] key psbt3 = Inr psbt4"
    and p5: "Psbt_finalizeAllInputs lib psbt4 = Some psbt5"
    and ex: "Psbt_extractTransaction lib psbt5 = Some tx"
    and fa: "env_BITCOIN_ADDRESS env = Some fromAddress"
    by blast
  from selectInputs_InrD[OF sel] obtain chosen where
    o1: "outputs psbt1 = []"
    and sub: "set chosen \<subseteq> set (getUTXOs env fromAddress (arg_network env))"
    and iv: "inputValue = sum_list (map bu_value chosen)"
    and l1: "length (inputs psbt1) = length chosen"
    by (auto simp: new_Psbt_def)
  from Psbt_addOutput_SomeD[OF p2] obtain s where
    o2: "outputs psbt2 = [\<lparr>pout_address = htlcAddress, pout_script = s, pout_value = arg_amount env\<rparr>]"
    and l2: "length (inputs psbt2) = length chosen"
    using o1 l1 by auto
  have o5: "outputs psbt5 = outputs psbt3" and l5: "length (inputs psbt5) = length (inputs psbt3)"
    using signEach_InrD[OF p4] Psbt_finalizeAllInputs_SomeD[OF p5] by simp_all
  have outs: "outs tx = map (\<lambda>out. \<lparr>out_script = pout_script out, out_value = pout_value out\<rparr>) (outputs psbt3)"
    using Psbt_extractTransaction_SomeD(3)[OF ex] o5 by simp
  have "length (map finalizedTxInput (inputs psbt5)) = length (map Some (ins tx))"
    using Psbt_extractTransaction_SomeD(1)[OF ex] by simp
  then have lins: "length (ins tx) = length (inputs psbt3)" using l5 by simp
  show ?thesis
  proof (cases "546 < inputValue - arg_amount env - 1000")
    case True
    with p3a have "Psbt_addOutput lib psbt2 fromAddress (inputValue - arg_amount env - 1000) = Some psbt3"
      by simp
    from Psbt_addOutput_SomeD[OF this] obtain s' where
      p3eq: "psbt3 = psbt2\<lparr>outputs := outputs psbt2 @
          [\<lparr>pout_address = fromAddress, pout_script = s',
            pout_value = inputValue - arg_amount env - 1000\<rparr>]\<rparr>"
      by blast
    show ?thesis using True lins outs p3eq o2 l2 sub iv fa by auto
  next
    case False
    with p3b have "psbt3 = psbt2" by simp
    then show ?thesis using False lins outs o2 l2 sub iv fa by auto
  qed
qed

section \<open>Properties of claim-htlc-reverse.ts\<close>

text \<open>
  \<open>claimHTLC\<close> refuses an output that the fee exhausts, before it builds or signs
  anything, and every transaction it returns pays a positive amount.
\<close>

lemma claimHTLC_insufficient_funds:
  assumes "NETWORKS lib (r_network c) = Some n"
    and "toString_hex (crypto_sha256 lib (Buffer_from_hex sec)) = r_hashlock c"
    and "r_witnessScript c = Some ws" "ws \<noteq> []"
    and "getFundingTx t = Some vout" "js_index vout i = Some fundingAmount"
    and "fundingAmount - Math_ceil (js_times 300 (feeRate_or_default rate)) \<le> 0"
  shows "claimHTLC lib getFundingTx broadcast c t i sec dest key rate = Inl InsufficientFundsToCoverFee"
  using assms by (simp add: claimHTLC_def Let_def)

lemma claimHTLC_output_positive:
  assumes "claimHTLC lib getFundingTx broadcast c t i sec dest key rate = Inr (tx, broadcastedTxId)"
  shows "\<exists>v. map out_value (outs tx) = [v] \<and> 0 < v"
  using assms
  by (auto simp: claimHTLC_def Let_def split: option.splits sum.splits if_splits)

section \<open>Properties of the order scripts\<close>

text \<open>
  \<open>taker-fund-htlc-real.ts\<close> writes the status FUNDED whatever the status of the
  order was and whether or not the funding subprocess succeeded.
\<close>

lemma o_status_setFunded: "o_status (setFunded order' fundingTxId) = FUNDED"
  by (simp add: setFunded_def)

lemma taker_fund_main_run:
  assumes "fund_orderId env \<noteq> []" "\<not> str_includes (fund_orderId env) ''.ts''"
    and "files (fund_orderId env) = Some order'"
    and "o_taker order' \<noteq> None" "o_bitcoinHTLC order' \<noteq> None" "o_monadvmEscrow order' \<noteq> None"
    and "\<not> envUnset (fund_BITCOIN_PRIVATE_KEY env)" "\<not> envUnset (fund_BITCOIN_ADDRESS env)"
    and "fund_htlcBuilderExists env"
  shows "taker_fund_main env files
           = (Inr (setFunded order' (case fund_execSync env order' of
                                       Some result \<Rightarrow> fund_actualTxId env result
                                     | None \<Rightarrow> fund_mockFundingTxId env order')),
              files(fund_orderId env \<mapsto>
                setFunded order' (case fund_execSync env order' of
                                    Some result \<Rightarrow> fund_actualTxId env result
                                  | None \<Rightarrow> fund_mockFundingTxId env order')))"
  using assms
  by (cases "fund_execSync env order'") (simp_all add: taker_fund_main_def Let_def)

lemma taker_fund_main_error_leaves_files:
  "taker_fund_main env files = (Inl e, files') \<Longrightarrow> files' = files"
  by (auto simp: taker_fund_main_def Let_def split: if_splits option.splits)

text \<open>
  \<open>maker-claim-btc.ts\<close> requires the status FUNDED and the three components, and an
  error leaves the order files as they were; it does not require the funding transaction
  reference.
\<close>

lemma maker_claim_main_checks_status:
  assumes "claim_orderId env \<noteq> []" "\<not> str_includes (claim_orderId env) ''.ts''"
    and "files (claim_orderId env) = Some order'" "o_status order' \<noteq> FUNDED"
  shows "maker_claim_main lib env files = (Inl (OrderStatusIs (o_status order') FUNDED), files)"
  using assms by (simp add: maker_claim_main_def Let_def)

lemma maker_claim_main_missing_component:
  assumes "claim_orderId env \<noteq> []" "\<not> str_includes (claim_orderId env) ''.ts''"
    and "files (claim_orderId env) = Some order'" "o_status order' = FUNDED"
    and "o_taker order' = None \<or> o_bitcoinHTLC order' = None \<or> o_monadvmEscrow order' = None"
  shows "maker_claim_main lib env files = (Inl OrderMissingRequiredComponents, files)"
  using assms by (auto simp: maker_claim_main_def Let_def)

lemma maker_claim_main_error_leaves_files:
  "maker_claim_main lib env files = (Inl e, files') \<Longrightarrow> files' = files"
  by (auto simp: maker_claim_main_def Let_def split: if_splits option.splits prod.splits)

lemma maker_claim_main_without_funding_reference:
  assumes "maker_claim_main lib env files = (Inr updated, files')"
    and "files (claim_orderId env) = Some order'"
  shows "\<exists>htlcResultFile key out.
           claim_spawn env (claimArguments order' htlcResultFile key) = (0, out)
           \<and> updated = setCompleted order' (claim_txId env out)"
  using assms
  by (auto simp: maker_claim_main_def Let_def split: if_splits option.splits prod.splits)

section \<open>The code on the concrete inputs\<close>

lemma stubToOutputScript_stubAddress:
  "stubToOutputScript (stubAddress s n) n = Some s"
  by (simp add: stubToOutputScript_def stubAddress_def Let_def length_toString_hex
        Buffer_from_hex_toString_hex)

lemma stubAddress_nonempty: "stubAddress s n \<noteq> []"
  by (simp add: stubAddress_def)

lemma stub_selectors:
  "crypto_sha256 stubLib = (\<lambda>b. take 32 (b @ replicate 32 0))"
  "address_fromOutputScript stubLib = (\<lambda>script n. Some (stubAddress script n))"
  "address_toOutputScript stubLib = stubToOutputScript"
  "ECPair_fromPrivateKey stubLib = (\<lambda>k. if length k = 32 then Some (2 # k) else None)"
  "addInput_check stubLib = (\<lambda>psbt inp. length (Buffer_from_hex (pin_hash inp)) = 32
                                    \<and> 0 \<le> pin_index inp \<and> pin_index inp \<le> 4294967295)"
  "Satoshi stubLib = (\<lambda>v. 0 \<le> v \<and> v \<le> 2100000000000000)"
  "check32Bit stubLib = (\<lambda>l. 0 \<le> l \<and> l \<le> 4294967295)"
  "signInput_signature stubLib = (\<lambda>psbt i k. if length k = 32 then Some stubSignature else None)"
  "signature_decode stubLib = (\<lambda>sg. 9 \<le> length sg \<and> length sg \<le> 73)"
  "finalizeInput_check stubLib = (\<lambda>inp. partialSig inp \<noteq> [])"
  "checkFees stubLib = (\<lambda>psbt. sum_list (map pout_value (outputs psbt))
                            \<le> sum_list (map (\<lambda>inp. case witnessUtxo inp of
                                                      None \<Rightarrow> 0 | Some (sc, v) \<Rightarrow> v)
                                           (inputs psbt)))"
  "Transaction_toHex stubLib = (\<lambda>tx. toString_hex (serializeTx tx))"
  "Transaction_fromHex stubLib = (\<lambda>h. parseTx (Buffer_from_hex h))"
  by (simp_all add: stubLib_def)

lemma stub_more_selectors:
  "payments_p2wpkh_output stubLib = (\<lambda>a n. case stubToOutputScript a n of
                                          None \<Rightarrow> None | Some sc \<Rightarrow> Some (Some sc))"
  "networks_testnet stubLib = NETWORKS_testnet4"
  by (simp_all add: stubLib_def)

lemma length_stubSignature: "length stubSignature = 72"
  by (simp add: stubSignature_def)


lemma stub_final_witness:
  "scriptWitnessToWitnessStack (2 # varslice stubSignature @ varslice [2]) = Some [stubSignature, [2]]"
  by code_simp

lemma stub_getFinalScripts:
  "getFinalScripts stubLib = (\<lambda>inp. case partialSig inp of
                                  [] \<Rightarrow> None
                                | sg # _ \<Rightarrow> Some (None, Some (2 # varslice sg @ varslice [2])))"
  by (simp add: stubLib_def)

lemma stub_getNetwork:
  "getNetwork stubLib ''testnet'' = Inr NETWORKS_testnet4"
  "getNetwork stubLib ''testnet4'' = Inr NETWORKS_testnet4"
  by (simp_all add: getNetwork_def stubLib_def)

lemma demo_fees:
  "Math_ceil (js_times 150 10) = 1500"
  "Math_ceil (js_times 226 1) = 226"
  using Math_ceil_js_times_of_int[of 150 10] Math_ceil_js_times_of_int[of 226 1] by simp_all

lemma stub_claimTransaction:
  assumes seg: "truthy (useSegwit (config b))"
    and txid: "length (Buffer_from_hex htlcTxid) = 32"
    and vout: "0 \<le> htlcVout" "htlcVout \<le> 4294967295"
    and key: "length key = 32"
    and amt: "0 \<le> htlcAmount - Math_ceil (js_times 150 (feeRate_or_default feeRate))"
             "htlcAmount - Math_ceil (js_times 150 (feeRate_or_default feeRate)) \<le> 2100000000000000"
             "0 \<le> Math_ceil (js_times 150 (feeRate_or_default feeRate))"
    and script: "length (createHTLCScript b) < 253"
    and sec: "length sec < 253"
  shows "claimTransaction stubLib b htlcTxid htlcVout htlcAmount sec
           (stubAddress s (network (config b))) feeRate key
         = Inr (\<lparr>tx_version = 2, tx_locktime = 0,
                 ins = [\<lparr>in_hash = rev (Buffer_from_hex htlcTxid), in_index = htlcVout,
                         in_script = [], in_sequence = 4294967295,
                         in_witness = [stubSignature, sec, [1], createHTLCScript b]\<rparr>],
                 outs = [\<lparr>out_script = s,
                          out_value = htlcAmount - Math_ceil (js_times 150 (feeRate_or_default feeRate))\<rparr>]\<rparr>,
                Math_ceil (js_times 150 (feeRate_or_default feeRate)))"
proof -
  have w: "scriptWitnessToWitnessStack
             (witnessStackBytes (claimWitnessStack stubSignature sec (createHTLCScript b)))
           = Some [stubSignature, sec, [1], createHTLCScript b]"
    using witness_stack_roundtrip[of "claimWitnessStack stubSignature sec (createHTLCScript b)"]
    by (simp add: claimWitnessStack_def length_stubSignature script sec)
  show ?thesis
    using seg txid vout key amt
    by (simp add: claimTransaction_def createHTLC_def Let_def stub_selectors new_Psbt_def
          Psbt_addInput_def Psbt_addOutput_def Psbt_signInput_def Psbt_finalizeInput_def
          claimFinalizer_def setFinalScripts_def Psbt_extractTransaction_def isFinalized_def
          finalizedTxInput_def w stubToOutputScript_stubAddress length_stubSignature)
qed

lemma stub_createHTLC_segwit:
  "truthy (useSegwit (config b)) \<Longrightarrow>
   createHTLC stubLib b =
     Inr \<lparr>address = stubAddress (script_compile [Op OP_0, Data (crypto_sha256 stubLib (createHTLCScript b))])
                       (network (config b)),
          redeemScript = createHTLCScript b,
          lockingScript = script_compile [Op OP_0, Data (crypto_sha256 stubLib (createHTLCScript b))],
          scriptHash = crypto_sha256 stubLib (createHTLCScript b),
          witnessScript = Some (createHTLCScript b)\<rparr>"
  by (simp add: createHTLC_def Let_def stub_selectors)

lemma demoConfig_fields:
  "senderPublicKey (config demoBuilder) = 2 # replicate 32 17"
  "receiverPublicKey (config demoBuilder) = 3 # replicate 32 34"
  "length (hashlock (config demoBuilder)) = 32"
  "locktime (config demoBuilder) = 1700000000"
  "network (config demoBuilder) = NETWORKS_testnet4"
  "truthy (useSegwit (config demoBuilder))"
  by (simp_all add: demoBuilder_def new_HTLCBuilder_def demoConfig_def truthy_def stub_selectors
        demoSecret_def)

lemma demo_lengths:
  "length (senderPublicKey (config demoBuilder)) = 33"
  "length (receiverPublicKey (config demoBuilder)) = 33"
  "length demoSecret = 32" "length demoKey = 32"
  "length (Buffer_from_hex demoTxid) = 32"
  by (simp_all add: demoConfig_fields demoSecret_def demoKey_def demoTxid_def
        Buffer_from_hex_toString_hex)

lemma demo_script_length: "length (createHTLCScript demoBuilder) < 253"
  using length_createHTLCScript[of demoBuilder] by (simp add: demo_lengths demoConfig_fields)

lemma demo_codec: "parseTx (serializeTx (demoClaimTx 98500)) = Some (demoClaimTx 98500)"
  by code_simp

lemma demoOneElementTx_codec: "parseTx (serializeTx demoOneElementTx) = Some demoOneElementTx"
  by code_simp

lemma demo_claim:
  "0 \<le> v \<Longrightarrow> v \<le> 2100000000000000 \<Longrightarrow>
   claimTransaction stubLib demoBuilder demoTxid 0 (v + 1500) demoSecret demoDestination (Some 10) demoKey
     = Inr (demoClaimTx v, 1500)"
  using stub_claimTransaction[where b=demoBuilder and htlcTxid=demoTxid and htlcVout=0
          and key=demoKey and feeRate="Some 10" and htlcAmount="v + 1500" and sec=demoSecret
          and s="0 # 20 # replicate 20 68"]
  by (simp add: demo_lengths demoConfig_fields demo_script_length feeRate_or_default_def demo_fees
        demoDestination_def demoClaimTx_def)


lemma demo_funding:
  "fundingTransaction stubLib demoBuilder [demoUtxo] 99500 demoDestination (Some 1) demoKey
     = Inr (demoFundingTx, 226)"
  using demoConfig_fields(6)
  by (simp add: fundingTransaction_def createHTLC_def Let_def stub_selectors stub_getFinalScripts
        new_Psbt_def demoUtxo_def demo_lengths demoConfig_fields
        Psbt_addInput_def Psbt_addOutput_def Psbt_signInput_def Psbt_finalizeAllInputs_def
        Psbt_finalizeInput_default_def setFinalScripts_def Psbt_extractTransaction_def
        isFinalized_def finalizedTxInput_def stub_final_witness stubToOutputScript_stubAddress
        feeRate_or_default_def demo_fees demoFundingTx_def)

lemma demoParams_config: "configOfParams demoParams NETWORKS_testnet4 = demoConfig"
  by (simp add: configOfParams_def demoParams_def demoConfig_def Buffer_from_hex_toString_hex)

lemma demo_createHTLC:
  "createHTLC stubLib (new_HTLCBuilder (configOfParams demoParams NETWORKS_testnet4)) = Inr demoHTLC"
  using stub_createHTLC_segwit[of demoBuilder] demoConfig_fields(5,6)
  by (simp add: demoParams_config demoHTLC_def demoBuilder_def)

lemma demoDestination_segwit:
  "startsWith demoDestination ''tb1''"
  by (simp add: startsWith_def demoDestination_def stubAddress_def NETWORKS_testnet4_def)

lemma demo_fund_main:
  "fund_htlc_main stubLib demoFundHtlcEnv = Inr (demoFundMainTx, 60000, demoTxid)"
proof -
  have k: "toString_hex demoKey \<noteq> []"
    by (rule toString_hex_nonempty) (simp add: demoKey_def)
  have d: "demoDestination \<noteq> []"
    by (simp add: demoDestination_def stubAddress_nonempty)
  have o: "stubToOutputScript demoDestination NETWORKS_testnet4 = Some (0 # 20 # replicate 20 68)"
    by (simp add: demoDestination_def stubToOutputScript_stubAddress)
  have a: "address demoHTLC \<noteq> []"
    by (simp add: demoHTLC_def stubAddress_nonempty)
  have h: "stubToOutputScript (address demoHTLC) NETWORKS_testnet4 = Some (lockingScript demoHTLC)"
    by (simp add: demoHTLC_def stubToOutputScript_stubAddress)
  show ?thesis
    using demoDestination_segwit
    by (simp add: fund_htlc_main_def demoFundHtlcEnv_def Let_def envUnset_def stub_selectors
          stub_more_selectors stub_getFinalScripts length_toString_hex demo_lengths
          Buffer_from_hex_toString_hex new_Psbt_def k d o a h
          Psbt_addInput_def Psbt_addOutput_def Psbt_signInput_def Psbt_finalizeAllInputs_def
          Psbt_finalizeInput_default_def setFinalScripts_def Psbt_extractTransaction_def
          isFinalized_def finalizedTxInput_def stub_final_witness demoFundMainTx_def)
qed

lemma demo_funding_change:
  "fundingTransaction stubLib demoBuilder [demoUtxo] 50000 demoDestination (Some 1) demoKey
     = Inr (demoFundingChangeTx, 226)"
proof -
  have o: "stubToOutputScript demoDestination NETWORKS_testnet4 = Some (0 # 20 # replicate 20 68)"
    by (simp add: demoDestination_def stubToOutputScript_stubAddress)
  show ?thesis
    using demoConfig_fields(6)
    by (simp add: fundingTransaction_def createHTLC_def Let_def stub_selectors stub_getFinalScripts
        new_Psbt_def demoUtxo_def demo_lengths demoConfig_fields o
        Psbt_addInput_def Psbt_addOutput_def Psbt_signInput_def Psbt_finalizeAllInputs_def
        Psbt_finalizeInput_default_def setFinalScripts_def Psbt_extractTransaction_def
        isFinalized_def finalizedTxInput_def stub_final_witness stubToOutputScript_stubAddress
        feeRate_or_default_def demo_fees demoFundingChangeTx_def)
qed

lemma demo_fund_main_dust:
  "fund_htlc_main stubLib demoFundHtlcDustEnv = Inr (demoFundMainDustTx, 60000, demoTxid)"
proof -
  have k: "toString_hex demoKey \<noteq> []"
    by (rule toString_hex_nonempty) (simp add: demoKey_def)
  have d: "demoDestination \<noteq> []"
    by (simp add: demoDestination_def stubAddress_nonempty)
  have o: "stubToOutputScript demoDestination NETWORKS_testnet4 = Some (0 # 20 # replicate 20 68)"
    by (simp add: demoDestination_def stubToOutputScript_stubAddress)
  have a: "address demoHTLC \<noteq> []"
    by (simp add: demoHTLC_def stubAddress_nonempty)
  have h: "stubToOutputScript (address demoHTLC) NETWORKS_testnet4 = Some (lockingScript demoHTLC)"
    by (simp add: demoHTLC_def stubToOutputScript_stubAddress)
  show ?thesis
    using demoDestination_segwit
    by (simp add: fund_htlc_main_def demoFundHtlcDustEnv_def demoFundHtlcEnv_def Let_def envUnset_def
          stub_selectors
          stub_more_selectors stub_getFinalScripts length_toString_hex demo_lengths
          Buffer_from_hex_toString_hex new_Psbt_def k d o a h
          Psbt_addInput_def Psbt_addOutput_def Psbt_signInput_def Psbt_finalizeAllInputs_def
          Psbt_finalizeInput_default_def setFinalScripts_def Psbt_extractTransaction_def
          isFinalized_def finalizedTxInput_def stub_final_witness demoFundMainDustTx_def)
qed

lemma demoFundEnv_fields:
  "fund_orderId demoFundEnv = ''order_1''"
  "\<not> envUnset (fund_BITCOIN_PRIVATE_KEY demoFundEnv)"
  "\<not> envUnset (fund_BITCOIN_ADDRESS demoFundEnv)"
  "fund_htlcBuilderExists demoFundEnv"
  "fund_execSync demoFundEnv order' = None"
  "fund_mockFundingTxId demoFundEnv order' = ''sim_0001_funding''"
proof -
  have k: "toString_hex demoKey \<noteq> []"
    by (rule toString_hex_nonempty) (simp add: demoKey_def)
  have d: "demoDestination \<noteq> []"
    by (simp add: demoDestination_def stubAddress_nonempty)
  show "fund_orderId demoFundEnv = ''order_1''"
    "\<not> envUnset (fund_BITCOIN_PRIVATE_KEY demoFundEnv)"
    "\<not> envUnset (fund_BITCOIN_ADDRESS demoFundEnv)"
    "fund_htlcBuilderExists demoFundEnv"
    "fund_execSync demoFundEnv order' = None"
    "fund_mockFundingTxId demoFundEnv order' = ''sim_0001_funding''"
    by (simp_all add: demoFundEnv_def envUnset_def k d)
qed

lemma demoOrder_fields:
  "o_taker (demoOrder st) \<noteq> None" "o_bitcoinHTLC (demoOrder st) \<noteq> None"
  "o_monadvmEscrow (demoOrder st) \<noteq> None" "o_status (demoOrder st) = st"
  "o_transactions (demoOrder st) = None"
  by (simp_all add: demoOrder_def)

lemma order_1_is_an_order_id: "''order_1'' \<noteq> []" "\<not> str_includes ''order_1'' ''.ts''"
  by simp_all

lemma demo_taker_fund:
  "taker_fund_main demoFundEnv [''order_1'' \<mapsto> demoOrder st]
     = (Inr (setFunded (demoOrder st) ''sim_0001_funding''),
        [''order_1'' \<mapsto> setFunded (demoOrder st) ''sim_0001_funding''])"
  using taker_fund_main_run[of demoFundEnv "[''order_1'' \<mapsto> demoOrder st]" "demoOrder st"]
    order_1_is_an_order_id demoOrder_fields[of st]
  by (simp add: demoFundEnv_fields)

section \<open>Properties of the returned records\<close>

text \<open>
  \<open>createRefundTransaction\<close> returns the record of the transaction that its body
  extracts: the \<open>hex\<close> of the record is the serialisation of that transaction.
\<close>

lemma createRefundTransaction_returns:
  "createRefundTransaction lib b htlcTxid htlcVout htlcAmount dest feeRate key = Inr r
     \<longleftrightarrow> (\<exists>tx f. refundTransaction lib b htlcTxid htlcVout htlcAmount dest feeRate key = Inr (tx, f)
                  \<and> r = toHTLCTransaction lib (tx, f))"
  by (cases "refundTransaction lib b htlcTxid htlcVout htlcAmount dest feeRate key")
     (auto simp: createRefundTransaction_def)

lemma toHTLCTransaction_fields:
  "hex (toHTLCTransaction lib (tx, f)) = Transaction_toHex lib tx"
  "fee (toHTLCTransaction lib (tx, f)) = f"
  by (simp_all add: toHTLCTransaction_def)

section \<open>Properties of the address functions\<close>

text \<open>
  The locking scripts of \<open>createHTLC\<close> are recognised by \<open>fromOutputScript\<close>
  as pay-to-witness-script-hash and pay-to-script-hash, and \<open>toOutputScript\<close> decodes
  an address by its version byte or its Bech32 prefix.
\<close>

lemma compile_Data_32: "length d = 32 \<Longrightarrow> compile_chunk (Data d) = 32 # d"
  by (simp add: asMinimalOP_def pushdata_encode_def OP_PUSHDATA1_def)

lemma compile_Data_20: "length d = 20 \<Longrightarrow> compile_chunk (Data d) = 20 # d"
  by (simp add: asMinimalOP_def pushdata_encode_def OP_PUSHDATA1_def)

lemma p2wsh_script:
  assumes "length d = 32"
  shows "script_compile [Op OP_0, Data d] = 0 # 32 # d"
    and "isP2WSH (script_compile [Op OP_0, Data d])"
    and "\<not> isP2PKH (script_compile [Op OP_0, Data d])"
    and "\<not> isP2SH (script_compile [Op OP_0, Data d])"
    and "\<not> isP2WPKH (script_compile [Op OP_0, Data d])"
    and "drop 2 (script_compile [Op OP_0, Data d]) = d"
proof -
  show e: "script_compile [Op OP_0, Data d] = 0 # 32 # d"
    using assms
    by (simp add: script_compile_def compile_Data_32 OP_0_def del: compile_chunk.simps(2))
  show "isP2WSH (script_compile [Op OP_0, Data d])"
    "\<not> isP2PKH (script_compile [Op OP_0, Data d])"
    "\<not> isP2SH (script_compile [Op OP_0, Data d])"
    "\<not> isP2WPKH (script_compile [Op OP_0, Data d])"
    "drop 2 (script_compile [Op OP_0, Data d]) = d"
    unfolding e using assms
    by (simp_all add: OP_0_def OP_DUP_def OP_HASH160_def isP2WSH_def isP2PKH_def isP2SH_def
          isP2WPKH_def)
qed

lemma p2sh_script:
  assumes "length d = 20"
  shows "script_compile [Op OP_HASH160, Data d, Op OP_EQUAL] = 169 # 20 # d @ [135]"
    and "isP2SH (script_compile [Op OP_HASH160, Data d, Op OP_EQUAL])"
    and "\<not> isP2PKH (script_compile [Op OP_HASH160, Data d, Op OP_EQUAL])"
    and "take 20 (drop 2 (script_compile [Op OP_HASH160, Data d, Op OP_EQUAL])) = d"
proof -
  show e: "script_compile [Op OP_HASH160, Data d, Op OP_EQUAL] = 169 # 20 # d @ [135]"
    using assms
    by (simp add: script_compile_def compile_Data_20 OP_HASH160_def OP_EQUAL_def
          del: compile_chunk.simps(2))
  show "isP2SH (script_compile [Op OP_HASH160, Data d, Op OP_EQUAL])"
    "\<not> isP2PKH (script_compile [Op OP_HASH160, Data d, Op OP_EQUAL])"
    "take 20 (drop 2 (script_compile [Op OP_HASH160, Data d, Op OP_EQUAL])) = d"
    unfolding e using assms
    by (simp_all add: OP_HASH160_def OP_EQUAL_def OP_DUP_def isP2SH_def isP2PKH_def nth_append)
qed

lemma fromOutputScript_p2wsh:
  "length d = 32 \<Longrightarrow>
   fromOutputScript codec (script_compile [Op OP_0, Data d]) n = toBech32 codec d 0 (bech32 n)"
  by (simp add: fromOutputScript_def p2wsh_script(2-6))

lemma fromOutputScript_p2sh:
  "length d = 20 \<Longrightarrow>
   fromOutputScript codec (script_compile [Op OP_HASH160, Data d, Op OP_EQUAL]) n
     = toBase58Check codec d (net_scriptHash n)"
  by (simp add: fromOutputScript_def p2sh_script(2-4))

lemma toOutputScript_bech32:
  assumes "fromBase58Check codec a = None" "fromBech32 codec a = Some (0, prefix, d)"
    "length d = 32"
  shows "toOutputScript codec a n'
           = (if prefix = bech32 n' then Some (script_compile [Op OP_0, Data d]) else None)"
  using assms by (simp add: toOutputScript_def)

lemma toOutputScript_base58:
  assumes "fromBase58Check codec a = Some (version, d)" "length d = 20"
  shows "toOutputScript codec a n'
           = (if version = pubKeyHash n'
              then Some (script_compile [Op OP_DUP, Op OP_HASH160, Data d, Op OP_EQUALVERIFY,
                                         Op OP_CHECKSIG])
              else if version = net_scriptHash n'
              then Some (script_compile [Op OP_HASH160, Data d, Op OP_EQUAL])
              else None)"
  using assms by (simp add: toOutputScript_def)

lemma createHTLC_legacy:
  assumes "createHTLC lib b = Inr htlc" "\<not> truthy (useSegwit (config b))"
  shows "lockingScript htlc
           = script_compile [Op OP_HASH160, Data (crypto_hash160 lib (createHTLCScript b)), Op OP_EQUAL]"
    and "witnessScript htlc = None"
  using assms by (auto simp: createHTLC_def Let_def split: option.splits)

lemma validateHTLCAddress_iff:
  "validateHTLCAddress lib a n = (address_toOutputScript lib a n \<noteq> None)"
  by (simp add: validateHTLCAddress_def split: option.splits)

lemma getNetwork_cases:
  assumes "getNetwork lib name = Inr n"
  shows "n = networks_bitcoin lib \<or> n = networks_testnet lib \<or> n = networks_regtest lib"
  using assms by (auto simp: getNetwork_def split: if_splits)

section \<open>Properties of the funding outputs\<close>

text \<open>
  The first output of a funding transaction pays the HTLC, the second one, when present, pays
  the change address.
\<close>

lemma createFundingTransaction_pays_htlc:
  assumes built: "fundingTransaction lib b utxos amount changeAddress feeRate key = Inr (tx, f)"
  shows "\<exists>htlc. createHTLC lib b = Inr htlc
           \<and> address_toOutputScript lib (address htlc) (network (config b))
               = Some (out_script (hd (outs tx)))
           \<and> out_value (hd (outs tx)) = amount"
proof -
  from fundingTransaction_InrD[OF built] obtain htlc psbt1 totalInput psbt2 psbt3 psbt4 psbt5 where
    htlc: "createHTLC lib b = Inr htlc" and
    add: "addUtxoInputs lib utxos (new_Psbt (network (config b))) 0 = Inr (psbt1, totalInput)"
    and p2: "Psbt_addOutput lib psbt1 (address htlc) amount = Some psbt2"
    and p3a: "546 < totalInput - amount - f \<longrightarrow>
       Psbt_addOutput lib psbt2 changeAddress (totalInput - amount - f) = Some psbt3"
    and p3b: "\<not> 546 < totalInput - amount - f \<longrightarrow> psbt3 = psbt2"
    and p4: "signEach lib [0 ..< length (inputs psbt3)] key psbt3 = Inr psbt4"
    and p5: "Psbt_finalizeAllInputs lib psbt4 = Some psbt5"
    and ex: "Psbt_extractTransaction lib psbt5 = Some tx"
    by blast
  from addUtxoInputs_InrD[OF add]
  have o1: "outputs psbt1 = []" and n1: "psbt_network psbt1 = network (config b)"
    by (simp_all add: new_Psbt_def)
  from Psbt_addOutput_SomeD[OF p2] obtain s where
    s: "address_toOutputScript lib (address htlc) (network (config b)) = Some s"
    and o2: "outputs psbt2 = [\<lparr>pout_address = address htlc, pout_script = s, pout_value = amount\<rparr>]"
    using o1 n1 by auto
  have o3: "\<exists>rest. outputs psbt3
              = \<lparr>pout_address = address htlc, pout_script = s, pout_value = amount\<rparr> # rest"
  proof (cases "546 < totalInput - amount - f")
    case True
    with p3a have "Psbt_addOutput lib psbt2 changeAddress (totalInput - amount - f) = Some psbt3"
      by simp
    from Psbt_addOutput_SomeD[OF this] o2 show ?thesis by auto
  next
    case False
    with p3b o2 show ?thesis by simp
  qed
  have o5: "outputs psbt5 = outputs psbt3"
    using signEach_InrD[OF p4] Psbt_finalizeAllInputs_SomeD[OF p5] by simp
  have "outs tx = map (\<lambda>out. \<lparr>out_script = pout_script out, out_value = pout_value out\<rparr>) (outputs psbt3)"
    using Psbt_extractTransaction_SomeD(3)[OF ex] o5 by simp
  with o3 have "out_script (hd (outs tx)) = s" "out_value (hd (outs tx)) = amount" by auto
  with htlc s show ?thesis by auto
qed

lemma fund_htlc_main_network:
  assumes "fund_htlc_main lib env = Inr (tx, inputValue, t)"
  shows "\<exists>htlcAddress fromAddress key psbt1 psbt2 psbt3 psbt4 psbt5.
    arg_address env = Some htlcAddress \<and>
    env_BITCOIN_ADDRESS env = Some fromAddress \<and>
    selectInputs lib env fromAddress
      (if arg_network env = ''testnet4'' then networks_testnet lib else networks_bitcoin lib)
      (arg_amount env + 1000)
      (getUTXOs env fromAddress (arg_network env))
      (new_Psbt (if arg_network env = ''testnet4'' then networks_testnet lib
                 else networks_bitcoin lib)) 0
      = Inr (psbt1, inputValue) \<and>
    Psbt_addOutput lib psbt1 htlcAddress (arg_amount env) = Some psbt2 \<and>
    (546 < inputValue - arg_amount env - 1000 \<longrightarrow>
       Psbt_addOutput lib psbt2 fromAddress (inputValue - arg_amount env - 1000) = Some psbt3) \<and>
    (\<not> 546 < inputValue - arg_amount env - 1000 \<longrightarrow> psbt3 = psbt2) \<and>
    signEach lib [0 ..< length (inputs psbt3)] key psbt3 = Inr psbt4 \<and>
    Psbt_finalizeAllInputs lib psbt4 = Some psbt5 \<and>
    Psbt_extractTransaction lib psbt5 = Some tx"
  using assms unfolding fund_htlc_main_def
  by (simp add: Let_def envUnset_def split: sum.splits option.splits if_splits prod.splits) blast+

lemma fund_htlc_main_pays:
  assumes built: "fund_htlc_main lib env = Inr (tx, inputValue, t)"
  shows "\<exists>htlcAddress fromAddress.
           arg_address env = Some htlcAddress \<and> env_BITCOIN_ADDRESS env = Some fromAddress
           \<and> address_toOutputScript lib htlcAddress
                 (if arg_network env = ''testnet4'' then networks_testnet lib
                  else networks_bitcoin lib)
               = Some (out_script (hd (outs tx)))
           \<and> out_value (hd (outs tx)) = arg_amount env
           \<and> (546 < inputValue - arg_amount env - 1000 \<longrightarrow>
                address_toOutputScript lib fromAddress
                    (if arg_network env = ''testnet4'' then networks_testnet lib
                     else networks_bitcoin lib)
                  = Some (out_script (outs tx ! 1)))"
proof -
  let ?net = "if arg_network env = ''testnet4'' then networks_testnet lib else networks_bitcoin lib"
  from fund_htlc_main_network[OF built] obtain htlcAddress fromAddress key
      psbt1 psbt2 psbt3 psbt4 psbt5 where
    ha: "arg_address env = Some htlcAddress" and fa: "env_BITCOIN_ADDRESS env = Some fromAddress"
    and sel: "selectInputs lib env fromAddress ?net (arg_amount env + 1000)
            (getUTXOs env fromAddress (arg_network env)) (new_Psbt ?net) 0
          = Inr (psbt1, inputValue)"
    and p2: "Psbt_addOutput lib psbt1 htlcAddress (arg_amount env) = Some psbt2"
    and p3a: "546 < inputValue - arg_amount env - 1000 \<longrightarrow>
       Psbt_addOutput lib psbt2 fromAddress (inputValue - arg_amount env - 1000) = Some psbt3"
    and p3b: "\<not> 546 < inputValue - arg_amount env - 1000 \<longrightarrow> psbt3 = psbt2"
    and p4: "signEach lib [0 ..< length (inputs psbt3)] key psbt3 = Inr psbt4"
    and p5: "Psbt_finalizeAllInputs lib psbt4 = Some psbt5"
    and ex: "Psbt_extractTransaction lib psbt5 = Some tx"
    by blast
  from selectInputs_InrD[OF sel]
  have o1: "outputs psbt1 = []" and n1: "psbt_network psbt1 = ?net"
    by (simp_all add: new_Psbt_def)
  from Psbt_addOutput_SomeD[OF p2] obtain s where
    s: "address_toOutputScript lib htlcAddress ?net = Some s"
    and o2: "outputs psbt2 = [\<lparr>pout_address = htlcAddress, pout_script = s,
                               pout_value = arg_amount env\<rparr>]"
    and n2: "psbt_network psbt2 = ?net"
    using o1 n1 by auto
  have o5: "outputs psbt5 = outputs psbt3"
    using signEach_InrD[OF p4] Psbt_finalizeAllInputs_SomeD[OF p5] by simp
  have outs: "outs tx = map (\<lambda>out. \<lparr>out_script = pout_script out, out_value = pout_value out\<rparr>)
                          (outputs psbt3)"
    using Psbt_extractTransaction_SomeD(3)[OF ex] o5 by simp
  show ?thesis
  proof (cases "546 < inputValue - arg_amount env - 1000")
    case True
    with p3a have "Psbt_addOutput lib psbt2 fromAddress (inputValue - arg_amount env - 1000)
                     = Some psbt3" by simp
    from Psbt_addOutput_SomeD[OF this] obtain s' where
      s': "address_toOutputScript lib fromAddress (psbt_network psbt2) = Some s'"
      and p3eq: "psbt3 = psbt2\<lparr>outputs := outputs psbt2 @
          [\<lparr>pout_address = fromAddress, pout_script = s',
            pout_value = inputValue - arg_amount env - 1000\<rparr>]\<rparr>"
      by blast
    show ?thesis using True ha fa s s' n2 outs p3eq o2 by simp
  next
    case False
    with p3b have "psbt3 = psbt2" by simp
    then show ?thesis using False ha fa s outs o2 by simp
  qed
qed

text \<open>
  No fee rate makes ceil(size * rate) equal to 1000 for two sizes that differ by an input.
\<close>

lemma no_rate_for_a_flat_fee:
  "\<not> (\<exists>size1 size2 rate :: rat.
        0 < size1 \<and> size1 \<le> 40000 \<and> size1 + 41 \<le> size2
        \<and> \<lceil>size1 * rate\<rceil> = (1000 :: int) \<and> \<lceil>size2 * rate\<rceil> = (1000 :: int))"
proof
  assume "\<exists>size1 size2 rate :: rat.
        0 < size1 \<and> size1 \<le> 40000 \<and> size1 + 41 \<le> size2
        \<and> \<lceil>size1 * rate\<rceil> = (1000 :: int) \<and> \<lceil>size2 * rate\<rceil> = (1000 :: int)"
  then obtain size1 size2 rate :: rat where
    pos: "0 < size1" and le: "size1 \<le> 40000" and more: "size1 + 41 \<le> size2"
    and c1: "\<lceil>size1 * rate\<rceil> = (1000 :: int)" and c2: "\<lceil>size2 * rate\<rceil> = (1000 :: int)"
    by blast
  have lo: "999 < size1 * rate"
    using c1 by (simp add: ceiling_eq_iff)
  have hi: "size2 * rate \<le> 1000"
    using c2 by (simp add: ceiling_eq_iff)
  have rpos: "0 < rate"
  proof (rule ccontr)
    assume "\<not> 0 < rate"
    then have "size1 * rate \<le> 0" using pos by (simp add: mult_nonneg_nonpos)
    with lo show False by simp
  qed
  have "999 < 40000 * rate"
  proof -
    have "size1 * rate \<le> 40000 * rate" using le rpos by (simp add: mult_right_mono)
    with lo show ?thesis by simp
  qed
  then have "1 < 41 * rate" by simp
  moreover have "(size1 + 41) * rate \<le> size2 * rate"
    using more rpos by (simp add: mult_right_mono)
  ultimately have "1000 < size2 * rate"
    using lo by (simp add: algebra_simps)
  with hi show False by simp
qed

section \<open>Properties of createClaimTx\<close>

text \<open>
  \<open>createClaimTx\<close> compares the hexadecimal string of the digest of the secret with
  the hashlock string of the HTLC file.
\<close>

lemma createClaimTx_on_a_match:
  assumes "getNetwork lib (p_network params) = Inr n"
    and "p_hashlock params = toString_hex (crypto_sha256 lib (Buffer_from_hex sec))"
  shows "createClaimTx lib broadcast params fundingTxid fundingVout sec dest keyHex feeRate
           = (case createClaimTransaction lib (new_HTLCBuilder (configOfParams params n))
                     fundingTxid fundingVout 100000 (Buffer_from_hex sec) dest
                     (Some (feeRate_or_default feeRate)) (Buffer_from_hex keyHex) of
                Inl e \<Rightarrow> Inl e
              | Inr claimTx \<Rightarrow>
                  (case broadcast (hex claimTx) (p_network params) of
                     Some blockchainTxid \<Rightarrow> Inr blockchainTxid
                   | None \<Rightarrow> Inr (txid claimTx)))"
  using assms
  by (simp add: createClaimTx_def secretMatchesHashlock_def hashSecret_def Let_def)

lemma createClaimTx_on_a_mismatch:
  assumes "getNetwork lib (p_network params) = Inr n"
    and "p_hashlock params \<noteq> toString_hex (crypto_sha256 lib (Buffer_from_hex sec))"
  shows "createClaimTx lib broadcast params fundingTxid fundingVout sec dest keyHex feeRate
           = Inl (SecretDoesNotMatchHashlock, None)"
  using assms
  by (auto simp: createClaimTx_def secretMatchesHashlock_def hashSecret_def Let_def)

section \<open>The code on the further scenarios\<close>

lemma stubCodecLib_selectors:
  "crypto_sha256 stubCodecLib = crypto_sha256 stubLib"
  "crypto_hash160 stubCodecLib = crypto_hash160 stubLib"
  "address_fromOutputScript stubCodecLib = fromOutputScript stubCodec"
  "address_toOutputScript stubCodecLib = toOutputScript stubCodec"
  "networks_bitcoin stubCodecLib = networks_bitcoin stubLib"
  "networks_testnet stubCodecLib = NETWORKS_testnet4"
  "networks_regtest stubCodecLib = networks_regtest stubLib"
  by (simp_all add: stubCodecLib_def stubLib_def)

lemma stub_digest_lengths:
  "length (crypto_sha256 stubCodecLib x) = 32" "length (crypto_hash160 stubCodecLib x) = 20"
  by (simp_all add: stubCodecLib_def stubLib_def)

lemma stub_network_fields:
  "bech32 NETWORKS_testnet4 = ''tb''" "net_scriptHash NETWORKS_testnet4 = 196"
  "pubKeyHash NETWORKS_testnet4 = 111"
  "bech32 (networks_bitcoin stubLib) = ''bc''" "net_scriptHash (networks_bitcoin stubLib) = 5"
  "pubKeyHash (networks_bitcoin stubLib) = 0"
  "bech32 (networks_regtest stubLib) = ''bcrt''" "net_scriptHash (networks_regtest stubLib) = 196"
  "pubKeyHash (networks_regtest stubLib) = 111"
  by (simp_all add: NETWORKS_testnet4_def stubLib_def)

lemma stubCodec_bech32:
  "\<forall>data a. toBech32 stubCodec data 0 (bech32 NETWORKS_testnet4) = Some a \<longrightarrow>
      fromBase58Check stubCodec a = None
      \<and> fromBech32 stubCodec a = Some (0, bech32 NETWORKS_testnet4, data)"
  by (simp add: stubCodec_def stub_network_fields Buffer_from_hex_toString_hex length_toString_hex)

lemma stubCodec_base58:
  "\<forall>hash' a. toBase58Check stubCodec hash' (net_scriptHash NETWORKS_testnet4) = Some a \<longrightarrow>
      fromBase58Check stubCodec a = Some (net_scriptHash NETWORKS_testnet4, hash')"
  by (auto simp: stubCodec_def stub_network_fields Buffer_from_hex_toString_hex length_toString_hex)

lemma stub_prefixes:
  "distinct [bech32 (networks_bitcoin stubCodecLib), bech32 (networks_testnet stubCodecLib),
             bech32 (networks_regtest stubCodecLib)]"
  by (simp add: stubCodecLib_selectors stub_network_fields)

lemma stubCodec_getNetwork:
  "getNetwork stubCodecLib ''testnet'' = Inr NETWORKS_testnet4"
  "getNetwork stubCodecLib ''testnet4'' = Inr NETWORKS_testnet4"
  "getNetwork stubCodecLib ''mainnet'' = Inr (networks_bitcoin stubLib)"
  "getNetwork stubCodecLib ''regtest'' = Inr (networks_regtest stubLib)"
  by (simp_all add: getNetwork_def stubCodecLib_selectors)

lemma demoLegacyParams_script:
  "createHTLCScript (new_HTLCBuilder (configOfParams demoLegacyParams n)) = createHTLCScript demoBuilder"
  "createHTLCScript (new_HTLCBuilder (configOfParams demoParams n)) = createHTLCScript demoBuilder"
  by (simp_all add: createHTLCScript_def new_HTLCBuilder_def configOfParams_def demoLegacyParams_def
        demoParams_def demoBuilder_def demoConfig_def Buffer_from_hex_toString_hex)

lemma demo_createHTLC_codec:
  "createHTLC stubCodecLib (new_HTLCBuilder (configOfParams demoParams NETWORKS_testnet4))
     = Inr (demoHTLC\<lparr>address := demoSegwitAddress\<rparr>)"
proof -
  have l: "length (crypto_sha256 stubLib (createHTLCScript demoBuilder)) = 32"
    using stub_digest_lengths(1) by (simp add: stubCodecLib_selectors)
  have t: "truthy (useSegwit (config (new_HTLCBuilder (configOfParams demoParams NETWORKS_testnet4))))"
    by (simp add: new_HTLCBuilder_def configOfParams_def demoParams_def truthy_def)
  have n: "network (config (new_HTLCBuilder (configOfParams demoParams NETWORKS_testnet4)))
             = NETWORKS_testnet4"
    by (simp add: new_HTLCBuilder_def configOfParams_def)
  show ?thesis
    using t
    by (simp add: createHTLC_def Let_def demoLegacyParams_script n stubCodecLib_selectors
          fromOutputScript_p2wsh[OF l] stubCodec_def stub_network_fields demoHTLC_def
          demoSegwitAddress_def)
qed

lemma demo_createHTLC_legacy:
  "createHTLC stubCodecLib (new_HTLCBuilder (configOfParams demoLegacyParams NETWORKS_testnet4))
     = Inr demoLegacyHTLC"
proof -
  have l: "length (crypto_hash160 stubLib (createHTLCScript demoBuilder)) = 20"
    using stub_digest_lengths(2) by (simp add: stubCodecLib_selectors)
  have t: "\<not> truthy (useSegwit (config (new_HTLCBuilder
              (configOfParams demoLegacyParams NETWORKS_testnet4))))"
    by (simp add: new_HTLCBuilder_def configOfParams_def demoLegacyParams_def truthy_def)
  have n: "network (config (new_HTLCBuilder (configOfParams demoLegacyParams NETWORKS_testnet4)))
             = NETWORKS_testnet4"
    by (simp add: new_HTLCBuilder_def configOfParams_def)
  have h: "toString_hex ((196 :: byte) # d) = ''c4'' @ toString_hex d" for d
    by (simp add: toString_hex_def hexChar_def)
  show ?thesis
    using t
    by (simp add: createHTLC_def Let_def demoLegacyParams_script n stubCodecLib_selectors
          fromOutputScript_p2sh[OF l] stubCodec_def stub_network_fields demoLegacyHTLC_def
          demoLegacyAddress_def l h)
qed

lemma upt_0_2: "[0 ..< 2] = [0, Suc 0]"
  by (simp add: upt_rec)

lemma demo_fund_main_two:
  "fund_htlc_main stubLib demoFundHtlcTwoEnv = Inr (demoFundMainTwoTx, 70000, demoTxid)"
proof -
  have k: "toString_hex demoKey \<noteq> []"
    by (rule toString_hex_nonempty) (simp add: demoKey_def)
  have d: "demoDestination \<noteq> []"
    by (simp add: demoDestination_def stubAddress_nonempty)
  have o: "stubToOutputScript demoDestination NETWORKS_testnet4 = Some (0 # 20 # replicate 20 68)"
    by (simp add: demoDestination_def stubToOutputScript_stubAddress)
  have a: "address demoHTLC \<noteq> []"
    by (simp add: demoHTLC_def stubAddress_nonempty)
  have h: "stubToOutputScript (address demoHTLC) NETWORKS_testnet4 = Some (lockingScript demoHTLC)"
    by (simp add: demoHTLC_def stubToOutputScript_stubAddress)
  show ?thesis
    using demoDestination_segwit
    by (simp add: fund_htlc_main_def demoFundHtlcTwoEnv_def demoFundHtlcEnv_def Let_def envUnset_def
          stub_selectors upt_0_2
          stub_more_selectors stub_getFinalScripts length_toString_hex demo_lengths
          Buffer_from_hex_toString_hex new_Psbt_def k d o a h
          Psbt_addInput_def Psbt_addOutput_def Psbt_signInput_def Psbt_finalizeAllInputs_def
          Psbt_finalizeInput_default_def setFinalScripts_def Psbt_extractTransaction_def
          isFinalized_def finalizedTxInput_def stub_final_witness demoFundMainTwoTx_def)
qed

lemma demoUpperCase_hashlock:
  "Buffer_from_hex (concat (replicate 32 ''AB'')) = replicate 32 171"
  by code_simp

lemma demoLetterSecret_bytes: "Buffer_from_hex demoLetterSecret = replicate 32 171"
  by (simp add: demoLetterSecret_def Buffer_from_hex_toString_hex)

lemma stub_sha256_32: "length x = 32 \<Longrightarrow> crypto_sha256 stubLib x = x"
  by (simp add: stub_selectors)

lemma demo_upper_case_claim:
  "createClaimTransaction stubLib
     (new_HTLCBuilder (configOfParams demoUpperCaseParams NETWORKS_testnet4))
     demoTxid 0 100000 (replicate 32 171) demoDestination (Some 10) demoKey
   = Inr (toHTLCTransaction stubLib (demoUpperCaseClaimTx, 1500))"
proof -
  let ?b = "new_HTLCBuilder (configOfParams demoUpperCaseParams NETWORKS_testnet4)"
  have c: "senderPublicKey (config ?b) = 2 # replicate 32 17"
    "receiverPublicKey (config ?b) = 3 # replicate 32 34"
    "hashlock (config ?b) = replicate 32 171"
    "network (config ?b) = NETWORKS_testnet4"
    "truthy (useSegwit (config ?b))"
    by (simp_all add: new_HTLCBuilder_def configOfParams_def demoUpperCaseParams_def demoParams_def
          Buffer_from_hex_toString_hex demoUpperCase_hashlock truthy_def)
  have l: "length (createHTLCScript ?b) < 253"
    using length_createHTLCScript[of ?b] by (simp add: c)
  from stub_claimTransaction[where b="?b" and htlcTxid=demoTxid and htlcVout=0
          and key=demoKey and feeRate="Some 10" and htlcAmount=100000 and sec="replicate 32 171"
          and s="0 # 20 # replicate 20 68"]
  have "claimTransaction stubLib ?b demoTxid 0 100000 (replicate 32 171) demoDestination (Some 10)
          demoKey = Inr (demoUpperCaseClaimTx, 1500)"
    by (simp add: demo_lengths c l feeRate_or_default_def demo_fees demoDestination_def
          demoUpperCaseClaimTx_def)
  then show ?thesis by (simp add: createClaimTransaction_def)
qed

section \<open>The claims\<close>

subsection \<open>C1: the claim witness stack and the round trip of the secret\<close>



subsection \<open>C2: order transitions\<close>

text \<open>
  Claim C2. \<open>taker-fund-htlc-real.ts\<close> moves an order to FUNDED without looking at
  its status. Whenever the order file exists and has a taker, a Bitcoin HTLC and an escrow,
  the credentials are set and the builder file exists, the script returns normally and the
  order file then holds the order with the status FUNDED and a funding transaction id,
  whatever the status of the order was and whether or not the funding subprocess succeeded.
  No error is raised and the record is changed.
\<close>

theorem taker_fund_ignores_order_status:
  assumes "fund_orderId env \<noteq> []" "\<not> str_includes (fund_orderId env) ''.ts''"
    and "files (fund_orderId env) = Some order'"
    and "o_taker order' \<noteq> None" "o_bitcoinHTLC order' \<noteq> None" "o_monadvmEscrow order' \<noteq> None"
    and "\<not> envUnset (fund_BITCOIN_PRIVATE_KEY env)" "\<not> envUnset (fund_BITCOIN_ADDRESS env)"
    and "fund_htlcBuilderExists env"
  shows "\<exists>fundingTxId. taker_fund_main env files
             = (Inr (setFunded order' fundingTxId),
                files(fund_orderId env \<mapsto> setFunded order' fundingTxId))
           \<and> o_status (setFunded order' fundingTxId) = FUNDED"
  using taker_fund_main_run[where env=env and files=files and order'=order'] assms
    o_status_setFunded
  by blast

text \<open>
  The theorem at an order in status CREATED and at one in status COMPLETED, with the
  funding subprocess failing: both end in status FUNDED with a simulated transaction id.
\<close>

theorem taker_fund_ignores_order_status_witness:
  "o_status (demoOrder CREATED) = CREATED
   \<and> taker_fund_main demoFundEnv [''order_1'' \<mapsto> demoOrder CREATED]
       = (Inr (setFunded (demoOrder CREATED) ''sim_0001_funding''),
          [''order_1'' \<mapsto> setFunded (demoOrder CREATED) ''sim_0001_funding''])
   \<and> o_status (setFunded (demoOrder CREATED) ''sim_0001_funding'') = FUNDED
   \<and> o_status (demoOrder COMPLETED) = COMPLETED
   \<and> taker_fund_main demoFundEnv [''order_1'' \<mapsto> demoOrder COMPLETED]
       = (Inr (setFunded (demoOrder COMPLETED) ''sim_0001_funding''),
          [''order_1'' \<mapsto> setFunded (demoOrder COMPLETED) ''sim_0001_funding''])
   \<and> o_status (setFunded (demoOrder COMPLETED) ''sim_0001_funding'') = FUNDED"
proof -
  have run: "\<exists>fundingTxId.
      taker_fund_main demoFundEnv [''order_1'' \<mapsto> demoOrder st]
        = (Inr (setFunded (demoOrder st) fundingTxId),
           [''order_1'' \<mapsto> demoOrder st](fund_orderId demoFundEnv \<mapsto>
              setFunded (demoOrder st) fundingTxId))
      \<and> o_status (setFunded (demoOrder st) fundingTxId) = FUNDED" for st
    using taker_fund_ignores_order_status[where env=demoFundEnv
            and files="[''order_1'' \<mapsto> demoOrder st]" and order'="demoOrder st"]
      order_1_is_an_order_id demoOrder_fields[of st]
    by (simp add: demoFundEnv_fields(1-4))
  have funded: "o_status (setFunded (demoOrder st) ''sim_0001_funding'') = FUNDED" for st
    using run[of st] by (auto simp: demo_taker_fund)
  show ?thesis
    by (simp add: demo_taker_fund funded demoOrder_fields(4))
qed

subsection \<open>C3: a claim whose fee exhausts the input\<close>

text \<open>
  Claim C3. \<open>createClaimTransaction\<close> with an HTLC input of 1500 satoshis at
  10 sat/vB computes the fee 1500 and the output amount 0; it adds the output, signs input 0
  and returns the transaction, whose only output is worth 0 and whose input carries the
  signature. No error is raised before signing.
\<close>

theorem claim_with_zero_output_is_signed:
  "claimTransaction stubLib demoBuilder demoTxid 0 1500 demoSecret demoDestination (Some 10) demoKey
     = Inr (demoClaimTx 0, 1500)
   \<and> map out_value (outs (demoClaimTx 0)) = [1500 - \<lceil>150 * (10 :: rat)\<rceil>]
   \<and> map in_witness (ins (demoClaimTx 0))
       = [[stubSignature, demoSecret, [1], createHTLCScript demoBuilder]]"
  using demo_claim[of 0] by (simp add: demoClaimTx_def)

subsection \<open>C4: fee and change of a funding transaction\<close>

text \<open>
  Claim C4, as stated, fails in two ways. When the change is at most 546 satoshis it is
  dropped: the builder funds 99500 from a single output of 100000 at 1 sat/vB, the fee by
  the formula is 226 and the inputs cover the amount and that fee, there is no change
  output, and 100000 is not 99500 + 226. And the fee of \<open>fund-htlc.ts\<close> is not
  ceil(estimatedSize * feeRate): a run with one input and a run with two inputs both pay
  1000 satoshis, and no fee rate gives 1000 for two sizes that differ by an input (41
  virtual bytes at least) when the smaller one is at most 40000.
\<close>

theorem funding_fee_counterexample:
  "fundingTransaction stubLib demoBuilder [demoUtxo] 99500 demoDestination (Some 1) demoKey
     = Inr (demoFundingTx, 226)
   \<and> 226 = Math_ceil (js_times (of_int (int (length [demoUtxo]) * 148 + 2 * 34 + 10)) 1)
   \<and> 99500 + 226 \<le> sum_list (map utxo_value [demoUtxo])
   \<and> sum_list (map utxo_value [demoUtxo]) \<noteq> sum_list (map out_value (outs demoFundingTx)) + 226
   \<and> fund_htlc_main stubLib demoFundHtlcEnv = Inr (demoFundMainTx, 60000, demoTxid)
   \<and> length (ins demoFundMainTx) = 1
   \<and> 60000 = sum_list (map out_value (outs demoFundMainTx)) + 1000
   \<and> fund_htlc_main stubLib demoFundHtlcTwoEnv = Inr (demoFundMainTwoTx, 70000, demoTxid)
   \<and> length (ins demoFundMainTwoTx) = 2
   \<and> 70000 = sum_list (map out_value (outs demoFundMainTwoTx)) + 1000
   \<and> \<not> (\<exists>size1 size2 rate :: rat.
          0 < size1 \<and> size1 \<le> 40000 \<and> size1 + 41 \<le> size2
          \<and> \<lceil>size1 * rate\<rceil> = (1000 :: int) \<and> \<lceil>size2 * rate\<rceil> = (1000 :: int))"
  using demo_funding demo_fund_main demo_fund_main_two no_rate_for_a_flat_fee
  by (simp add: demoUtxo_def demoFundingTx_def demoFundMainTx_def demoFundMainTwoTx_def demo_fees)

text \<open>
  Claim C4, amended. A funding transaction of \<open>createFundingTransaction\<close> spends
  every given output; its fee is the ceiling of the double-precision product of
  148 n + 78 and the fee rate, for n inputs. A funding transaction of
  \<open>fund-htlc.ts\<close> spends a selection of the fetched outputs and has the fixed fee
  1000. In both, the first output pays the HTLC address, and whenever the inputs cover the
  amount and the fee: if the change (inputs minus amount minus fee) exceeds 546, the
  outputs are the amount and the change, the change is paid to the change address of the
  funder, and inputs = outputs + fee; if it does not, the only output is the amount and
  inputs = outputs + fee + change, the change going to the miner. The builder is covered
  for a fee rate and an amount that are not negative and inputs below 2^53 satoshis.
\<close>

theorem funding_transactions_fee_and_change:
  "(fundingTransaction lib b utxos amount changeAddress feeRate key = Inr (tx, f)
    \<and> 0 \<le> feeRate_or_default feeRate \<and> 0 \<le> amount
    \<and> sum_list (map utxo_value utxos) < 2 ^ 53
    \<and> amount + f \<le> sum_list (map utxo_value utxos) \<longrightarrow>
      f = Math_ceil (js_times (of_int (int (length utxos) * 148 + 2 * 34 + 10))
                       (feeRate_or_default feeRate))
      \<and> length (ins tx) = length utxos
      \<and> (\<exists>htlc. createHTLC lib b = Inr htlc
             \<and> address_toOutputScript lib (address htlc) (network (config b))
                 = Some (out_script (hd (outs tx))))
      \<and> (546 < sum_list (map utxo_value utxos) - amount - f \<longrightarrow>
            map out_value (outs tx) = [amount, sum_list (map utxo_value utxos) - amount - f]
            \<and> address_toOutputScript lib changeAddress (network (config b))
                = Some (out_script (outs tx ! 1))
            \<and> sum_list (map utxo_value utxos) = sum_list (map out_value (outs tx)) + f)
      \<and> (sum_list (map utxo_value utxos) - amount - f \<le> 546 \<longrightarrow>
            map out_value (outs tx) = [amount]
            \<and> sum_list (map utxo_value utxos)
                = sum_list (map out_value (outs tx)) + f
                  + (sum_list (map utxo_value utxos) - amount - f)))
   \<and> (fund_htlc_main lib env = Inr (tx', inputValue, t)
       \<and> arg_amount env + 1000 \<le> inputValue \<longrightarrow>
      (\<exists>chosen fromAddress. env_BITCOIN_ADDRESS env = Some fromAddress
            \<and> set chosen \<subseteq> set (getUTXOs env fromAddress (arg_network env))
            \<and> inputValue = sum_list (map bu_value chosen) \<and> length (ins tx') = length chosen)
      \<and> (\<exists>htlcAddress fromAddress.
             arg_address env = Some htlcAddress \<and> env_BITCOIN_ADDRESS env = Some fromAddress
             \<and> address_toOutputScript lib htlcAddress
                   (if arg_network env = ''testnet4'' then networks_testnet lib
                    else networks_bitcoin lib)
                 = Some (out_script (hd (outs tx')))
             \<and> (546 < inputValue - arg_amount env - 1000 \<longrightarrow>
                  address_toOutputScript lib fromAddress
                      (if arg_network env = ''testnet4'' then networks_testnet lib
                       else networks_bitcoin lib)
                    = Some (out_script (outs tx' ! 1))))
      \<and> (546 < inputValue - arg_amount env - 1000 \<longrightarrow>
            map out_value (outs tx') = [arg_amount env, inputValue - arg_amount env - 1000]
            \<and> inputValue = sum_list (map out_value (outs tx')) + 1000)
      \<and> (inputValue - arg_amount env - 1000 \<le> 546 \<longrightarrow>
            map out_value (outs tx') = [arg_amount env]
            \<and> inputValue = sum_list (map out_value (outs tx')) + 1000
                  + (inputValue - arg_amount env - 1000)))"
proof (intro conjI impI)
  assume a: "fundingTransaction lib b utxos amount changeAddress feeRate key = Inr (tx, f)
    \<and> 0 \<le> feeRate_or_default feeRate \<and> 0 \<le> amount
    \<and> sum_list (map utxo_value utxos) < 2 ^ 53
    \<and> amount + f \<le> sum_list (map utxo_value utxos)"
  then have built: "fundingTransaction lib b utxos amount changeAddress feeRate key = Inr (tx, f)"
    by simp
  note fc = createFundingTransaction_fee_and_change[OF built]
  from fc show "f = Math_ceil (js_times (of_int (int (length utxos) * 148 + 2 * 34 + 10))
                       (feeRate_or_default feeRate))" by (rule conjunct1)
  from fc show "length (ins tx) = length utxos" by blast
  from createFundingTransaction_pays_htlc[OF built]
  show "\<exists>htlc. createHTLC lib b = Inr htlc
          \<and> address_toOutputScript lib (address htlc) (network (config b))
              = Some (out_script (hd (outs tx)))" by blast
  {
    assume "546 < sum_list (map utxo_value utxos) - amount - f"
    with fc show "map out_value (outs tx) = [amount, sum_list (map utxo_value utxos) - amount - f]"
      "address_toOutputScript lib changeAddress (network (config b)) = Some (out_script (outs tx ! 1))"
      "sum_list (map utxo_value utxos) = sum_list (map out_value (outs tx)) + f"
      by blast+
  }
  {
    assume "sum_list (map utxo_value utxos) - amount - f \<le> 546"
    with fc show "map out_value (outs tx) = [amount]"
      "sum_list (map utxo_value utxos)
                = sum_list (map out_value (outs tx)) + f
                  + (sum_list (map utxo_value utxos) - amount - f)"
      by blast+
  }
next
  assume a: "fund_htlc_main lib env = Inr (tx', inputValue, t)
       \<and> arg_amount env + 1000 \<le> inputValue"
  then have built: "fund_htlc_main lib env = Inr (tx', inputValue, t)" by simp
  note fc = fund_htlc_main_fee_and_change[OF built]
  from fc show "\<exists>chosen fromAddress. env_BITCOIN_ADDRESS env = Some fromAddress
            \<and> set chosen \<subseteq> set (getUTXOs env fromAddress (arg_network env))
            \<and> inputValue = sum_list (map bu_value chosen) \<and> length (ins tx') = length chosen"
    by blast
  from fund_htlc_main_pays[OF built]
  show "\<exists>htlcAddress fromAddress.
             arg_address env = Some htlcAddress \<and> env_BITCOIN_ADDRESS env = Some fromAddress
             \<and> address_toOutputScript lib htlcAddress
                   (if arg_network env = ''testnet4'' then networks_testnet lib
                    else networks_bitcoin lib)
                 = Some (out_script (hd (outs tx')))
             \<and> (546 < inputValue - arg_amount env - 1000 \<longrightarrow>
                  address_toOutputScript lib fromAddress
                      (if arg_network env = ''testnet4'' then networks_testnet lib
                       else networks_bitcoin lib)
                    = Some (out_script (outs tx' ! 1)))"
    by blast
  {
    assume "546 < inputValue - arg_amount env - 1000"
    with fc show "map out_value (outs tx') = [arg_amount env, inputValue - arg_amount env - 1000]"
      "inputValue = sum_list (map out_value (outs tx')) + 1000"
      by blast+
  }
  {
    assume "inputValue - arg_amount env - 1000 \<le> 546"
    with fc show "map out_value (outs tx') = [arg_amount env]"
      "inputValue = sum_list (map out_value (outs tx')) + 1000
                  + (inputValue - arg_amount env - 1000)"
      by blast+
  }
qed

text \<open>
  The theorem at four scenarios: the builder with a change of 274 (dropped) and of 49774
  (paid to the change address), the script with a change of 9000 (paid) and of 0 (no change
  output).
\<close>

theorem funding_transactions_fee_and_change_witness:
  "fundingTransaction stubLib demoBuilder [demoUtxo] 99500 demoDestination (Some 1) demoKey
     = Inr (demoFundingTx, 226)
   \<and> 99500 + 226 \<le> sum_list (map utxo_value [demoUtxo])
   \<and> sum_list (map utxo_value [demoUtxo]) - 99500 - 226 \<le> 546
   \<and> map out_value (outs demoFundingTx) = [99500]
   \<and> sum_list (map utxo_value [demoUtxo])
        = sum_list (map out_value (outs demoFundingTx)) + 226 + 274
   \<and> fundingTransaction stubLib demoBuilder [demoUtxo] 50000 demoDestination (Some 1) demoKey
     = Inr (demoFundingChangeTx, 226)
   \<and> 50000 + 226 \<le> sum_list (map utxo_value [demoUtxo])
   \<and> 546 < sum_list (map utxo_value [demoUtxo]) - 50000 - 226
   \<and> map out_value (outs demoFundingChangeTx) = [50000, 49774]
   \<and> address_toOutputScript stubLib demoDestination (network (config demoBuilder))
        = Some (out_script (outs demoFundingChangeTx ! 1))
   \<and> sum_list (map utxo_value [demoUtxo])
        = sum_list (map out_value (outs demoFundingChangeTx)) + 226
   \<and> fund_htlc_main stubLib demoFundHtlcEnv = Inr (demoFundMainTx, 60000, demoTxid)
   \<and> arg_amount demoFundHtlcEnv + 1000 \<le> 60000
   \<and> 546 < 60000 - arg_amount demoFundHtlcEnv - 1000
   \<and> map out_value (outs demoFundMainTx) = [50000, 9000]
   \<and> 60000 = sum_list (map out_value (outs demoFundMainTx)) + 1000
   \<and> fund_htlc_main stubLib demoFundHtlcDustEnv = Inr (demoFundMainDustTx, 60000, demoTxid)
   \<and> arg_amount demoFundHtlcDustEnv + 1000 \<le> 60000
   \<and> 60000 - arg_amount demoFundHtlcDustEnv - 1000 \<le> 546
   \<and> map out_value (outs demoFundMainDustTx) = [59000]
   \<and> 60000 = sum_list (map out_value (outs demoFundMainDustTx)) + 1000 + 0"
proof -
  have r: "0 \<le> feeRate_or_default (Some 1)" by (simp add: feeRate_or_default_def)
  have u: "utxo_value demoUtxo = 100000" by (simp add: demoUtxo_def)
  have e: "arg_amount demoFundHtlcEnv = 50000" "arg_amount demoFundHtlcDustEnv = 59000"
    by (simp_all add: demoFundHtlcEnv_def demoFundHtlcDustEnv_def)
  note first = funding_transactions_fee_and_change[of stubLib demoBuilder "[demoUtxo]" 99500
          demoDestination "Some 1" demoKey demoFundingTx 226 demoFundHtlcEnv demoFundMainTx
          60000 demoTxid]
  note second = funding_transactions_fee_and_change[of stubLib demoBuilder "[demoUtxo]" 50000
          demoDestination "Some 1" demoKey demoFundingChangeTx 226 demoFundHtlcDustEnv
          demoFundMainDustTx 60000 demoTxid]
  show ?thesis
    using first second demo_funding demo_fund_main demo_funding_change demo_fund_main_dust r
    by (simp add: u e)
qed

subsection \<open>C5: the secret extractor\<close>

text \<open>
  Claim C5. On a hex that does not parse, \<open>extractSecretFromTransaction\<close> returns
  null. On a transaction whose input-0 stack (the witness, or else the decompiled
  script-sig) has fewer than two elements it returns no secret (null or undefined); when
  the stack has at least two elements it returns the second one.
\<close>

theorem extract_second_stack_element:
  "(Transaction_fromHex lib txHex = None \<longrightarrow> extractSecretFromTransaction lib txHex ws = Null)
   \<and> (\<forall>tx. Transaction_fromHex lib txHex = Some tx \<longrightarrow>
        (length (input0_stack lib tx) < 2 \<longrightarrow>
           extractSecretFromTransaction lib txHex ws \<in> {Null, Undefined})
      \<and> (2 \<le> length (input0_stack lib tx) \<longrightarrow>
           extractSecretFromTransaction lib txHex ws = Element (input0_stack lib tx ! 1)))"
  by (auto simp: extractSecretFromTransaction_def input0_stack_def
        split: option.splits list.splits)

text \<open>
The theorem at an unparsable hex, at a one-element witness and at the claim transaction of the scenario.
\<close>

theorem extract_second_stack_element_witness:
  "Transaction_fromHex stubLib ''zz'' = None
   \<and> extractSecretFromTransaction stubLib ''zz'' [] = Null
   \<and> Transaction_fromHex stubLib (Transaction_toHex stubLib demoOneElementTx) = Some demoOneElementTx
   \<and> length (input0_stack stubLib demoOneElementTx) < 2
   \<and> extractSecretFromTransaction stubLib (Transaction_toHex stubLib demoOneElementTx) [] = Undefined
   \<and> Transaction_fromHex stubLib (Transaction_toHex stubLib (demoClaimTx 98500)) = Some (demoClaimTx 98500)
   \<and> 2 \<le> length (input0_stack stubLib (demoClaimTx 98500))
   \<and> extractSecretFromTransaction stubLib (Transaction_toHex stubLib (demoClaimTx 98500)) []
       = Element (Data demoSecret)"
proof -
  have bad: "Transaction_fromHex stubLib ''zz'' = None"
    by (simp add: stub_selectors unhex_def parseTx_def readBytes_def)
  have one: "Transaction_fromHex stubLib (Transaction_toHex stubLib demoOneElementTx)
               = Some demoOneElementTx"
    by (simp add: stub_selectors Buffer_from_hex_toString_hex demoOneElementTx_codec)
  have claim: "Transaction_fromHex stubLib (Transaction_toHex stubLib (demoClaimTx 98500))
                 = Some (demoClaimTx 98500)"
    by (simp add: stub_selectors Buffer_from_hex_toString_hex demo_codec)
  have s1: "input0_stack stubLib demoOneElementTx = [Data [48, 1]]"
    by (simp add: input0_stack_def demoOneElementTx_def)
  have s2: "input0_stack stubLib (demoClaimTx 98500)
              = [Data stubSignature, Data demoSecret, Data [1], Data (createHTLCScript demoBuilder)]"
    by (simp add: input0_stack_def demoClaimTx_def)
  have u: "extractSecretFromTransaction stubLib (Transaction_toHex stubLib demoOneElementTx) []
             \<noteq> Null"
    by (simp add: extractSecretFromTransaction_def one) (simp add: demoOneElementTx_def)
  from extract_second_stack_element[of stubLib "''zz''" "[]"]
    extract_second_stack_element[of stubLib "Transaction_toHex stubLib demoOneElementTx" "[]"]
    extract_second_stack_element[of stubLib "Transaction_toHex stubLib (demoClaimTx 98500)" "[]"]
    bad one claim s1 s2 u
  show ?thesis by simp
qed

subsection \<open>C6: the refund transaction\<close>



subsection \<open>C7: the two script constructors\<close>

text \<open>
  Claim C7. The script that \<open>createHTLCScript\<close> of \<open>claim-htlc-reverse.ts\<close>
  builds is never the script that \<open>HTLCBuilder.createHTLCScript\<close> builds, whatever
  the keys, hashlock and locktime: the first ends with OP_CHECKSIG, the second with OP_ENDIF.
\<close>

theorem script_builders_disagree:
  "reverse_createHTLCScript sp rp hl lt \<noteq> Inr (createHTLCScript b)"
proof
  assume "reverse_createHTLCScript sp rp hl lt = Inr (createHTLCScript b)"
  from last_reverse_createHTLCScript[OF this] last_createHTLCScript[of b]
  show False by simp
qed

subsection \<open>C8: verifying a secret against a hashlock\<close>

text \<open>
  Claim C8 fails in the code. \<open>createClaimTx\<close> builds the HTLC from the bytes of
  the hashlock of the HTLC file, but compares the lower-case hexadecimal string of the
  digest of the secret with the hashlock string itself. So whenever the bytes of the
  hashlock are the SHA-256 digest of the secret and its spelling is not the lower-case
  one, the HTLC is locked with hash(S), yet \<open>createClaimTx\<close> rejects S with the
  error of a mismatch and builds nothing; with the lower-case spelling of the same
  hashlock, which gives the same HTLC, it goes on to \<open>createClaimTransaction\<close>
  and returns its transaction id.
\<close>

theorem createClaimTx_rejects_the_right_secret:
  assumes net: "getNetwork lib (p_network params) = Inr n"
    and digest: "Buffer_from_hex (p_hashlock params) = crypto_sha256 lib (Buffer_from_hex sec)"
    and spelling: "p_hashlock params \<noteq> toString_hex (crypto_sha256 lib (Buffer_from_hex sec))"
  shows "hashlock (config (new_HTLCBuilder (configOfParams params n)))
           = crypto_sha256 lib (Buffer_from_hex sec)
       \<and> hashSecret lib (Buffer_from_hex sec) = crypto_sha256 lib (Buffer_from_hex sec)
       \<and> createClaimTx lib broadcast params fundingTxid fundingVout sec dest keyHex feeRate
           = Inl (SecretDoesNotMatchHashlock, None)
       \<and> configOfParams
             (params\<lparr>p_hashlock := toString_hex (crypto_sha256 lib (Buffer_from_hex sec))\<rparr>) n
           = configOfParams params n
       \<and> createClaimTx lib broadcast
             (params\<lparr>p_hashlock := toString_hex (crypto_sha256 lib (Buffer_from_hex sec))\<rparr>)
             fundingTxid fundingVout sec dest keyHex feeRate
           = (case createClaimTransaction lib (new_HTLCBuilder (configOfParams params n))
                     fundingTxid fundingVout 100000 (Buffer_from_hex sec) dest
                     (Some (feeRate_or_default feeRate)) (Buffer_from_hex keyHex) of
                Inl e \<Rightarrow> Inl e
              | Inr claimTx \<Rightarrow>
                  (case broadcast (hex claimTx) (p_network params) of
                     Some blockchainTxid \<Rightarrow> Inr blockchainTxid
                   | None \<Rightarrow> Inr (txid claimTx)))"
proof -
  let ?lower = "params\<lparr>p_hashlock := toString_hex (crypto_sha256 lib (Buffer_from_hex sec))\<rparr>"
  have same: "configOfParams ?lower n = configOfParams params n"
    using digest by (simp add: configOfParams_def Buffer_from_hex_toString_hex)
  have "getNetwork lib (p_network ?lower) = Inr n" using net by simp
  moreover have "p_hashlock ?lower = toString_hex (crypto_sha256 lib (Buffer_from_hex sec))"
    by simp
  ultimately have accepted: "createClaimTx lib broadcast ?lower fundingTxid fundingVout sec dest
                               keyHex feeRate
           = (case createClaimTransaction lib (new_HTLCBuilder (configOfParams ?lower n))
                     fundingTxid fundingVout 100000 (Buffer_from_hex sec) dest
                     (Some (feeRate_or_default feeRate)) (Buffer_from_hex keyHex) of
                Inl e \<Rightarrow> Inl e
              | Inr claimTx \<Rightarrow>
                  (case broadcast (hex claimTx) (p_network ?lower) of
                     Some blockchainTxid \<Rightarrow> Inr blockchainTxid
                   | None \<Rightarrow> Inr (txid claimTx)))"
    by (rule createClaimTx_on_a_match)
  have pn: "p_network ?lower = p_network params" by simp
  note accepted = accepted[unfolded same pn]
  have locked: "hashlock (config (new_HTLCBuilder (configOfParams params n)))
                  = crypto_sha256 lib (Buffer_from_hex sec)"
    using digest by (simp add: new_HTLCBuilder_def configOfParams_def)
  show ?thesis
    using createClaimTx_on_a_mismatch[OF net spelling] locked same accepted
    by (simp add: hashSecret_def)
qed

text \<open>
  The theorem at an HTLC file with the hashlock ABAB...AB: the secret is rejected, and is
  accepted once the hashlock is spelled abab...ab.
\<close>

theorem createClaimTx_rejects_the_right_secret_witness:
  "getNetwork stubLib (p_network demoUpperCaseParams) = Inr NETWORKS_testnet4
   \<and> Buffer_from_hex (p_hashlock demoUpperCaseParams)
       = crypto_sha256 stubLib (Buffer_from_hex demoLetterSecret)
   \<and> p_hashlock demoUpperCaseParams
       \<noteq> toString_hex (crypto_sha256 stubLib (Buffer_from_hex demoLetterSecret))
   \<and> hashlock (config (new_HTLCBuilder (configOfParams demoUpperCaseParams NETWORKS_testnet4)))
       = crypto_sha256 stubLib (Buffer_from_hex demoLetterSecret)
   \<and> createClaimTx stubLib (\<lambda>h n. None) demoUpperCaseParams demoTxid 0 demoLetterSecret
        demoDestination (toString_hex demoKey) (Some 10)
       = Inl (SecretDoesNotMatchHashlock, None)
   \<and> createClaimTx stubLib (\<lambda>h n. None)
        (demoUpperCaseParams\<lparr>p_hashlock := toString_hex (replicate 32 171)\<rparr>)
        demoTxid 0 demoLetterSecret demoDestination (toString_hex demoKey) (Some 10)
       = Inr (txid (toHTLCTransaction stubLib (demoUpperCaseClaimTx, 1500)))"
proof -
  have net: "getNetwork stubLib (p_network demoUpperCaseParams) = Inr NETWORKS_testnet4"
    by (simp add: demoUpperCaseParams_def demoParams_def stub_getNetwork)
  have h: "p_hashlock demoUpperCaseParams = concat (replicate 32 ''AB'')"
    by (simp add: demoUpperCaseParams_def)
  have s: "crypto_sha256 stubLib (Buffer_from_hex demoLetterSecret) = replicate 32 171"
    by (simp add: demoLetterSecret_bytes stub_sha256_32)
  have digest: "Buffer_from_hex (p_hashlock demoUpperCaseParams)
                  = crypto_sha256 stubLib (Buffer_from_hex demoLetterSecret)"
    by (simp only: h s demoUpperCase_hashlock)
  have spelling: "p_hashlock demoUpperCaseParams
                    \<noteq> toString_hex (crypto_sha256 stubLib (Buffer_from_hex demoLetterSecret))"
  proof
    assume "p_hashlock demoUpperCaseParams
              = toString_hex (crypto_sha256 stubLib (Buffer_from_hex demoLetterSecret))"
    then have "hd (concat (replicate 32 ''AB'')) = hd (toString_hex (replicate 32 (171 :: byte)))"
      by (simp only: h s)
    then show False by code_simp
  qed
  note t = createClaimTx_rejects_the_right_secret[OF net digest spelling, of "\<lambda>h n. None" demoTxid 0
         demoDestination "toString_hex demoKey" "Some 10"]
  have accepted: "createClaimTx stubLib (\<lambda>h n. None)
        (demoUpperCaseParams\<lparr>p_hashlock := toString_hex (replicate 32 171)\<rparr>)
        demoTxid 0 demoLetterSecret demoDestination (toString_hex demoKey) (Some 10)
       = Inr (txid (toHTLCTransaction stubLib (demoUpperCaseClaimTx, 1500)))"
    using t
    by (simp add: s demoLetterSecret_bytes Buffer_from_hex_toString_hex feeRate_or_default_def
          demo_upper_case_claim stub_sha256_32)
  show ?thesis
    using t net digest spelling accepted by simp
qed

subsection \<open>C9: validating the address of an HTLC\<close>

text \<open>
  Claim C9, as stated, fails in two ways. An HTLC built for the network named testnet has
  an address that also validates against the network named testnet4, a different network
  for which \<open>getNetwork\<close> returns the same parameters. And the legacy address of
  an HTLC built for testnet validates against regtest, whose parameters differ from those
  of testnet but whose script-hash version byte is the same.
\<close>

theorem address_network_counterexample:
  "p_network demoParams = ''testnet''
   \<and> getNetwork stubLib ''testnet'' = Inr NETWORKS_testnet4
   \<and> createHTLC stubLib (new_HTLCBuilder (configOfParams demoParams NETWORKS_testnet4)) = Inr demoHTLC
   \<and> ''testnet4'' \<noteq> ''testnet''
   \<and> getNetwork stubLib ''testnet4'' = Inr NETWORKS_testnet4
   \<and> validateHTLCAddress stubLib (address demoHTLC) NETWORKS_testnet4
   \<and> createHTLC stubCodecLib (new_HTLCBuilder (configOfParams demoLegacyParams NETWORKS_testnet4))
       = Inr demoLegacyHTLC
   \<and> getNetwork stubCodecLib ''regtest'' = Inr (networks_regtest stubLib)
   \<and> networks_regtest stubLib \<noteq> NETWORKS_testnet4
   \<and> validateHTLCAddress stubCodecLib (address demoLegacyHTLC) (networks_regtest stubLib)"
proof -
  have "p_network demoParams = ''testnet''" by (simp add: demoParams_def)
  then have first: "p_network demoParams = ''testnet''
   \<and> getNetwork stubLib ''testnet'' = Inr NETWORKS_testnet4
   \<and> createHTLC stubLib (new_HTLCBuilder (configOfParams demoParams NETWORKS_testnet4)) = Inr demoHTLC
   \<and> ''testnet4'' \<noteq> ''testnet''
   \<and> getNetwork stubLib ''testnet4'' = Inr NETWORKS_testnet4
   \<and> validateHTLCAddress stubLib (address demoHTLC) NETWORKS_testnet4"
    by (simp add: stub_getNetwork demo_createHTLC validateHTLCAddress_def stub_selectors
          demoHTLC_def stubToOutputScript_stubAddress)
  have l: "length (crypto_hash160 stubLib (createHTLCScript demoBuilder)) = 20"
    using stub_digest_lengths(2) by (simp add: stubCodecLib_selectors)
  have e: "demoLegacyAddress
             = ''2'' @ toString_hex ((196 :: byte) # crypto_hash160 stubLib (createHTLCScript demoBuilder))"
    by (simp add: demoLegacyAddress_def toString_hex_def hexChar_def)
  have t: "toBase58Check stubCodec (crypto_hash160 stubLib (createHTLCScript demoBuilder))
             (net_scriptHash NETWORKS_testnet4) = Some demoLegacyAddress"
    unfolding e by (simp add: stubCodec_def l stub_network_fields)
  have d: "fromBase58Check stubCodec demoLegacyAddress
             = Some (196, crypto_hash160 stubLib (createHTLCScript demoBuilder))"
    using stubCodec_base58 t stub_network_fields(2) by metis
  have v: "validateHTLCAddress stubCodecLib (address demoLegacyHTLC) (networks_regtest stubLib)"
    using toOutputScript_base58[OF d l, of "networks_regtest stubLib"]
    by (simp add: validateHTLCAddress_iff stubCodecLib_selectors demoLegacyHTLC_def
          stub_network_fields)
  have ne: "networks_regtest stubLib \<noteq> NETWORKS_testnet4"
  proof
    assume "networks_regtest stubLib = NETWORKS_testnet4"
    then have "bech32 (networks_regtest stubLib) = bech32 NETWORKS_testnet4" by simp
    then show False by (simp add: stub_network_fields)
  qed
  show ?thesis
    using first v ne by (simp add: demo_createHTLC_legacy stubCodec_getNetwork)
qed

text \<open>
  Claim C9, amended. Let the address functions of the library be
  \<open>fromOutputScript\<close> and \<open>toOutputScript\<close> over a codec that decodes
  what it encoded for the network N, with digests of 32 and 20 bytes and pairwise distinct
  Bech32 prefixes of the three networks. Then the address of an HTLC built for N validates
  against N. In SegWit mode it validates against a network exactly when that network has
  the Bech32 prefix of N, so among the networks of \<open>getNetwork\<close> it validates
  against N and fails against every other one. In legacy mode it validates against a
  network exactly when the script-hash version byte of N is the public-key-hash or the
  script-hash version byte of that network. Network names are not networks: the address
  validates under every name that \<open>getNetwork\<close> maps to N, and testnet and
  testnet4 are two such names.
\<close>

theorem address_validates_on_own_network:
  assumes from_lib: "address_fromOutputScript lib = fromOutputScript codec"
    and to_lib: "address_toOutputScript lib = toOutputScript codec"
    and sha256_length: "\<forall>x. length (crypto_sha256 lib x) = 32"
    and hash160_length: "\<forall>x. length (crypto_hash160 lib x) = 20"
    and bech32_codec: "\<forall>data a. toBech32 codec data 0 (bech32 n) = Some a \<longrightarrow>
                          fromBase58Check codec a = None
                          \<and> fromBech32 codec a = Some (0, bech32 n, data)"
    and base58_codec: "\<forall>hash' a. toBase58Check codec hash' (net_scriptHash n) = Some a \<longrightarrow>
                          fromBase58Check codec a = Some (net_scriptHash n, hash')"
    and prefixes: "distinct [bech32 (networks_bitcoin lib), bech32 (networks_testnet lib),
                             bech32 (networks_regtest lib)]"
    and net: "getNetwork lib name = Inr n"
    and built: "createHTLC lib (new_HTLCBuilder (configOfParams params n)) = Inr htlc"
  shows "validateHTLCAddress lib (address htlc) n
       \<and> (truthy (p_useSegwit params) \<longrightarrow>
            (\<forall>n'. validateHTLCAddress lib (address htlc) n' = (bech32 n' = bech32 n))
            \<and> (\<forall>name' n'. getNetwork lib name' = Inr n' \<longrightarrow>
                  validateHTLCAddress lib (address htlc) n' = (n' = n)))
       \<and> (\<not> truthy (p_useSegwit params) \<longrightarrow>
            (\<forall>n'. validateHTLCAddress lib (address htlc) n'
                    = (pubKeyHash n' = net_scriptHash n \<or> net_scriptHash n' = net_scriptHash n)))
       \<and> (\<forall>name'. getNetwork lib name' = getNetwork lib name \<longrightarrow>
            (\<exists>n'. getNetwork lib name' = Inr n' \<and> validateHTLCAddress lib (address htlc) n'))
       \<and> getNetwork lib ''testnet4'' = getNetwork lib ''testnet''"
proof -
  let ?b = "new_HTLCBuilder (configOfParams params n)"
  have cfg: "network (config ?b) = n" "useSegwit (config ?b) = p_useSegwit params"
    by (simp_all add: new_HTLCBuilder_def configOfParams_def)
  have addr: "fromOutputScript codec (lockingScript htlc) n = Some (address htlc)"
    using createHTLC_address[OF built] cfg(1) from_lib by simp
  have segwit: "validateHTLCAddress lib (address htlc) n' = (bech32 n' = bech32 n)"
    if seg: "truthy (p_useSegwit params)" for n'
  proof -
    let ?d = "crypto_sha256 lib (createHTLCScript ?b)"
    have len: "length ?d = 32" using sha256_length by simp
    have "lockingScript htlc = script_compile [Op OP_0, Data ?d]"
      using createHTLC_segwit(3,4)[OF built] seg cfg(2) by simp
    with addr have "toBech32 codec ?d 0 (bech32 n) = Some (address htlc)"
      by (simp add: fromOutputScript_p2wsh[OF len])
    with bech32_codec have "fromBase58Check codec (address htlc) = None"
      "fromBech32 codec (address htlc) = Some (0, bech32 n, ?d)" by blast+
    from toOutputScript_bech32[OF this len, of n'] show ?thesis
      by (auto simp: validateHTLCAddress_iff to_lib)
  qed
  have legacy: "validateHTLCAddress lib (address htlc) n'
                  = (pubKeyHash n' = net_scriptHash n \<or> net_scriptHash n' = net_scriptHash n)"
    if leg: "\<not> truthy (p_useSegwit params)" for n'
  proof -
    let ?d = "crypto_hash160 lib (createHTLCScript ?b)"
    have len: "length ?d = 20" using hash160_length by simp
    have "lockingScript htlc = script_compile [Op OP_HASH160, Data ?d, Op OP_EQUAL]"
      using createHTLC_legacy(1)[OF built] leg cfg(2) by simp
    with addr have "toBase58Check codec ?d (net_scriptHash n) = Some (address htlc)"
      by (simp add: fromOutputScript_p2sh[OF len])
    with base58_codec have "fromBase58Check codec (address htlc) = Some (net_scriptHash n, ?d)"
      by blast
    from toOutputScript_base58[OF this len, of n'] show ?thesis
      by (auto simp: validateHTLCAddress_iff to_lib)
  qed
  have own: "validateHTLCAddress lib (address htlc) n"
    using segwit[of n] legacy[of n] by (cases "truthy (p_useSegwit params)") simp_all
  have names: "validateHTLCAddress lib (address htlc) n' = (n' = n)"
    if seg: "truthy (p_useSegwit params)" and n': "getNetwork lib name' = Inr n'" for name' n'
    using segwit[OF seg, of n'] getNetwork_cases[OF net] getNetwork_cases[OF n'] prefixes
    by auto
  show ?thesis
    using own segwit legacy names net by (simp add: getNetwork_testnet4)
qed

text \<open>
  The theorem at the parameters of the scenario, on testnet: the SegWit address validates
  on testnet and fails on mainnet and on regtest; the legacy address validates on testnet
  and fails on mainnet.
\<close>

theorem address_validates_on_own_network_witness:
  "getNetwork stubCodecLib ''testnet'' = Inr NETWORKS_testnet4
   \<and> createHTLC stubCodecLib (new_HTLCBuilder (configOfParams demoParams NETWORKS_testnet4))
       = Inr (demoHTLC\<lparr>address := demoSegwitAddress\<rparr>)
   \<and> truthy (p_useSegwit demoParams)
   \<and> validateHTLCAddress stubCodecLib demoSegwitAddress NETWORKS_testnet4
   \<and> getNetwork stubCodecLib ''mainnet'' = Inr (networks_bitcoin stubLib)
   \<and> \<not> validateHTLCAddress stubCodecLib demoSegwitAddress (networks_bitcoin stubLib)
   \<and> getNetwork stubCodecLib ''regtest'' = Inr (networks_regtest stubLib)
   \<and> \<not> validateHTLCAddress stubCodecLib demoSegwitAddress (networks_regtest stubLib)
   \<and> getNetwork stubCodecLib ''testnet4'' = Inr NETWORKS_testnet4
   \<and> createHTLC stubCodecLib (new_HTLCBuilder (configOfParams demoLegacyParams NETWORKS_testnet4))
       = Inr demoLegacyHTLC
   \<and> \<not> truthy (p_useSegwit demoLegacyParams)
   \<and> validateHTLCAddress stubCodecLib demoLegacyAddress NETWORKS_testnet4
   \<and> \<not> validateHTLCAddress stubCodecLib demoLegacyAddress (networks_bitcoin stubLib)"
proof -
  note hyps = stubCodecLib_selectors(3) stubCodecLib_selectors(4)
    stub_digest_lengths(1)[THEN allI] stub_digest_lengths(2)[THEN allI]
    stubCodec_bech32 stubCodec_base58 stub_prefixes stubCodec_getNetwork(1)
  have s: "truthy (p_useSegwit demoParams)" "\<not> truthy (p_useSegwit demoLegacyParams)"
    by (simp_all add: demoParams_def demoLegacyParams_def truthy_def)
  have a: "address (demoHTLC\<lparr>address := demoSegwitAddress\<rparr>) = demoSegwitAddress"
    "address demoLegacyHTLC = demoLegacyAddress"
    by (simp_all add: demoLegacyHTLC_def)
  note segwit = address_validates_on_own_network[OF hyps demo_createHTLC_codec]
  note legacy = address_validates_on_own_network[OF hyps demo_createHTLC_legacy]
  have "validateHTLCAddress stubCodecLib demoSegwitAddress NETWORKS_testnet4"
    "\<not> validateHTLCAddress stubCodecLib demoSegwitAddress (networks_bitcoin stubLib)"
    "\<not> validateHTLCAddress stubCodecLib demoSegwitAddress (networks_regtest stubLib)"
    using segwit s(1) by (simp_all add: a stub_network_fields)
  moreover have "validateHTLCAddress stubCodecLib demoLegacyAddress NETWORKS_testnet4"
    "\<not> validateHTLCAddress stubCodecLib demoLegacyAddress (networks_bitcoin stubLib)"
    using legacy s(2) by (simp_all add: a stub_network_fields)
  ultimately show ?thesis
    using s by (simp add: stubCodec_getNetwork demo_createHTLC_codec demo_createHTLC_legacy)
qed

subsection \<open>C10: claim and refund in legacy mode\<close>

text \<open>
  Claim C10. With the segwit flag false or absent, \<open>createClaimTransaction\<close> and
  \<open>createRefundTransaction\<close> fail: either the library failed to derive the HTLC or
  the key pair, before any Psbt existed, or they raise their own error at a new Psbt, which
  has no input and no output.
\<close>

theorem legacy_claim_and_refund_rejected:
  assumes "\<not> truthy (useSegwit (config b))"
  shows "(createClaimTransaction lib b htlcTxid htlcVout htlcAmount sec dest feeRate key
            = Inl (LibraryError, None)
          \<or> createClaimTransaction lib b htlcTxid htlcVout htlcAmount sec dest feeRate key
            = Inl (P2SHClaimRequiresFundingHex, Some (new_Psbt (network (config b)))))
       \<and> (createRefundTransaction lib b htlcTxid htlcVout htlcAmount dest feeRate key
            = Inl (LibraryError, None)
          \<or> createRefundTransaction lib b htlcTxid htlcVout htlcAmount dest feeRate key
            = Inl (P2SHRefundRequiresFundingHex, Some (new_Psbt (network (config b)))))
       \<and> inputs (new_Psbt (network (config b))) = []
       \<and> outputs (new_Psbt (network (config b))) = []"
  using assms
  by (auto simp: createClaimTransaction_def claimTransaction_def createRefundTransaction_def
        refundTransaction_def new_Psbt_def createHTLC_def Let_def split: sum.splits option.splits)

text \<open>
The theorem at the configuration of the scenario without the segwit flag.
\<close>

theorem legacy_claim_and_refund_rejected_witness:
  "\<not> truthy (useSegwit (config demoLegacyBuilder))
   \<and> createClaimTransaction stubLib demoLegacyBuilder demoTxid 0 100000 demoSecret demoDestination
        (Some 10) demoKey
       = Inl (P2SHClaimRequiresFundingHex, Some (new_Psbt NETWORKS_testnet4))
   \<and> createRefundTransaction stubLib demoLegacyBuilder demoTxid 0 100000 demoDestination
        (Some 10) demoKey
       = Inl (P2SHRefundRequiresFundingHex, Some (new_Psbt NETWORKS_testnet4))
   \<and> inputs (new_Psbt NETWORKS_testnet4) = []"
proof -
  have legacy: "\<not> truthy (useSegwit (config demoLegacyBuilder))"
    by (simp add: demoLegacyBuilder_def new_HTLCBuilder_def truthy_def)
  have net: "network (config demoLegacyBuilder) = NETWORKS_testnet4"
    by (simp add: demoLegacyBuilder_def new_HTLCBuilder_def demoConfig_def)
  have c: "createClaimTransaction stubLib demoLegacyBuilder demoTxid 0 100000 demoSecret
             demoDestination (Some 10) demoKey \<noteq> Inl (LibraryError, None)"
    by (simp add: createClaimTransaction_def claimTransaction_def createHTLC_def Let_def
          stub_selectors demo_lengths legacy)
  have r: "createRefundTransaction stubLib demoLegacyBuilder demoTxid 0 100000
             demoDestination (Some 10) demoKey \<noteq> Inl (LibraryError, None)"
    by (simp add: createRefundTransaction_def refundTransaction_def createHTLC_def Let_def
          stub_selectors demo_lengths legacy)
  from legacy_claim_and_refund_rejected[OF legacy, of stubLib demoTxid 0 100000 demoSecret
         demoDestination "Some 10" demoKey] c r legacy
  show ?thesis by (simp add: net)
qed

end
